theory Spec2Isabelle
  imports Main "HOL-Library.Word"
begin

unbundle bit_operations_syntax

section \<open>Bytes, byte order and the seekable byte source\<close>

text \<open>
  The Stata reader of \<^verbatim>\<open>datareader\<close> decodes a dta file from an \<^verbatim>\<open>io.ReadSeeker\<close>.
  A Go byte is modelled as a \<^typ>\<open>char\<close> (eight bits), so that a Go \<^verbatim>\<open>[]byte\<close> and a Go
  \<^verbatim>\<open>string\<close> are both a \<^typ>\<open>char list\<close>, and \<^verbatim>\<open>string(buf)\<close> is the identity.

  The byte source is a finite byte sequence with a cursor, behaving as \<^verbatim>\<open>bytes.Reader\<close>
  or a regular file does: a read delivers the bytes that are left (possibly fewer than asked
  for, possibly none), a seek behind the end succeeds, a seek to a negative position fails
  and leaves the cursor where it was. The source ignores every error that \<^verbatim>\<open>Read\<close>,
  \<^verbatim>\<open>Seek\<close> and \<^verbatim>\<open>binary.Read\<close> return; the model keeps what such a call leaves behind:
  a buffer keeps its old bytes behind a short read, a variable keeps its old value when
  \<^verbatim>\<open>binary.Read\<close> fails. Allocations of a non-negative length are taken to succeed.
\<close>

type_synonym byte = char

datatype byte_order = LittleEndian | BigEndian

record stream =
  content :: "byte list"
  pos :: nat

datatype error =
    InvalidVersion
  | InvalidFile
  | Panic string
  | SeriesError string

text \<open>Sequencing of steps that can fail: the first error ends the computation, as a Go
  \<^verbatim>\<open>return err\<close> or a panic does.\<close>

definition bindE :: "error + 'a \<Rightarrow> ('a \<Rightarrow> error + 'b) \<Rightarrow> error + 'b" where
  "bindE m f = (case m of Inl e \<Rightarrow> Inl e | Inr x \<Rightarrow> f x)"

definition avail :: "nat \<Rightarrow> stream \<Rightarrow> byte list" where
  "avail n s = take n (drop (pos s) (content s))"

text \<open>\<^verbatim>\<open>rdr.reader.Read(buf[0:n])\<close>: the first bytes of \<open>buf\<close> are overwritten by what the
  source delivers, the rest of \<open>buf\<close> stays.\<close>

definition Read_into :: "nat \<Rightarrow> byte list \<Rightarrow> stream \<Rightarrow> byte list \<times> stream" where
  "Read_into n buf s =
     (let got = avail n s
      in (got @ drop (length got) buf, s\<lparr>pos := pos s + length got\<rparr>))"

text \<open>\<^verbatim>\<open>io.ReadFull\<close>, as \<^verbatim>\<open>binary.Read\<close> calls it: all \<open>n\<close> bytes or a failure; the bytes
  that were there are consumed in both cases.\<close>

definition ReadFull :: "nat \<Rightarrow> stream \<Rightarrow> byte list option \<times> stream" where
  "ReadFull n s =
     (let got = avail n s
      in (if length got = n then Some got else None, s\<lparr>pos := pos s + length got\<rparr>))"

text \<open>\<^verbatim>\<open>Seek(off, 0)\<close> and \<^verbatim>\<open>Seek(off, 1)\<close>; positions are \<^verbatim>\<open>int64\<close>.\<close>

definition Seek_set :: "int \<Rightarrow> stream \<Rightarrow> stream" where
  "Seek_set off s = (if off < 0 then s else s\<lparr>pos := nat off\<rparr>)"

definition Seek_cur :: "int \<Rightarrow> stream \<Rightarrow> stream" where
  "Seek_cur off s =
     (let p = int (pos s) + off
      in if p < 0 \<or> 2 ^ 63 \<le> p then s else s\<lparr>pos := nat p\<rparr>)"

definition be_nat :: "byte list \<Rightarrow> nat" where
  "be_nat bs = foldl (\<lambda>a b. a * 256 + of_char b) 0 bs"

definition uint_of :: "byte_order \<Rightarrow> byte list \<Rightarrow> nat" where
  "uint_of bo bs = (case bo of BigEndian \<Rightarrow> be_nat bs | LittleEndian \<Rightarrow> be_nat (rev bs))"

text \<open>\<^verbatim>\<open>binary.Read(rdr.reader, order, &x)\<close> for an integer \<open>x\<close> of \<open>LENGTH('a)\<close> bits:
  on a short read \<open>x\<close> keeps its value.\<close>

definition binary_Read :: "byte_order \<Rightarrow> 'a::len word \<Rightarrow> stream \<Rightarrow> 'a word \<times> stream" where
  "binary_Read bo x s =
     (case ReadFull (LENGTH('a) div 8) s of
        (Some bs, s') \<Rightarrow> (of_nat (uint_of bo bs), s')
      | (None, s') \<Rightarrow> (x, s'))"

text \<open>Returns everything before the first null byte.\<close>

fun partition_bytes :: "byte list \<Rightarrow> byte list" where
  "partition_bytes [] = []"
| "partition_bytes (v # b) = (if v = CHR 0x00 then [] else v # partition_bytes b)"

text \<open>\<^verbatim>\<open>strings.Index(s, p) == 0\<close>\<close>

definition has_prefix :: "string \<Rightarrow> string \<Rightarrow> bool" where
  "has_prefix p s = (take (length p) s = p)"

text \<open>\<^verbatim>\<open>fmt.Sprintf("%v", x)\<close> for an integer: its decimal numeral.\<close>

fun show_nat :: "nat \<Rightarrow> string" where
  "show_nat n =
     (if n < 10 then [char_of (48 + n)]
      else show_nat (n div 10) @ [char_of (48 + n mod 10)])"

declare show_nat.simps [simp del]

definition Sprintf_v :: "int \<Rightarrow> string" where
  "Sprintf_v x = (if x < 0 then CHR ''-'' # show_nat (nat (- x)) else show_nat (nat x))"

section \<open>The reader state\<close>

definition supported_dta_versions :: "int list" where
  "supported_dta_versions = [114, 115, 117, 118]"

text \<open>A Go map literal read at a key: the zero value where the key is absent.\<close>

definition lookup0 :: "(int \<times> int) list \<Rightarrow> int \<Rightarrow> int" where
  "lookup0 m k = (case map_of m k of None \<Rightarrow> 0 | Some w \<Rightarrow> w)"

definition row_count_width :: "int \<Rightarrow> int" where
  "row_count_width = lookup0 [(114, 4), (115, 4), (117, 4), (118, 8)]"

definition nvar_width :: "int \<Rightarrow> int" where
  "nvar_width = lookup0 [(114, 2), (115, 2), (117, 2), (118, 2)]"

definition dataset_label_width :: "int \<Rightarrow> int" where
  "dataset_label_width = lookup0 [(117, 1), (118, 2)]"

record StataReader =
  InsertStrls :: bool
  InsertCategoryLabels :: bool
  ConvertDates :: bool
  DatasetLabel :: string
  TimeStamp :: string
  Nvar :: int
  RowCount :: int
  VarTypes :: "16 word list"
  column_names :: "string list"
  ColumnNamesLong :: "string list"
  ValueLabels :: "string \<rightharpoonup> (32 word \<rightharpoonup> string)"
  ValueLabelNames :: "string list"
  Formats :: "string list"
  Strls :: "64 word \<rightharpoonup> string"
  StrlsBytes :: "64 word \<rightharpoonup> byte list"
  FormatVersion :: int
  ByteOrder :: byte_order
  rows_read :: int
  seek_vartypes :: "64 word"
  seek_varnames :: "64 word"
  seek_sortlist :: "64 word"
  seek_formats :: "64 word"
  seek_value_label_names :: "64 word"
  seek_variable_labels :: "64 word"
  seek_characteristics :: "64 word"
  seek_data :: "64 word"
  seek_strls :: "64 word"
  seek_value_labels :: "64 word"
  is_date :: "bool list"
  reader :: stream

definition supported_version :: "StataReader \<Rightarrow> bool" where
  "supported_version rdr = list_ex (\<lambda>v. FormatVersion rdr = v) supported_dta_versions"

text \<open>For another width \<^verbatim>\<open>read_int\<close> writes a message to the standard error stream and
  panics with the empty string.\<close>

definition read_int :: "int \<Rightarrow> byte_order \<Rightarrow> stream \<Rightarrow> error + (int \<times> stream)" where
  "read_int width bo s =
     (if width = 1 then (case binary_Read bo (0 :: 8 word) s of (x, s') \<Rightarrow> Inr (sint x, s'))
      else if width = 2 then (case binary_Read bo (0 :: 16 word) s of (x, s') \<Rightarrow> Inr (sint x, s'))
      else if width = 4 then (case binary_Read bo (0 :: 32 word) s of (x, s') \<Rightarrow> Inr (sint x, s'))
      else if width = 8 then (case binary_Read bo (0 :: 64 word) s of (x, s') \<Rightarrow> Inr (sint x, s'))
      else Inl (Panic []))"

text \<open>\<^verbatim>\<open>read_uint\<close> converts the unsigned value to Go's 64-bit \<^verbatim>\<open>int\<close>, so a \<^verbatim>\<open>uint64\<close>
  of \<open>2^63\<close> or more comes out negative.\<close>

definition read_uint :: "int \<Rightarrow> byte_order \<Rightarrow> stream \<Rightarrow> error + (int \<times> stream)" where
  "read_uint width bo s =
     (if width = 1 then (case binary_Read bo (0 :: 8 word) s of (x, s') \<Rightarrow> Inr (uint x, s'))
      else if width = 2 then (case binary_Read bo (0 :: 16 word) s of (x, s') \<Rightarrow> Inr (uint x, s'))
      else if width = 4 then (case binary_Read bo (0 :: 32 word) s of (x, s') \<Rightarrow> Inr (uint x, s'))
      else if width = 8 then (case binary_Read bo (0 :: 64 word) s of (x, s') \<Rightarrow> Inr (sint x, s'))
      else Inl (Panic ''unsupported width in read_int''))"

section \<open>The header\<close>

text \<open>\<^verbatim>\<open>read_old_header\<close> reads the pre version 117 header.\<close>

definition read_old_header :: "StataReader \<Rightarrow> error + StataReader" where
  "read_old_header rdr =
     (let buf = replicate 81 (CHR 0x00);
          (format, s) = binary_Read LittleEndian (0 :: 8 word) (reader rdr);
          rdr = rdr\<lparr>FormatVersion := uint format\<rparr>
      in if \<not> supported_version rdr then Inl InvalidVersion
         else
           let (bo, s) = binary_Read LittleEndian (0 :: 8 word) s;
               rdr = rdr\<lparr>ByteOrder := (if bo = 1 then BigEndian else LittleEndian)\<rparr>;
               s = Seek_cur 2 s
           in bindE (read_int (nvar_width (FormatVersion rdr)) (ByteOrder rdr) s) (\<lambda>(nvar, s).
              bindE (read_int (row_count_width (FormatVersion rdr)) (ByteOrder rdr) s) (\<lambda>(nrow, s).
                let (buf, s) = Read_into 81 buf s;
                    label = partition_bytes (take 81 buf);
                    (buf, s) = Read_into 18 buf s;
                    ts = partition_bytes (take 18 buf)
                in Inr (rdr\<lparr>Nvar := nvar, RowCount := nrow, DatasetLabel := label,
                             TimeStamp := ts, reader := s\<rparr>))))"

text \<open>
  \<^verbatim>\<open>strconv.ParseUint(string(buf[0:3]), 0, 64)\<close> on the three release bytes. Three decimal
  digits without a leading zero are read as that number. Every other three-byte string
  is either rejected by \<^verbatim>\<open>ParseUint\<close> or, in base 0, denotes a number below 100 (a base
  prefix, a leading zero, an underscore), which \<^verbatim>\<open>supported_version\<close> rejects: in both
  cases \<^verbatim>\<open>read_new_header\<close> returns an error. The model has one error value for the
  two returns.
\<close>

definition digit_val :: "char \<Rightarrow> nat option" where
  "digit_val c =
     (let n = (of_char c :: nat) in if 48 \<le> n \<and> n \<le> 57 then Some (n - 48) else None)"

definition ParseUint3 :: "string \<Rightarrow> int option" where
  "ParseUint3 s =
     (case map digit_val s of
        [Some a, Some b, Some c] \<Rightarrow>
          if a = 0 then None else Some (int (100 * a + 10 * b + c))
      | _ \<Rightarrow> None)"

text \<open>\<^verbatim>\<open>read_new_header\<close> reads a new-style xml header (versions 117+).\<close>

definition read_new_header :: "StataReader \<Rightarrow> error + StataReader" where
  "read_new_header rdr =
     (let buf = replicate 500 (CHR 0x00);
          (buf, s) = Read_into 28 buf (reader rdr)
      in if take 11 buf \<noteq> ''<stata_dta>'' then Inl InvalidFile
         else
           let (buf, s) = Read_into 3 buf s
           in case ParseUint3 (take 3 buf) of
                None \<Rightarrow> Inl InvalidVersion
              | Some x \<Rightarrow>
                  (let rdr = rdr\<lparr>FormatVersion := x\<rparr>
                   in if \<not> supported_version rdr then Inl InvalidVersion
                      else
                        let s = Seek_cur 21 s;
                            (buf, s) = Read_into 3 buf s;
                            rdr = rdr\<lparr>ByteOrder :=
                                    (if take 3 buf = ''MSF'' then BigEndian else LittleEndian)\<rparr>;
                            s = Seek_cur 15 s
                        in bindE (read_int (nvar_width (FormatVersion rdr)) (ByteOrder rdr) s)
                             (\<lambda>(nvar, s).
                           bindE (read_int (row_count_width (FormatVersion rdr)) (ByteOrder rdr)
                                    (Seek_cur 7 s))
                             (\<lambda>(nrow, s).
                           bindE (read_uint (dataset_label_width (FormatVersion rdr)) (ByteOrder rdr)
                                    (Seek_cur 11 s))
                             (\<lambda>(w, s).
                           if w < 0 \<or> 500 < w then Inl (Panic ''slice bounds out of range'')
                           else
                             let (buf, s) = Read_into (nat w) buf s;
                                 label = take (nat w) buf;
                                 s = Seek_cur 19 s;
                                 (n8, s) = binary_Read (ByteOrder rdr) (0 :: 8 word) s;
                                 (buf, s) = Read_into (unat n8) buf s;
                                 ts = take (unat n8) buf;
                                 s = Seek_cur 42 s;
                                 (m1, s) = binary_Read (ByteOrder rdr) (seek_vartypes rdr) s;
                                 (m2, s) = binary_Read (ByteOrder rdr) (seek_varnames rdr) s;
                                 (m3, s) = binary_Read (ByteOrder rdr) (seek_sortlist rdr) s;
                                 (m4, s) = binary_Read (ByteOrder rdr) (seek_formats rdr) s;
                                 (m5, s) = binary_Read (ByteOrder rdr) (seek_value_label_names rdr) s;
                                 (m6, s) = binary_Read (ByteOrder rdr) (seek_variable_labels rdr) s;
                                 (m7, s) = binary_Read (ByteOrder rdr) (seek_characteristics rdr) s;
                                 (m8, s) = binary_Read (ByteOrder rdr) (seek_data rdr) s;
                                 (m9, s) = binary_Read (ByteOrder rdr) (seek_strls rdr) s;
                                 (m10, s) = binary_Read (ByteOrder rdr) (seek_value_labels rdr) s
                             in Inr (rdr\<lparr>Nvar := nvar, RowCount := nrow, DatasetLabel := label,
                                          TimeStamp := ts, seek_vartypes := m1, seek_varnames := m2,
                                          seek_sortlist := m3, seek_formats := m4,
                                          seek_value_label_names := m5, seek_variable_labels := m6,
                                          seek_characteristics := m7, seek_data := m8,
                                          seek_strls := m9, seek_value_labels := m10,
                                          reader := s\<rparr>))))))"

section \<open>Variable types\<close>

fun read_u16s :: "nat \<Rightarrow> byte_order \<Rightarrow> stream \<Rightarrow> 16 word list \<times> stream" where
  "read_u16s 0 bo s = ([], s)"
| "read_u16s (Suc n) bo s =
     (case binary_Read bo (0 :: 16 word) s of (x, s') \<Rightarrow>
      case read_u16s n bo s' of (xs, s'') \<Rightarrow> (x # xs, s''))"

definition read_vartypes_16 :: "StataReader \<Rightarrow> error + StataReader" where
  "read_vartypes_16 rdr =
     (let s = Seek_set (sint (seek_vartypes rdr + 16)) (reader rdr)
      in if Nvar rdr < 0 then Inl (Panic ''makeslice: len out of range'')
         else case read_u16s (nat (Nvar rdr)) (ByteOrder rdr) s of
                (ts, s') \<Rightarrow> Inr (rdr\<lparr>VarTypes := ts, reader := s'\<rparr>))"

text \<open>The one-byte buffer \<open>b\<close> lives outside the loop: behind the end of the source every
  remaining type repeats the last byte read.\<close>

fun read_u8s :: "nat \<Rightarrow> byte_order \<Rightarrow> 8 word \<Rightarrow> stream \<Rightarrow> 16 word list \<times> stream" where
  "read_u8s 0 bo b s = ([], s)"
| "read_u8s (Suc n) bo b s =
     (case binary_Read bo b s of (b', s') \<Rightarrow>
      case read_u8s n bo b' s' of (xs, s'') \<Rightarrow> (ucast b' # xs, s''))"

definition read_vartypes_8 :: "StataReader \<Rightarrow> error + StataReader" where
  "read_vartypes_8 rdr =
     (if Nvar rdr < 0 then Inl (Panic ''makeslice: len out of range'')
      else case read_u8s (nat (Nvar rdr)) (ByteOrder rdr) 0 (reader rdr) of
             (ts, s') \<Rightarrow> Inr (rdr\<lparr>VarTypes := ts, reader := s'\<rparr>))"

definition read_vartypes :: "StataReader \<Rightarrow> error + StataReader" where
  "read_vartypes rdr =
     (if FormatVersion rdr = 118 then read_vartypes_16 rdr
      else if FormatVersion rdr = 117 then read_vartypes_16 rdr
      else if FormatVersion rdr = 115 then read_vartypes_8 rdr
      else if FormatVersion rdr = 114 then read_vartypes_8 rdr
      else Inl (Panic (''unknown format version '' @ Sprintf_v (FormatVersion rdr)
                      @ '' in read_vartypes'')))"

definition translate_vartype :: "16 word \<Rightarrow> error + 16 word" where
  "translate_vartype t =
     (if t \<le> 244 then Inr t
      else if t = 251 then Inr 65530
      else if t = 252 then Inr 65529
      else if t = 253 then Inr 65528
      else if t = 254 then Inr 65527
      else if t = 255 then Inr 65526
      else Inl (Panic ''unknown variable type %v in translate_vartypes''))"

text \<open>The loop \<^verbatim>\<open>for k := 0; k < int(rdr.Nvar); k++\<close> over \<^verbatim>\<open>rdr.VarTypes[k]\<close>, with \<open>n\<close>
  rounds to go.\<close>

fun translate_loop :: "nat \<Rightarrow> nat \<Rightarrow> 16 word list \<Rightarrow> error + 16 word list" where
  "translate_loop 0 k ts = Inr ts"
| "translate_loop (Suc n) k ts =
     (if length ts \<le> k then Inl (Panic ''index out of range'')
      else case translate_vartype (ts ! k) of
             Inl e \<Rightarrow> Inl e
           | Inr t \<Rightarrow> translate_loop n (Suc k) (ts[k := t]))"

definition translate_vartypes :: "StataReader \<Rightarrow> error + StataReader" where
  "translate_vartypes rdr =
     (case translate_loop (nat (Nvar rdr)) 0 (VarTypes rdr) of
        Inl e \<Rightarrow> Inl e
      | Inr ts \<Rightarrow> Inr (rdr\<lparr>VarTypes := ts\<rparr>))"

section \<open>Names, formats and labels\<close>

text \<open>The loop \<^verbatim>\<open>rdr.reader.Read(buf); x[k] = string(partition(buf))\<close>; the buffer is
  allocated once, before the loop.\<close>

fun read_strs :: "nat \<Rightarrow> byte list \<Rightarrow> stream \<Rightarrow> string list \<times> stream" where
  "read_strs 0 buf s = ([], s)"
| "read_strs (Suc n) buf s =
     (case Read_into (length buf) buf s of (buf', s') \<Rightarrow>
      case read_strs n buf' s' of (xs, s'') \<Rightarrow> (partition_bytes buf' # xs, s''))"

definition do_read_varnames :: "nat \<Rightarrow> bool \<Rightarrow> StataReader \<Rightarrow> error + StataReader" where
  "do_read_varnames bufsize seek rdr =
     (let buf = replicate bufsize (CHR 0x00);
          s = (if seek then Seek_set (sint (seek_varnames rdr + 10)) (reader rdr) else reader rdr)
      in if Nvar rdr < 0 then Inl (Panic ''makeslice: len out of range'')
         else case read_strs (nat (Nvar rdr)) buf s of
                (xs, s') \<Rightarrow> Inr (rdr\<lparr>column_names := xs, reader := s'\<rparr>))"

definition read_varnames :: "StataReader \<Rightarrow> error + StataReader" where
  "read_varnames rdr =
     (if FormatVersion rdr = 118 then do_read_varnames 129 True rdr
      else if FormatVersion rdr = 117 then do_read_varnames 129 True rdr
      else if FormatVersion rdr = 115 then do_read_varnames 33 False rdr
      else if FormatVersion rdr = 114 then do_read_varnames 33 False rdr
      else Inl (Panic (''unknown format version '' @ Sprintf_v (FormatVersion rdr)
                      @ '' in read_varnames'')))"

definition is_date_format :: "string \<Rightarrow> bool" where
  "is_date_format f = (if has_prefix ''%td'' f then True else if has_prefix ''%tc'' f then True else False)"

definition do_read_formats :: "nat \<Rightarrow> bool \<Rightarrow> StataReader \<Rightarrow> error + StataReader" where
  "do_read_formats bufsize seek rdr =
     (let buf = replicate bufsize (CHR 0x00);
          s = (if seek then Seek_set (sint (seek_formats rdr + 9)) (reader rdr) else reader rdr)
      in if Nvar rdr < 0 then Inl (Panic ''makeslice: len out of range'')
         else case read_strs (nat (Nvar rdr)) buf s of
                (xs, s') \<Rightarrow> Inr (rdr\<lparr>Formats := xs, is_date := map is_date_format xs, reader := s'\<rparr>))"

definition read_formats :: "StataReader \<Rightarrow> error + StataReader" where
  "read_formats rdr =
     (if FormatVersion rdr = 118 then do_read_formats 57 True rdr
      else if FormatVersion rdr = 117 then do_read_formats 57 True rdr
      else if FormatVersion rdr = 115 then do_read_formats 49 False rdr
      else if FormatVersion rdr = 114 then do_read_formats 49 False rdr
      else Inl (Panic (''unknown format version '' @ Sprintf_v (FormatVersion rdr)
                      @ '' in read_varnames'')))"

definition do_read_value_label_names :: "nat \<Rightarrow> bool \<Rightarrow> StataReader \<Rightarrow> error + StataReader" where
  "do_read_value_label_names bufsize seek rdr =
     (let buf = replicate bufsize (CHR 0x00);
          s = (if seek then Seek_set (sint (seek_value_label_names rdr + 19)) (reader rdr)
               else reader rdr)
      in if Nvar rdr < 0 then Inl (Panic ''makeslice: len out of range'')
         else case read_strs (nat (Nvar rdr)) buf s of
                (xs, s') \<Rightarrow> Inr (rdr\<lparr>ValueLabelNames := xs, reader := s'\<rparr>))"

definition read_value_label_names :: "StataReader \<Rightarrow> error + StataReader" where
  "read_value_label_names rdr =
     (if FormatVersion rdr = 118 then do_read_value_label_names 129 True rdr
      else if FormatVersion rdr = 117 then do_read_value_label_names 129 True rdr
      else if FormatVersion rdr = 116 then do_read_value_label_names 33 False rdr
      else if FormatVersion rdr = 115 then do_read_value_label_names 33 False rdr
      else Inl (Panic (''unknown format version '' @ Sprintf_v (FormatVersion rdr)
                      @ '' in read_value_label_names'')))"

definition do_read_variable_labels :: "nat \<Rightarrow> bool \<Rightarrow> StataReader \<Rightarrow> error + StataReader" where
  "do_read_variable_labels bufsize seek rdr =
     (let buf = replicate bufsize (CHR 0x00);
          s = (if seek then Seek_set (sint (seek_variable_labels rdr + 17)) (reader rdr)
               else reader rdr)
      in if Nvar rdr < 0 then Inl (Panic ''makeslice: len out of range'')
         else case read_strs (nat (Nvar rdr)) buf s of
                (xs, s') \<Rightarrow> Inr (rdr\<lparr>ColumnNamesLong := xs, reader := s'\<rparr>))"

definition read_variable_labels :: "StataReader \<Rightarrow> error + StataReader" where
  "read_variable_labels rdr =
     (if FormatVersion rdr = 118 then do_read_variable_labels 321 True rdr
      else if FormatVersion rdr = 117 then do_read_variable_labels 321 True rdr
      else if FormatVersion rdr = 115 then do_read_variable_labels 81 False rdr
      else if FormatVersion rdr = 114 then do_read_variable_labels 81 False rdr
      else Inr rdr)"

section \<open>Expansion fields, long strings and value labels\<close>

text \<open>
  The three scans below run until a sentinel is read. Nothing bounds them: behind the
  end of the source the variables keep their last values, so a scan can go on for ever.
  They are partial functions, \<open>None\<close> standing for a call that does not return.
\<close>

partial_function (option) read_expansion_fields_loop ::
    "byte_order \<Rightarrow> 8 word \<Rightarrow> 32 word \<Rightarrow> stream \<Rightarrow> stream option" where
  "read_expansion_fields_loop bo b i s =
     (case binary_Read bo b s of (b', s1) \<Rightarrow>
      case binary_Read bo i s1 of (i', s2) \<Rightarrow>
        if b' = 0 \<and> i' = 0 then Some s2
        else read_expansion_fields_loop bo b' i' (Seek_cur (sint i') s2))"

declare read_expansion_fields_loop.simps [code]

definition read_expansion_fields :: "StataReader \<Rightarrow> StataReader option" where
  "read_expansion_fields rdr =
     (case read_expansion_fields_loop (ByteOrder rdr) 0 0 (reader rdr) of
        None \<Rightarrow> None
      | Some s \<Rightarrow> Some (rdr\<lparr>reader := s\<rparr>))"

text \<open>The key under which a long string is stored: \<^verbatim>\<open>uint64(v) | (o << 16)\<close>.\<close>

definition strl_key :: "32 word \<Rightarrow> 64 word \<Rightarrow> 64 word" where
  "strl_key v off = ucast v OR push_bit 16 off"

text \<open>The variables of \<^verbatim>\<open>read_strls\<close> that are declared before its loop.\<close>

record gso_vars =
  gso_buf3 :: "byte list"
  gso_v :: "32 word"
  gso_o :: "64 word"
  gso_t :: "8 word"
  gso_length :: "32 word"

text \<open>One GSO record, behind its three-byte marker.\<close>

definition read_gso :: "gso_vars \<Rightarrow> StataReader \<Rightarrow> gso_vars \<times> StataReader" where
  "read_gso g rdr =
     (let (v, s) = binary_Read (ByteOrder rdr) (gso_v g) (reader rdr);
          (o', s) = binary_Read (ByteOrder rdr) (gso_o g) s;
          (t, s) = binary_Read (ByteOrder rdr) (gso_t g) s;
          (len, s) = binary_Read (ByteOrder rdr) (gso_length g) s;
          ky = strl_key v o';
          (buf, s) = Read_into (unat len) (replicate (unat len) (CHR 0x00)) s;
          g' = g\<lparr>gso_v := v, gso_o := o', gso_t := t, gso_length := len\<rparr>
      in if t = 130 then
           (g', rdr\<lparr>Strls := (Strls rdr)(ky \<mapsto> partition_bytes buf), reader := s\<rparr>)
         else if t = 129 then
           (g', rdr\<lparr>StrlsBytes := (StrlsBytes rdr)(ky \<mapsto> buf), reader := s\<rparr>)
         else (g', rdr\<lparr>reader := s\<rparr>))"

partial_function (option) read_strls_loop :: "gso_vars \<Rightarrow> StataReader \<Rightarrow> StataReader option" where
  "read_strls_loop g rdr =
     (case Read_into 3 (gso_buf3 g) (reader rdr) of (b, s) \<Rightarrow>
        if b \<noteq> ''GSO'' then Some (rdr\<lparr>reader := s\<rparr>)
        else case read_gso (g\<lparr>gso_buf3 := b\<rparr>) (rdr\<lparr>reader := s\<rparr>) of
               (g', rdr') \<Rightarrow> read_strls_loop g' rdr')"

declare read_strls_loop.simps [code]

definition read_strls :: "StataReader \<Rightarrow> StataReader option" where
  "read_strls rdr =
     (let s = Seek_set (sint (seek_strls rdr + 7)) (reader rdr);
          rdr = rdr\<lparr>Strls := Map.empty, StrlsBytes := Map.empty, reader := s\<rparr>;
          rdr = rdr\<lparr>Strls := (Strls rdr)(0 \<mapsto> [])\<rparr>
      in read_strls_loop
           \<lparr>gso_buf3 = replicate 3 (CHR 0x00), gso_v = 0, gso_o = 0, gso_t = 0, gso_length = 0\<rparr>
           rdr)"

fun read_i32s :: "nat \<Rightarrow> byte_order \<Rightarrow> stream \<Rightarrow> 32 word list \<times> stream" where
  "read_i32s 0 bo s = ([], s)"
| "read_i32s (Suc n) bo s =
     (case binary_Read bo (0 :: 32 word) s of (x, s') \<Rightarrow>
      case read_i32s n bo s' of (xs, s'') \<Rightarrow> (x # xs, s''))"

text \<open>\<^verbatim>\<open>vk[val[j]] = string(partition(buf[off[j]:]))\<close> for the \<open>j\<close> in turn; the slice
  expression panics for an offset outside the text block.\<close>

fun build_vk :: "32 word list \<Rightarrow> 32 word list \<Rightarrow> byte list \<Rightarrow> (32 word \<rightharpoonup> string)
    \<Rightarrow> error + (32 word \<rightharpoonup> string)" where
  "build_vk (off # offs) (v # vals) txt vk =
     (if sint off < 0 \<or> int (length txt) < sint off
      then Inl (Panic ''slice bounds out of range'')
      else build_vk offs vals txt (vk(v \<mapsto> partition_bytes (drop (nat (sint off)) txt))))"
| "build_vk _ _ txt vk = Inr vk"

text \<open>The variables of \<^verbatim>\<open>read_value_labels\<close> that are declared before its loop. The
  buffer is replaced in every round by one of the length of the text block, and the next
  round slices it as \<^verbatim>\<open>buf[0:5]\<close> and \<^verbatim>\<open>buf[0:129]\<close>, which panics when it is shorter.\<close>

record lbl_vars =
  lbl_buf :: "byte list"
  lbl_n :: "32 word"
  lbl_textlen :: "32 word"
  lbl_vl :: "string \<rightharpoonup> (32 word \<rightharpoonup> string)"

text \<open>One value-label table, behind its five-byte marker.\<close>

definition read_lbl :: "lbl_vars \<Rightarrow> StataReader \<Rightarrow> error + (lbl_vars \<times> StataReader)" where
  "read_lbl l rdr =
     (let s = Seek_cur 4 (reader rdr)
      in if length (lbl_buf l) < 129 then Inl (Panic ''slice bounds out of range'')
         else
           let (b, s) = Read_into 129 (lbl_buf l) s;
               labname = partition_bytes (take 129 b);
               s = Seek_cur 3 s;
               (n, s) = binary_Read (ByteOrder rdr) (lbl_n l) s;
               (textlen, s) = binary_Read (ByteOrder rdr) (lbl_textlen l) s
           in if sint n < 0 then Inl (Panic ''makeslice: len out of range'')
              else
                let (off, s) = read_i32s (nat (sint n)) (ByteOrder rdr) s;
                    (val, s) = read_i32s (nat (sint n)) (ByteOrder rdr) s
                in if sint textlen < 0 then Inl (Panic ''makeslice: len out of range'')
                   else
                     let (txt, s) = Read_into (nat (sint textlen))
                                      (replicate (nat (sint textlen)) (CHR 0x00)) s
                     in bindE (build_vk off val txt Map.empty) (\<lambda>vk.
                          Inr (l\<lparr>lbl_buf := txt, lbl_n := n, lbl_textlen := textlen,
                                 lbl_vl := (lbl_vl l)(labname \<mapsto> vk)\<rparr>,
                               rdr\<lparr>reader := Seek_cur 6 s\<rparr>)))"

partial_function (option) read_value_labels_loop ::
    "lbl_vars \<Rightarrow> StataReader \<Rightarrow> (error + StataReader) option" where
  "read_value_labels_loop l rdr =
     (if length (lbl_buf l) < 5 then Some (Inl (Panic ''slice bounds out of range''))
      else case Read_into 5 (lbl_buf l) (reader rdr) of (b, s) \<Rightarrow>
        (if take 5 b \<noteq> ''<lbl>'' then Some (Inr (rdr\<lparr>ValueLabels := lbl_vl l, reader := s\<rparr>))
         else (case read_lbl (l\<lparr>lbl_buf := b\<rparr>) (rdr\<lparr>reader := s\<rparr>) of
                 Inl e \<Rightarrow> Some (Inl e)
               | Inr (l', rdr') \<Rightarrow> read_value_labels_loop l' rdr')))"

declare read_value_labels_loop.simps [code]

definition read_value_labels :: "StataReader \<Rightarrow> (error + StataReader) option" where
  "read_value_labels rdr =
     read_value_labels_loop
       \<lparr>lbl_buf = replicate 321 (CHR 0x00), lbl_n = 0, lbl_textlen = 0, lbl_vl = Map.empty\<rparr>
       (rdr\<lparr>reader := Seek_set (sint (seek_value_labels rdr + 14)) (reader rdr)\<rparr>)"

section \<open>Initialisation\<close>

definition init :: "StataReader \<Rightarrow> (error + StataReader) option" where
  "init rdr =
     (let (c, s) = Read_into 1 (replicate 1 (CHR 0x00)) (reader rdr);
          rdr = rdr\<lparr>reader := Seek_set 0 s\<rparr>
      in case
           bindE (if c = ''<'' then read_new_header rdr else read_old_header rdr) (\<lambda>rdr.
           bindE (read_vartypes rdr) (\<lambda>rdr.
           bindE (if FormatVersion rdr < 117 then translate_vartypes rdr else Inr rdr) (\<lambda>rdr.
           bindE (read_varnames rdr) (\<lambda>rdr.
           bindE (read_formats
                    (if FormatVersion rdr < 117
                     then rdr\<lparr>reader := Seek_cur (2 * (Nvar rdr + 1)) (reader rdr)\<rparr>
                     else rdr)) (\<lambda>rdr.
           bindE (read_value_label_names rdr) (\<lambda>rdr.
           read_variable_labels rdr))))))
         of
           Inl e \<Rightarrow> Some (Inl e)
         | Inr rdr \<Rightarrow>
             (case (if FormatVersion rdr < 117 then read_expansion_fields rdr else Some rdr) of
                None \<Rightarrow> None
              | Some rdr \<Rightarrow>
                  (if FormatVersion rdr \<ge> 117 then
                     (case read_strls rdr of
                        None \<Rightarrow> None
                      | Some rdr \<Rightarrow> read_value_labels rdr)
                   else Some (Inr rdr))))"

text \<open>\<^verbatim>\<open>new(StataReader)\<close> with the three defaults set. The byte order is a nil interface
  in the source until a header sets it, and no code reads it before; here it has a value
  that is never used.\<close>

definition new_StataReader :: "stream \<Rightarrow> StataReader" where
  "new_StataReader r =
     \<lparr>InsertStrls = True, InsertCategoryLabels = True, ConvertDates = True,
      DatasetLabel = [], TimeStamp = [], Nvar = 0, RowCount = 0, VarTypes = [],
      column_names = [], ColumnNamesLong = [], ValueLabels = Map.empty,
      ValueLabelNames = [], Formats = [], Strls = Map.empty, StrlsBytes = Map.empty,
      FormatVersion = 0, ByteOrder = LittleEndian, rows_read = 0,
      seek_vartypes = 0, seek_varnames = 0, seek_sortlist = 0, seek_formats = 0,
      seek_value_label_names = 0, seek_variable_labels = 0, seek_characteristics = 0,
      seek_data = 0, seek_strls = 0, seek_value_labels = 0, is_date = [], reader = r\<rparr>"

definition NewStataReader :: "stream \<Rightarrow> (error + StataReader) option" where
  "NewStataReader r = init (new_StataReader r)"

section \<open>Columns and series\<close>

text \<open>
  The value of \<^verbatim>\<open>data[j]\<close>, an \<^verbatim>\<open>interface{}\<close> that is nil or holds a slice. A float
  is kept as its IEEE-754 bit pattern. A \<^verbatim>\<open>time.Time\<close> is kept as the number of
  nanoseconds since 1960-01-01T00:00:00 UTC (Go's time has no leap seconds, so a day is
  \<open>86400\<close> seconds).
\<close>

datatype column =
    ColNil
  | ColString "string list"
  | ColUint64 "64 word list"
  | ColFloat64 "64 word list"
  | ColFloat32 "32 word list"
  | ColInt32 "32 word list"
  | ColInt16 "16 word list"
  | ColInt8 "8 word list"
  | ColTime "int list"

fun col_len :: "column \<Rightarrow> nat" where
  "col_len ColNil = 0"
| "col_len (ColString xs) = length xs"
| "col_len (ColUint64 xs) = length xs"
| "col_len (ColFloat64 xs) = length xs"
| "col_len (ColFloat32 xs) = length xs"
| "col_len (ColInt32 xs) = length xs"
| "col_len (ColInt16 xs) = length xs"
| "col_len (ColInt8 xs) = length xs"
| "col_len (ColTime xs) = length xs"

record Series =
  Name :: string
  Data :: column
  Missing :: "bool list"

text \<open>
  Modelled from the spec: the type \<^verbatim>\<open>Series\<close> and its constructor \<^verbatim>\<open>NewSeries\<close> are
  not part of the source file. The spec describes the result as an ordered collection of
  named columns, each carrying its data together with a parallel missing-value flag
  vector, and as one typed column per variable, each paired with a boolean missing-value
  mask of identical length. So \<open>NewSeries\<close> pairs a typed column with a mask of its
  length, and returns its error for anything else.
\<close>

definition NewSeries :: "string \<Rightarrow> column \<Rightarrow> bool list \<Rightarrow> error + Series" where
  "NewSeries name v miss =
     (case v of
        ColNil \<Rightarrow> Inl (SeriesError ''unknown data type'')
      | _ \<Rightarrow> if col_len v \<noteq> length miss then Inl (SeriesError ''length mismatch'')
             else Inr \<lparr>Name = name, Data = v, Missing = miss\<rparr>)"

section \<open>Decoding rows\<close>

text \<open>The variables of \<^verbatim>\<open>Read\<close>: the columns, their missing masks and the scratch
  buffer of 2045 bytes.\<close>

record read_vars =
  rv_data :: "column list"
  rv_missing :: "bool list list"
  rv_buf :: "byte list"

text \<open>The tags for which the \<^verbatim>\<open>switch\<close> of \<^verbatim>\<open>Read\<close> has a case.\<close>

definition known_tag :: "16 word \<Rightarrow> bool" where
  "known_tag t = (t \<le> 2045 \<or> t = 32768 \<or> t = 65526 \<or> t = 65527 \<or> t = 65528
                  \<or> t = 65529 \<or> t = 65530)"

definition alloc_column :: "StataReader \<Rightarrow> nat \<Rightarrow> 16 word \<Rightarrow> column" where
  "alloc_column rdr nval t =
     (if t \<le> 2045 then ColString (replicate nval [])
      else if t = 32768 then
        (if InsertStrls rdr then ColString (replicate nval [])
         else ColUint64 (replicate nval 0))
      else if t = 65526 then ColFloat64 (replicate nval 0)
      else if t = 65527 then ColFloat32 (replicate nval 0)
      else if t = 65528 then ColInt32 (replicate nval 0)
      else if t = 65529 then ColInt16 (replicate nval 0)
      else if t = 65530 then
        (if InsertCategoryLabels rdr then ColString (replicate nval [])
         else ColInt8 (replicate nval 0))
      else ColNil)"

text \<open>The assignments \<^verbatim>\<open>data[j].([]T)[i] = v\<close>: the index and the type assertion
  panic where Go's do.\<close>

definition set_string :: "nat \<Rightarrow> nat \<Rightarrow> string \<Rightarrow> column list \<Rightarrow> error + column list" where
  "set_string i j v d =
     (if length d \<le> j then Inl (Panic ''index out of range'')
      else case d ! j of
             ColString xs \<Rightarrow>
               if length xs \<le> i then Inl (Panic ''index out of range'')
               else Inr (d[j := ColString (xs[i := v])])
           | _ \<Rightarrow> Inl (Panic ''interface conversion''))"

definition set_uint64 :: "nat \<Rightarrow> nat \<Rightarrow> 64 word \<Rightarrow> column list \<Rightarrow> error + column list" where
  "set_uint64 i j v d =
     (if length d \<le> j then Inl (Panic ''index out of range'')
      else case d ! j of
             ColUint64 xs \<Rightarrow>
               if length xs \<le> i then Inl (Panic ''index out of range'')
               else Inr (d[j := ColUint64 (xs[i := v])])
           | _ \<Rightarrow> Inl (Panic ''interface conversion''))"

definition set_float64 :: "nat \<Rightarrow> nat \<Rightarrow> 64 word \<Rightarrow> column list \<Rightarrow> error + column list" where
  "set_float64 i j v d =
     (if length d \<le> j then Inl (Panic ''index out of range'')
      else case d ! j of
             ColFloat64 xs \<Rightarrow>
               if length xs \<le> i then Inl (Panic ''index out of range'')
               else Inr (d[j := ColFloat64 (xs[i := v])])
           | _ \<Rightarrow> Inl (Panic ''interface conversion''))"

definition set_float32 :: "nat \<Rightarrow> nat \<Rightarrow> 32 word \<Rightarrow> column list \<Rightarrow> error + column list" where
  "set_float32 i j v d =
     (if length d \<le> j then Inl (Panic ''index out of range'')
      else case d ! j of
             ColFloat32 xs \<Rightarrow>
               if length xs \<le> i then Inl (Panic ''index out of range'')
               else Inr (d[j := ColFloat32 (xs[i := v])])
           | _ \<Rightarrow> Inl (Panic ''interface conversion''))"

definition set_int32 :: "nat \<Rightarrow> nat \<Rightarrow> 32 word \<Rightarrow> column list \<Rightarrow> error + column list" where
  "set_int32 i j v d =
     (if length d \<le> j then Inl (Panic ''index out of range'')
      else case d ! j of
             ColInt32 xs \<Rightarrow>
               if length xs \<le> i then Inl (Panic ''index out of range'')
               else Inr (d[j := ColInt32 (xs[i := v])])
           | _ \<Rightarrow> Inl (Panic ''interface conversion''))"

definition set_int16 :: "nat \<Rightarrow> nat \<Rightarrow> 16 word \<Rightarrow> column list \<Rightarrow> error + column list" where
  "set_int16 i j v d =
     (if length d \<le> j then Inl (Panic ''index out of range'')
      else case d ! j of
             ColInt16 xs \<Rightarrow>
               if length xs \<le> i then Inl (Panic ''index out of range'')
               else Inr (d[j := ColInt16 (xs[i := v])])
           | _ \<Rightarrow> Inl (Panic ''interface conversion''))"

definition set_int8 :: "nat \<Rightarrow> nat \<Rightarrow> 8 word \<Rightarrow> column list \<Rightarrow> error + column list" where
  "set_int8 i j v d =
     (if length d \<le> j then Inl (Panic ''index out of range'')
      else case d ! j of
             ColInt8 xs \<Rightarrow>
               if length xs \<le> i then Inl (Panic ''index out of range'')
               else Inr (d[j := ColInt8 (xs[i := v])])
           | _ \<Rightarrow> Inl (Panic ''interface conversion''))"

text \<open>\<^verbatim>\<open>if c { missing[j][i] = true }\<close>\<close>

definition flag_missing :: "bool \<Rightarrow> nat \<Rightarrow> nat \<Rightarrow> bool list list \<Rightarrow> error + bool list list" where
  "flag_missing c i j m =
     (if \<not> c then Inr m
      else if length m \<le> j then Inl (Panic ''index out of range'')
      else if length (m ! j) \<le> i then Inl (Panic ''index out of range'')
      else Inr (m[j := (m ! j)[i := True]]))"

text \<open>
  The missing-value tests of \<^verbatim>\<open>Read\<close>, in the order of the source. The integers are
  compared as signed numbers.
\<close>

definition int32_missing :: "32 word \<Rightarrow> bool" where
  "int32_missing x = (sint x > 2147483620 \<or> sint x < - 2147483647)"

definition int16_missing :: "16 word \<Rightarrow> bool" where
  "int16_missing x = (sint x > 32740 \<or> sint x < - 32767)"

definition int8_missing :: "8 word \<Rightarrow> bool" where
  "int8_missing x = (sint x < - 127 \<or> sint x > 100)"

text \<open>
  Floats are compared through their bit patterns. For a positive finite constant \<open>c\<close>,
  \<^verbatim>\<open>x > c\<close> holds iff the sign bit of \<open>x\<close> is clear, \<open>x\<close> is not a NaN (its pattern is at
  most that of \<open>+Inf\<close>) and the pattern of \<open>x\<close> is above that of \<open>c\<close>: the non-negative
  floats are ordered as their patterns are. \<^verbatim>\<open>x < -c\<close> holds iff the sign bit is set and
  the remaining bits satisfy the same two conditions. Go converts the constant
  \<^verbatim>\<open>8.988e307\<close> to the nearest \<^verbatim>\<open>float64\<close>, \<open>0x7FDFFF9359CC8104\<close>, and \<^verbatim>\<open>1.701e38\<close>
  to the nearest \<^verbatim>\<open>float32\<close>, \<open>0x7EFFF023\<close>.
\<close>

definition float64_gt :: "64 word \<Rightarrow> 64 word \<Rightarrow> bool" where
  "float64_gt x c = (\<not> bit x 63 \<and> x \<le> 0x7FF0000000000000 \<and> c < x)"

definition float64_lt_neg :: "64 word \<Rightarrow> 64 word \<Rightarrow> bool" where
  "float64_lt_neg x c =
     (bit x 63 \<and> (x AND 0x7FFFFFFFFFFFFFFF) \<le> 0x7FF0000000000000
      \<and> c < (x AND 0x7FFFFFFFFFFFFFFF))"

definition float32_gt :: "32 word \<Rightarrow> 32 word \<Rightarrow> bool" where
  "float32_gt x c = (\<not> bit x 31 \<and> x \<le> 0x7F800000 \<and> c < x)"

definition float32_lt_neg :: "32 word \<Rightarrow> 32 word \<Rightarrow> bool" where
  "float32_lt_neg x c =
     (bit x 31 \<and> (x AND 0x7FFFFFFF) \<le> 0x7F800000 \<and> c < (x AND 0x7FFFFFFF))"

definition float64_missing :: "64 word \<Rightarrow> bool" where
  "float64_missing x =
     (float64_gt x 0x7FDFFF9359CC8104 \<or> float64_lt_neg x 0x7FDFFF9359CC8104)"

definition float32_missing :: "32 word \<Rightarrow> bool" where
  "float32_missing x = (float32_gt x 0x7EFFF023 \<or> float32_lt_neg x 0x7EFFF023)"

text \<open>\<^verbatim>\<open>rdr.Strls[ptr]\<close>: the zero value, the empty string, where the key is absent.\<close>

definition Strls_at :: "StataReader \<Rightarrow> 64 word \<Rightarrow> string" where
  "Strls_at rdr ptr = (case Strls rdr ptr of None \<Rightarrow> [] | Some v \<Rightarrow> v)"

text \<open>The address \<^verbatim>\<open>&(data[j].([]uint64)[i])\<close>, read at once.\<close>

definition get_uint64 :: "nat \<Rightarrow> nat \<Rightarrow> column list \<Rightarrow> error + 64 word" where
  "get_uint64 i j d =
     (if length d \<le> j then Inl (Panic ''index out of range'')
      else case d ! j of
             ColUint64 xs \<Rightarrow>
               if length xs \<le> i then Inl (Panic ''index out of range'') else Inr (xs ! i)
           | _ \<Rightarrow> Inl (Panic ''interface conversion''))"

text \<open>The label of a byte value \<open>x\<close> in column \<open>j\<close>, or its numeral.\<close>

definition category_label :: "StataReader \<Rightarrow> nat \<Rightarrow> 8 word \<Rightarrow> error + string" where
  "category_label rdr j x =
     (if length (ValueLabelNames rdr) \<le> j then Inl (Panic ''index out of range'')
      else
        let labname = ValueLabelNames rdr ! j
        in case ValueLabels rdr labname of
             None \<Rightarrow> Inr (Sprintf_v (sint x))
           | Some mp \<Rightarrow>
               (case mp (scast x) of
                  Some v \<Rightarrow> Inr v
                | None \<Rightarrow> Inr (Sprintf_v (sint x))))"

text \<open>The body of the loop over the columns: row \<open>i\<close>, column \<open>j\<close>.\<close>

definition read_cell :: "nat \<Rightarrow> nat \<Rightarrow> StataReader \<Rightarrow> read_vars \<Rightarrow> error + (StataReader \<times> read_vars)" where
  "read_cell i j rdr rv =
     (if length (VarTypes rdr) \<le> j then Inl (Panic ''index out of range'')
      else
        let t = VarTypes rdr ! j
        in if t \<le> 2045 then
             (let (b, s) = Read_into (unat t) (rv_buf rv) (reader rdr)
              in bindE (set_string i j (partition_bytes (take (unat t) b)) (rv_data rv)) (\<lambda>d.
                 Inr (rdr\<lparr>reader := s\<rparr>, rv\<lparr>rv_data := d, rv_buf := b\<rparr>)))
           else if t = 32768 then
             (if InsertStrls rdr then
                (let (ptr, s) = binary_Read (ByteOrder rdr) (0 :: 64 word) (reader rdr)
                 in bindE (set_string i j (Strls_at rdr ptr) (rv_data rv)) (\<lambda>d.
                    Inr (rdr\<lparr>reader := s\<rparr>, rv\<lparr>rv_data := d\<rparr>)))
              else
                bindE (get_uint64 i j (rv_data rv)) (\<lambda>x0.
                  let (x, s) = binary_Read (ByteOrder rdr) x0 (reader rdr)
                  in bindE (set_uint64 i j x (rv_data rv)) (\<lambda>d.
                     Inr (rdr\<lparr>reader := s\<rparr>, rv\<lparr>rv_data := d\<rparr>))))
           else if t = 65526 then
             (let (x, s) = binary_Read (ByteOrder rdr) (0 :: 64 word) (reader rdr)
              in bindE (set_float64 i j x (rv_data rv)) (\<lambda>d.
                 bindE (flag_missing (float64_missing x) i j (rv_missing rv)) (\<lambda>m.
                 Inr (rdr\<lparr>reader := s\<rparr>, rv\<lparr>rv_data := d, rv_missing := m\<rparr>))))
           else if t = 65527 then
             (let (x, s) = binary_Read (ByteOrder rdr) (0 :: 32 word) (reader rdr)
              in bindE (set_float32 i j x (rv_data rv)) (\<lambda>d.
                 bindE (flag_missing (float32_missing x) i j (rv_missing rv)) (\<lambda>m.
                 Inr (rdr\<lparr>reader := s\<rparr>, rv\<lparr>rv_data := d, rv_missing := m\<rparr>))))
           else if t = 65528 then
             (let (x, s) = binary_Read (ByteOrder rdr) (0 :: 32 word) (reader rdr)
              in bindE (set_int32 i j x (rv_data rv)) (\<lambda>d.
                 bindE (flag_missing (int32_missing x) i j (rv_missing rv)) (\<lambda>m.
                 Inr (rdr\<lparr>reader := s\<rparr>, rv\<lparr>rv_data := d, rv_missing := m\<rparr>))))
           else if t = 65529 then
             (let (x, s) = binary_Read (ByteOrder rdr) (0 :: 16 word) (reader rdr)
              in bindE (set_int16 i j x (rv_data rv)) (\<lambda>d.
                 bindE (flag_missing (int16_missing x) i j (rv_missing rv)) (\<lambda>m.
                 Inr (rdr\<lparr>reader := s\<rparr>, rv\<lparr>rv_data := d, rv_missing := m\<rparr>))))
           else if t = 65530 then
             (let (x, s) = binary_Read (ByteOrder rdr) (0 :: 8 word) (reader rdr)
              in bindE (flag_missing (int8_missing x) i j (rv_missing rv)) (\<lambda>m.
                 if \<not> InsertCategoryLabels rdr then
                   bindE (set_int8 i j x (rv_data rv)) (\<lambda>d.
                   Inr (rdr\<lparr>reader := s\<rparr>, rv\<lparr>rv_data := d, rv_missing := m\<rparr>))
                 else
                   bindE (category_label rdr j x) (\<lambda>v.
                   bindE (set_string i j v (rv_data rv)) (\<lambda>d.
                   Inr (rdr\<lparr>reader := s\<rparr>, rv\<lparr>rv_data := d, rv_missing := m\<rparr>)))))
           else Inr (rdr, rv))"

text \<open>The loop \<^verbatim>\<open>for j := 0; j < rdr.Nvar; j++\<close>, with \<open>n\<close> rounds to go.\<close>

fun read_row :: "nat \<Rightarrow> nat \<Rightarrow> nat \<Rightarrow> StataReader \<Rightarrow> read_vars \<Rightarrow> error + (StataReader \<times> read_vars)" where
  "read_row 0 i j rdr rv = Inr (rdr, rv)"
| "read_row (Suc n) i j rdr rv =
     bindE (read_cell i j rdr rv) (\<lambda>(rdr', rv'). read_row n i (Suc j) rdr' rv')"

text \<open>The loop \<^verbatim>\<open>for i := 0; i < nval; i++\<close>, with \<open>n\<close> rounds to go: the cursor
  \<^verbatim>\<open>rows_read\<close> is advanced first, and the loop is left when it has passed the row count.\<close>

fun read_rows :: "nat \<Rightarrow> nat \<Rightarrow> StataReader \<Rightarrow> read_vars \<Rightarrow> error + (StataReader \<times> read_vars)" where
  "read_rows 0 i rdr rv = Inr (rdr, rv)"
| "read_rows (Suc n) i rdr rv =
     (let rdr = rdr\<lparr>rows_read := rows_read rdr + 1\<rparr>
      in if rows_read rdr > RowCount rdr then Inr (rdr, rv)
         else bindE (read_row (nat (Nvar rdr)) i 0 rdr rv) (\<lambda>(rdr', rv').
              read_rows n (Suc i) rdr' rv'))"

section \<open>Dates\<close>

text \<open>A \<^verbatim>\<open>time.Duration\<close> is an \<^verbatim>\<open>int64\<close> count of nanoseconds; its product wraps around.
  \<^verbatim>\<open>bt\<close> is \<^verbatim>\<open>time.Date(1960, 1, 1, 0, 0, 0, 0, time.UTC)\<close>, and \<^verbatim>\<open>bt.Add(d)\<close> is exact.\<close>

definition Millisecond :: "64 word" where
  "Millisecond = 1000000"

definition Hour :: "64 word" where
  "Hour = 3600000000000"

definition bt :: int where
  "bt = 0"

definition Time_Add :: "int \<Rightarrow> 64 word \<Rightarrow> int" where
  "Time_Add t d = t + sint d"

definition do_convert_dates :: "column \<Rightarrow> string \<Rightarrow> error + column" where
  "do_convert_dates v format =
     (case v of
        ColInt32 vec \<Rightarrow>
          (if has_prefix ''%td'' format then
             Inr (ColTime (map (\<lambda>x. Time_Add bt (scast x * (Hour * 24))) vec))
           else if has_prefix ''%tc'' format then
             Inr (ColTime (map (\<lambda>x. Time_Add bt (scast x * Millisecond)) vec))
           else Inl (Panic ''unable to handle format in date vector''))
      | _ \<Rightarrow> Inl (Panic ''unable to handle raw type in date vector''))"

text \<open>The loop \<^verbatim>\<open>for j, _ := range data\<close> of the date pass, with \<open>n\<close> rounds to go.\<close>

fun convert_dates :: "nat \<Rightarrow> nat \<Rightarrow> StataReader \<Rightarrow> column list \<Rightarrow> error + column list" where
  "convert_dates 0 j rdr d = Inr d"
| "convert_dates (Suc n) j rdr d =
     (if length (is_date rdr) \<le> j then Inl (Panic ''index out of range'')
      else if is_date rdr ! j then
        (if length (Formats rdr) \<le> j then Inl (Panic ''index out of range'')
         else bindE (do_convert_dates (d ! j) (Formats rdr ! j)) (\<lambda>c.
              convert_dates n (Suc j) rdr (d[j := c])))
      else convert_dates n (Suc j) rdr d)"

text \<open>The loop \<^verbatim>\<open>for j, v := range data\<close> that builds the series, with \<open>n\<close> rounds to go.\<close>

fun make_series :: "nat \<Rightarrow> nat \<Rightarrow> StataReader \<Rightarrow> column list \<Rightarrow> bool list list \<Rightarrow> error + Series list" where
  "make_series 0 j rdr d m = Inr []"
| "make_series (Suc n) j rdr d m =
     (if length (column_names rdr) \<le> j then Inl (Panic ''index out of range'')
      else bindE (NewSeries (column_names rdr ! j) (d ! j) (m ! j)) (\<lambda>sr.
           bindE (make_series n (Suc j) rdr d m) (\<lambda>srs. Inr (sr # srs))))"

section \<open>Read\<close>

text \<open>
  \<^verbatim>\<open>Read\<close> returns the given number of rows of data from the Stata data file. If
  \<open>rows\<close> is negative, the remainder of the file is read. The result is the list of
  series together with the reader as the call leaves it.

  \<^verbatim>\<open>make\<close> panics for a negative length. The loop that allocates the columns ranges over
  \<^verbatim>\<open>rdr.VarTypes\<close> and assigns \<^verbatim>\<open>data[j]\<close> only where a case of its switch applies, so it
  panics for a known tag at an index from \<^verbatim>\<open>rdr.Nvar\<close> on.
\<close>

definition Read :: "int \<Rightarrow> StataReader \<Rightarrow> error + (Series list \<times> StataReader)" where
  "Read rows rdr =
     (if Nvar rdr < 0 then Inl (Panic ''makeslice: len out of range'')
      else
        let nval0 = RowCount rdr - rows_read rdr;
            nval = (if rows \<ge> 0 \<and> nval0 > rows then rows else nval0)
        in if nval < 0 \<and> (0 < Nvar rdr \<or> list_ex known_tag (VarTypes rdr))
           then Inl (Panic ''makeslice: len out of range'')
           else if list_ex known_tag (drop (nat (Nvar rdr)) (VarTypes rdr))
           then Inl (Panic ''index out of range'')
           else
             let d = map (\<lambda>j. if j < length (VarTypes rdr)
                                then alloc_column rdr (nat nval) (VarTypes rdr ! j)
                                else ColNil) [0..<nat (Nvar rdr)];
                 m = replicate (nat (Nvar rdr)) (replicate (nat nval) False);
                 rdr = (if FormatVersion rdr \<ge> 117
                        then rdr\<lparr>reader := Seek_set (sint (seek_data rdr + 6)) (reader rdr)\<rparr>
                        else rdr);
                 rv = \<lparr>rv_data = d, rv_missing = m, rv_buf = replicate 2045 (CHR 0x00)\<rparr>
             in bindE (read_rows (nat nval) 0 rdr rv) (\<lambda>(rdr, rv).
                bindE (if ConvertDates rdr
                       then convert_dates (length (rv_data rv)) 0 rdr (rv_data rv)
                       else Inr (rv_data rv)) (\<lambda>d.
                bindE (make_series (length d) 0 rdr d (rv_missing rv)) (\<lambda>rdata.
                Inr (rdata, rdr)))))"

section \<open>Properties and examples\<close>

subsection \<open>Statements in the words of the specification\<close>

text \<open>The translation table of old-format type codes as the specification lists it: five
  codes are mapped, a code up to 244 is kept, every other code has no translation.\<close>

definition spec_type_translation :: "16 word \<Rightarrow> 16 word option" where
  "spec_type_translation c =
     (if c = 251 then Some 65530
      else if c = 252 then Some 65529
      else if c = 253 then Some 65528
      else if c = 254 then Some 65527
      else if c = 255 then Some 65526
      else if c \<le> 244 then Some c
      else None)"

text \<open>The number of observations a call has to decode according to the specification:
  \<open>min(requested, row_count - rows_read)\<close>, or all remaining rows for a negative request.\<close>

definition spec_row_count :: "int \<Rightarrow> StataReader \<Rightarrow> int" where
  "spec_row_count r rdr =
     (if r \<ge> 0 then min r (RowCount rdr - rows_read rdr) else RowCount rdr - rows_read rdr)"

subsection \<open>Readers that \<open>Read\<close> is called on\<close>

text \<open>
  What the initialisation leaves behind in the reader of a file whose number of
  observations is not negative, and what \<open>Read\<close> keeps: one entry per variable in every
  per-column sequence, the date flags computed from the formats, and between zero and
  \<open>RowCount\<close> rows consumed.
\<close>

definition wf_reader :: "StataReader \<Rightarrow> bool" where
  "wf_reader rdr =
     (0 \<le> Nvar rdr \<and> length (VarTypes rdr) = nat (Nvar rdr)
      \<and> length (column_names rdr) = nat (Nvar rdr)
      \<and> length (Formats rdr) = nat (Nvar rdr)
      \<and> is_date rdr = map is_date_format (Formats rdr)
      \<and> length (ValueLabelNames rdr) = nat (Nvar rdr)
      \<and> 0 \<le> rows_read rdr \<and> rows_read rdr \<le> RowCount rdr)"

text \<open>A table whose rows \<open>Read\<close> can decode: every type tag has a case in the row decoder,
  and, with date conversion on, only 32-bit integer columns carry a date format.\<close>

definition decodable :: "StataReader \<Rightarrow> bool" where
  "decodable rdr =
     ((\<forall>t \<in> set (VarTypes rdr). known_tag t)
      \<and> (ConvertDates rdr \<longrightarrow>
           (\<forall>j < length (VarTypes rdr). is_date rdr ! j \<longrightarrow> VarTypes rdr ! j = 65528)))"

subsection \<open>Invariants of the row decoder\<close>

definition panics :: "error + 'a \<Rightarrow> bool" where
  "panics res = (\<exists>m. res = Inl (Panic m))"

definition keeps_version :: "int \<Rightarrow> error + StataReader \<Rightarrow> bool" where
  "keeps_version v res = (panics res \<or> (\<exists>r. res = Inr r \<and> FormatVersion r = v))"

fun col_kind :: "column \<Rightarrow> nat" where
  "col_kind ColNil = 0"
| "col_kind (ColString xs) = 1"
| "col_kind (ColUint64 xs) = 2"
| "col_kind (ColFloat64 xs) = 3"
| "col_kind (ColFloat32 xs) = 4"
| "col_kind (ColInt32 xs) = 5"
| "col_kind (ColInt16 xs) = 6"
| "col_kind (ColInt8 xs) = 7"
| "col_kind (ColTime xs) = 8"

definition typed :: "column \<Rightarrow> bool" where
  "typed c = (c \<noteq> ColNil)"

text \<open>Two lists of columns with the same element types and lengths, position by position.\<close>

definition same_shape :: "column list \<Rightarrow> column list \<Rightarrow> bool" where
  "same_shape d' d = (map col_kind d' = map col_kind d \<and> map col_len d' = map col_len d)"

text \<open>What decoding a cell or a row leaves alone: every field of the reader but the byte
  source, and the shape of the columns and masks.\<close>

definition cell_step :: "StataReader \<Rightarrow> read_vars \<Rightarrow> StataReader \<Rightarrow> read_vars \<Rightarrow> bool" where
  "cell_step rdr rv rdr' rv' =
     ((\<exists>s. rdr' = rdr\<lparr>reader := s\<rparr>) \<and> same_shape (rv_data rv') (rv_data rv)
      \<and> map length (rv_missing rv') = map length (rv_missing rv))"

definition rows_step :: "StataReader \<Rightarrow> read_vars \<Rightarrow> StataReader \<Rightarrow> read_vars \<Rightarrow> bool" where
  "rows_step rdr rv rdr' rv' =
     ((\<exists>s r. rdr' = rdr\<lparr>reader := s, rows_read := r\<rparr>) \<and> same_shape (rv_data rv') (rv_data rv)
      \<and> map length (rv_missing rv') = map length (rv_missing rv))"

text \<open>The columns and masks as \<open>Read\<close> allocates them for \<open>n\<close> rows, whatever their
  entries are by now.\<close>

definition cells_ready :: "StataReader \<Rightarrow> nat \<Rightarrow> read_vars \<Rightarrow> bool" where
  "cells_ready rdr n rv =
     (same_shape (rv_data rv) (map (alloc_column rdr n) (VarTypes rdr))
      \<and> map length (rv_missing rv) = replicate (length (VarTypes rdr)) n
      \<and> length (VarTypes rdr) \<le> length (ValueLabelNames rdr))"

subsection \<open>Files and readers used as examples\<close>

text \<open>A version 114 file with one byte variable \<open>x\<close> and two observations, 1 and 2.\<close>

definition file114 :: "byte list" where
  "file114 =
     [CHR 0x72, CHR 0x02, CHR 0x01, CHR 0x00, CHR 0x01, CHR 0x00, CHR 0x02] @
     replicate 102 (CHR 0x00) @
     [CHR 0xFB, CHR 0x78] @
     replicate 36 (CHR 0x00) @
     ''%8.0g'' @
     replicate 163 (CHR 0x00) @
     [CHR 0x01, CHR 0x02]"

text \<open>A version 118 file with one 16-bit integer variable \<open>x\<close> and ten observations,
  0 to 9.\<close>

definition file118 :: "byte list" where
  "file118 =
     ''<stata_dta><header><release>118</release><byteorder>LSF</byteorder><K>'' @
     [CHR 0x01, CHR 0x00] @
     ''</K><N>'' @
     [CHR 0x0A, CHR 0x00, CHR 0x00, CHR 0x00, CHR 0x00, CHR 0x00, CHR 0x00, CHR 0x00] @
     ''</N><label>'' @
     [CHR 0x00, CHR 0x00] @
     ''</label><timestamp>'' @
     [CHR 0x00] @
     ''</timestamp></header><map>'' @
     [CHR 0x00, CHR 0x00, CHR 0x00, CHR 0x00, CHR 0x00, CHR 0x00, CHR 0x00, CHR 0x00,
      CHR 0x8D, CHR 0x00, CHR 0x00, CHR 0x00, CHR 0x00, CHR 0x00, CHR 0x00, CHR 0x00,
      CHR 0x08, CHR 0x01, CHR 0x00, CHR 0x00, CHR 0x00, CHR 0x00, CHR 0x00, CHR 0x00,
      CHR 0x2B, CHR 0x01, CHR 0x00, CHR 0x00, CHR 0x00, CHR 0x00, CHR 0x00, CHR 0x00,
      CHR 0xC1, CHR 0x01, CHR 0x00, CHR 0x00, CHR 0x00, CHR 0x00, CHR 0x00, CHR 0x00,
      CHR 0xDA, CHR 0x01, CHR 0x00, CHR 0x00, CHR 0x00, CHR 0x00, CHR 0x00, CHR 0x00,
      CHR 0x26, CHR 0x02, CHR 0x00, CHR 0x00, CHR 0x00, CHR 0x00, CHR 0x00, CHR 0x00,
      CHR 0xCE, CHR 0x02, CHR 0x00, CHR 0x00, CHR 0x00, CHR 0x00, CHR 0x00, CHR 0x00,
      CHR 0x32, CHR 0x04, CHR 0x00, CHR 0x00, CHR 0x00, CHR 0x00, CHR 0x00, CHR 0x00,
      CHR 0x55, CHR 0x04, CHR 0x00, CHR 0x00, CHR 0x00, CHR 0x00, CHR 0x00, CHR 0x00,
      CHR 0x76, CHR 0x04, CHR 0x00, CHR 0x00, CHR 0x00, CHR 0x00, CHR 0x00, CHR 0x00,
      CHR 0x85, CHR 0x04, CHR 0x00, CHR 0x00, CHR 0x00, CHR 0x00, CHR 0x00, CHR 0x00,
      CHR 0xA2, CHR 0x04, CHR 0x00, CHR 0x00, CHR 0x00, CHR 0x00, CHR 0x00, CHR 0x00,
      CHR 0xAE, CHR 0x04, CHR 0x00, CHR 0x00, CHR 0x00, CHR 0x00, CHR 0x00, CHR 0x00] @
     ''</map><variable_types>'' @
     [CHR 0xF9, CHR 0xFF] @
     ''</variable_types><varnames>x'' @
     replicate 128 (CHR 0x00) @
     ''</varnames><sortlist>'' @
     [CHR 0x00, CHR 0x00, CHR 0x00, CHR 0x00] @
     ''</sortlist><formats>%8.0g'' @
     replicate 52 (CHR 0x00) @
     ''</formats><value_label_names>'' @
     replicate 129 (CHR 0x00) @
     ''</value_label_names><variable_labels>'' @
     replicate 321 (CHR 0x00) @
     ''</variable_labels><characteristics></characteristics><data>'' @
     [CHR 0x00, CHR 0x00, CHR 0x01, CHR 0x00, CHR 0x02, CHR 0x00, CHR 0x03, CHR 0x00,
      CHR 0x04, CHR 0x00, CHR 0x05, CHR 0x00, CHR 0x06, CHR 0x00, CHR 0x07, CHR 0x00,
      CHR 0x08, CHR 0x00, CHR 0x09, CHR 0x00] @
     ''</data><strls></strls><value_labels></value_labels></stata_dta>''"

text \<open>The reader that \<open>NewStataReader\<close> returns for \<open>file118\<close>.\<close>

definition rdr118 :: StataReader where
  "rdr118 =
     (new_StataReader \<lparr>content = file118, pos = 1176\<rparr>)
       \<lparr>Nvar := 1, RowCount := 10, VarTypes := [65529], column_names := [''x''],
        ColumnNamesLong := [[]], ValueLabelNames := [[]], Formats := [''%8.0g''],
        Strls := [0 \<mapsto> []], FormatVersion := 118, seek_vartypes := 264,
        seek_varnames := 299, seek_sortlist := 449, seek_formats := 474,
        seek_value_label_names := 550, seek_variable_labels := 718,
        seek_characteristics := 1074, seek_data := 1109, seek_strls := 1142,
        seek_value_labels := 1157, is_date := [False]\<rparr>"

text \<open>A version 115 file with one 16-bit integer variable \<open>x\<close> and ten observations,
  0 to 9.\<close>

definition file115 :: "byte list" where
  "file115 =
     [CHR 0x73, CHR 0x02, CHR 0x01, CHR 0x00, CHR 0x01, CHR 0x00, CHR 0x0A] @
     replicate 102 (CHR 0x00) @
     [CHR 0xFC, CHR 0x78] @
     replicate 36 (CHR 0x00) @
     ''%8.0g'' @
     replicate 163 (CHR 0x00) @
     [CHR 0x00, CHR 0x00, CHR 0x01, CHR 0x00, CHR 0x02, CHR 0x00, CHR 0x03, CHR 0x00,
      CHR 0x04, CHR 0x00, CHR 0x05, CHR 0x00, CHR 0x06, CHR 0x00, CHR 0x07, CHR 0x00,
      CHR 0x08, CHR 0x00, CHR 0x09, CHR 0x00]"

text \<open>The reader that \<open>NewStataReader\<close> returns for \<open>file115\<close>.\<close>

definition rdr115 :: StataReader where
  "rdr115 =
     (new_StataReader \<lparr>content = file115, pos = 315\<rparr>)
       \<lparr>Nvar := 1, RowCount := 10, VarTypes := [65529], column_names := [''x''],
        ColumnNamesLong := [[]], ValueLabelNames := [[]], Formats := [''%8.0g''],
        FormatVersion := 115, is_date := [False]\<rparr>"

text \<open>A version 115 file with one 16-bit integer variable \<open>x\<close> and the five observations
  32739, 32740, 32741, -32767 and -32768.\<close>

definition file115m :: "byte list" where
  "file115m =
     [CHR 0x73, CHR 0x02, CHR 0x01, CHR 0x00, CHR 0x01, CHR 0x00, CHR 0x05] @
     replicate 102 (CHR 0x00) @
     [CHR 0xFC, CHR 0x78] @
     replicate 36 (CHR 0x00) @
     ''%8.0g'' @
     replicate 163 (CHR 0x00) @
     [CHR 0xE3, CHR 0x7F, CHR 0xE4, CHR 0x7F, CHR 0xE5, CHR 0x7F, CHR 0x01, CHR 0x80,
      CHR 0x00, CHR 0x80]"

text \<open>The reader that \<open>NewStataReader\<close> returns for \<open>file115m\<close>.\<close>

definition rdr115m :: StataReader where
  "rdr115m =
     (new_StataReader \<lparr>content = file115m, pos = 315\<rparr>)
       \<lparr>Nvar := 1, RowCount := 5, VarTypes := [65529], column_names := [''x''],
        ColumnNamesLong := [[]], ValueLabelNames := [[]], Formats := [''%8.0g''],
        FormatVersion := 115, is_date := [False]\<rparr>"

text \<open>An open reader of an old-format table with one variable of type \<open>t\<close> and one
  observation, its byte source holding \<open>bytes\<close> as the data; the value-label set \<open>lbl\<close>
  names the code 1.\<close>

definition rdr_one :: "16 word \<Rightarrow> byte list \<Rightarrow> StataReader" where
  "rdr_one t bytes =
     (new_StataReader \<lparr>content = bytes, pos = 0\<rparr>)
       \<lparr>Nvar := 1, RowCount := 1, VarTypes := [t], column_names := [''x''],
        ColumnNamesLong := [[]], ValueLabels := [''lbl'' \<mapsto> [1 \<mapsto> ''one'']],
        ValueLabelNames := [''lbl''], Formats := [''%8.0g''], Strls := [0 \<mapsto> []],
        FormatVersion := 115, is_date := [False]\<rparr>"

text \<open>The variables of \<open>Read\<close> for one column \<open>c\<close> of one row.\<close>

definition rv_one :: "column \<Rightarrow> read_vars" where
  "rv_one c = \<lparr>rv_data = [c], rv_missing = [[False]], rv_buf = replicate 2045 (CHR 0x00)\<rparr>"

text \<open>Seven variables with the old type codes 251 to 255, 244 and 7, before translation.\<close>

definition rdr_types :: StataReader where
  "rdr_types = (rdr_one 251 [])\<lparr>Nvar := 7, VarTypes := [251, 252, 253, 254, 255, 244, 7]\<rparr>"

text \<open>A three-byte string variable that carries a date format.\<close>

definition rdr_date :: StataReader where
  "rdr_date = (rdr_one 3 ''abc'')\<lparr>Formats := [''%tdNN/DD/CCYY''], is_date := [True]\<rparr>"

text \<open>A GSO record behind its marker, with \<open>v = 7\<close>, \<open>o = 3\<close>, type 130 and the six bytes
  \<open>hello\<close> and null, followed by a row whose only cell refers to it.\<close>

definition gso_bytes :: "byte list" where
  "gso_bytes =
     [CHR 0x07, CHR 0x00, CHR 0x00, CHR 0x00,
      CHR 0x03, CHR 0x00, CHR 0x00, CHR 0x00, CHR 0x00, CHR 0x00, CHR 0x00, CHR 0x00,
      CHR 0x82,
      CHR 0x06, CHR 0x00, CHR 0x00, CHR 0x00] @ ''hello'' @ [CHR 0x00] @
     [CHR 0x07, CHR 0x00, CHR 0x03, CHR 0x00, CHR 0x00, CHR 0x00, CHR 0x00, CHR 0x00]"

text \<open>A version 118 reader with one long-string variable, in front of these bytes.\<close>

definition rdr_gso :: StataReader where
  "rdr_gso = (rdr_one 32768 gso_bytes)\<lparr>FormatVersion := 118\<rparr>"

text \<open>The variables of \<^verbatim>\<open>read_strls\<close> when the marker of the first record has been read.\<close>

definition gso0 :: gso_vars where
  "gso0 = \<lparr>gso_buf3 = ''GSO'', gso_v = 0, gso_o = 0, gso_t = 0, gso_length = 0\<rparr>"

text \<open>A long-string section without records, and a cell with the key 65537.\<close>

definition rdr_nostrl :: StataReader where
  "rdr_nostrl =
     (rdr_one 32768 (''<strls></strls>'' @
        [CHR 0x01, CHR 0x00, CHR 0x01, CHR 0x00, CHR 0x00, CHR 0x00, CHR 0x00, CHR 0x00]))
       \<lparr>FormatVersion := 118, Strls := Map.empty\<rparr>"

section \<open>Lemmas about the decoder\<close>

lemma bindE_simps [simp]:
  "bindE (Inl e) f = Inl e"
  "bindE (Inr x) f = f x"
  by (simp_all add: bindE_def)

lemma translate_vartype_spec:
  "translate_vartype c =
     (case spec_type_translation c of
        Some t \<Rightarrow> Inr t
      | None \<Rightarrow> Inl (Panic ''unknown variable type %v in translate_vartypes''))"
  by (simp add: translate_vartype_def spec_type_translation_def)

lemma translate_loop_spec:
  "k + n = length ts \<Longrightarrow>
   translate_loop n k ts =
     (if \<forall>c \<in> set (drop k ts). spec_type_translation c \<noteq> None
      then Inr (take k ts @ map (the \<circ> spec_type_translation) (drop k ts))
      else Inl (Panic ''unknown variable type %v in translate_vartypes''))"
proof (induction n arbitrary: k ts)
  case 0
  then show ?case by simp
next
  case (Suc n)
  from Suc.prems have k: "k < length ts" by simp
  then have d: "drop k ts = ts ! k # drop (Suc k) ts"
    by (simp add: Cons_nth_drop_Suc)
  show ?case
  proof (cases "spec_type_translation (ts ! k)")
    case None
    with k d show ?thesis by (simp add: translate_vartype_spec)
  next
    case (Some t)
    have len: "Suc k + n = length (ts[k := t])" using Suc.prems by simp
    have tk: "take (Suc k) (ts[k := t]) = take k ts @ [t]"
      using k by (simp add: take_Suc_conv_app_nth)
    show ?thesis
      using k d Some Suc.IH [OF len] tk
      by (simp add: translate_vartype_spec)
  qed
qed

lemma panics_bindE:
  "keeps_version v m \<Longrightarrow> (\<And>r. FormatVersion r = v \<Longrightarrow> panics (f r)) \<Longrightarrow> panics (bindE m f)"
  by (auto simp: keeps_version_def panics_def)

lemma read_int_total:
  "w \<in> {1, 2, 4, 8} \<Longrightarrow> \<exists>x s'. read_int w bo s = Inr (x, s')"
  by (auto simp: read_int_def split: prod.splits)

lemma nvar_width_114 [simp]: "nvar_width 114 = 2"
  by (simp add: nvar_width_def lookup0_def)

lemma row_count_width_114 [simp]: "row_count_width 114 = 4"
  by (simp add: row_count_width_def lookup0_def)

lemma binary_Read_byte:
  "avail 1 s = [c] \<Longrightarrow> fst (binary_Read bo (x :: 8 word) s) = of_char c"
  by (cases bo) (simp_all add: binary_Read_def ReadFull_def Let_def uint_of_def be_nat_def of_nat_of_char)

lemma read_old_header_114:
  assumes "avail 1 (reader rdr) = [CHR 0x72]"
  shows "keeps_version 114 (read_old_header rdr)"
proof -
  obtain fmt s1 where b: "binary_Read LittleEndian (0 :: 8 word) (reader rdr) = (fmt, s1)"
    by (cases "binary_Read LittleEndian (0 :: 8 word) (reader rdr)")
  with binary_Read_byte [OF assms, of LittleEndian 0] have fmt: "fmt = 114" by simp
  obtain bo s2 where b2: "binary_Read LittleEndian (0 :: 8 word) s1 = (bo, s2)"
    by (cases "binary_Read LittleEndian (0 :: 8 word) s1")
  define order where "order = (if bo = 1 then BigEndian else LittleEndian)"
  obtain nvar s3 where r1: "read_int 2 order (Seek_cur 2 s2) = Inr (nvar, s3)"
    using read_int_total [of 2 order "Seek_cur 2 s2"] by auto
  obtain nrow s4 where r2: "read_int 4 order s3 = Inr (nrow, s4)"
    using read_int_total [of 4 order s3] by auto
  show ?thesis
    using b fmt b2 r1 r2
    by (simp add: read_old_header_def keeps_version_def supported_version_def
        supported_dta_versions_def order_def Let_def split: prod.splits)
qed

lemma read_vartypes_114:
  "FormatVersion rdr = 114 \<Longrightarrow> keeps_version 114 (read_vartypes rdr)"
  by (simp add: read_vartypes_def read_vartypes_8_def keeps_version_def panics_def
      split: prod.splits)

lemma translate_loop_panics:
  "translate_loop n k ts = Inl e \<Longrightarrow> \<exists>m. e = Panic m"
  by (induction n arbitrary: k ts)
     (auto simp: translate_vartype_def split: if_splits sum.splits)

lemma translate_vartypes_114:
  "FormatVersion rdr = 114 \<Longrightarrow> keeps_version 114 (translate_vartypes rdr)"
  using translate_loop_panics [of "nat (Nvar rdr)" 0 "VarTypes rdr"]
  by (auto simp: translate_vartypes_def keeps_version_def panics_def split: sum.splits)

lemma read_varnames_114:
  "FormatVersion rdr = 114 \<Longrightarrow> keeps_version 114 (read_varnames rdr)"
  by (simp add: read_varnames_def do_read_varnames_def keeps_version_def panics_def Let_def
      split: prod.splits)

lemma read_formats_114:
  "FormatVersion rdr = 114 \<Longrightarrow> keeps_version 114 (read_formats rdr)"
  by (simp add: read_formats_def do_read_formats_def keeps_version_def panics_def Let_def
      split: prod.splits)

lemma read_value_label_names_114:
  "FormatVersion rdr = 114 \<Longrightarrow> panics (read_value_label_names rdr)"
  by (simp add: read_value_label_names_def panics_def)

lemma flag_missing_ok:
  "j < length m \<Longrightarrow> i < length (m ! j) \<Longrightarrow>
   flag_missing c i j m = Inr (m[j := (m ! j)[i := (m ! j ! i \<or> c)]])"
  by (simp add: flag_missing_def)

lemma read_cell_strf:
  assumes "j < length (VarTypes rdr)" "VarTypes rdr ! j \<le> 2045"
    and "j < length (rv_data rv)" "rv_data rv ! j = ColString xs" "i < length xs"
    and "Read_into (unat (VarTypes rdr ! j)) (rv_buf rv) (reader rdr) = (b, s)"
  shows "read_cell i j rdr rv =
           Inr (rdr\<lparr>reader := s\<rparr>,
                rv\<lparr>rv_data := (rv_data rv)
                        [j := ColString (xs[i := partition_bytes (take (unat (VarTypes rdr ! j)) b)])],
                   rv_buf := b\<rparr>)"
  using assms by (simp add: read_cell_def set_string_def)

lemma read_cell_strl:
  assumes "j < length (VarTypes rdr)" "VarTypes rdr ! j = 32768" "InsertStrls rdr"
    and "j < length (rv_data rv)" "rv_data rv ! j = ColString xs" "i < length xs"
    and "binary_Read (ByteOrder rdr) (0 :: 64 word) (reader rdr) = (ptr, s)"
  shows "read_cell i j rdr rv =
           Inr (rdr\<lparr>reader := s\<rparr>,
                rv\<lparr>rv_data := (rv_data rv)[j := ColString (xs[i := Strls_at rdr ptr])]\<rparr>)"
  using assms by (simp add: read_cell_def set_string_def)

lemma read_cell_strl_raw:
  assumes "j < length (VarTypes rdr)" "VarTypes rdr ! j = 32768" "\<not> InsertStrls rdr"
    and "j < length (rv_data rv)" "rv_data rv ! j = ColUint64 xs" "i < length xs"
    and "binary_Read (ByteOrder rdr) (xs ! i) (reader rdr) = (x, s)"
  shows "read_cell i j rdr rv =
           Inr (rdr\<lparr>reader := s\<rparr>,
                rv\<lparr>rv_data := (rv_data rv)[j := ColUint64 (xs[i := x])]\<rparr>)"
  using assms by (simp add: read_cell_def set_uint64_def get_uint64_def)

lemma read_cell_float64:
  assumes "j < length (VarTypes rdr)" "VarTypes rdr ! j = 65526"
    and "j < length (rv_data rv)" "rv_data rv ! j = ColFloat64 xs" "i < length xs"
    and "j < length (rv_missing rv)" "i < length (rv_missing rv ! j)"
    and "binary_Read (ByteOrder rdr) (0 :: 64 word) (reader rdr) = (x, s)"
  shows "read_cell i j rdr rv =
           Inr (rdr\<lparr>reader := s\<rparr>,
                rv\<lparr>rv_data := (rv_data rv)[j := ColFloat64 (xs[i := x])],
                   rv_missing := (rv_missing rv)
                     [j := (rv_missing rv ! j)[i := (rv_missing rv ! j ! i \<or> float64_missing x)]]\<rparr>)"
  using assms by (simp add: read_cell_def set_float64_def flag_missing_ok)

lemma read_cell_float32:
  assumes "j < length (VarTypes rdr)" "VarTypes rdr ! j = 65527"
    and "j < length (rv_data rv)" "rv_data rv ! j = ColFloat32 xs" "i < length xs"
    and "j < length (rv_missing rv)" "i < length (rv_missing rv ! j)"
    and "binary_Read (ByteOrder rdr) (0 :: 32 word) (reader rdr) = (x, s)"
  shows "read_cell i j rdr rv =
           Inr (rdr\<lparr>reader := s\<rparr>,
                rv\<lparr>rv_data := (rv_data rv)[j := ColFloat32 (xs[i := x])],
                   rv_missing := (rv_missing rv)
                     [j := (rv_missing rv ! j)[i := (rv_missing rv ! j ! i \<or> float32_missing x)]]\<rparr>)"
  using assms by (simp add: read_cell_def set_float32_def flag_missing_ok)

lemma read_cell_int32:
  assumes "j < length (VarTypes rdr)" "VarTypes rdr ! j = 65528"
    and "j < length (rv_data rv)" "rv_data rv ! j = ColInt32 xs" "i < length xs"
    and "j < length (rv_missing rv)" "i < length (rv_missing rv ! j)"
    and "binary_Read (ByteOrder rdr) (0 :: 32 word) (reader rdr) = (x, s)"
  shows "read_cell i j rdr rv =
           Inr (rdr\<lparr>reader := s\<rparr>,
                rv\<lparr>rv_data := (rv_data rv)[j := ColInt32 (xs[i := x])],
                   rv_missing := (rv_missing rv)
                     [j := (rv_missing rv ! j)[i := (rv_missing rv ! j ! i \<or> int32_missing x)]]\<rparr>)"
  using assms by (simp add: read_cell_def set_int32_def flag_missing_ok)

lemma read_cell_int16:
  assumes "j < length (VarTypes rdr)" "VarTypes rdr ! j = 65529"
    and "j < length (rv_data rv)" "rv_data rv ! j = ColInt16 xs" "i < length xs"
    and "j < length (rv_missing rv)" "i < length (rv_missing rv ! j)"
    and "binary_Read (ByteOrder rdr) (0 :: 16 word) (reader rdr) = (x, s)"
  shows "read_cell i j rdr rv =
           Inr (rdr\<lparr>reader := s\<rparr>,
                rv\<lparr>rv_data := (rv_data rv)[j := ColInt16 (xs[i := x])],
                   rv_missing := (rv_missing rv)
                     [j := (rv_missing rv ! j)[i := (rv_missing rv ! j ! i \<or> int16_missing x)]]\<rparr>)"
  using assms by (simp add: read_cell_def set_int16_def flag_missing_ok)

lemma read_cell_int8_raw:
  assumes "j < length (VarTypes rdr)" "VarTypes rdr ! j = 65530" "\<not> InsertCategoryLabels rdr"
    and "j < length (rv_data rv)" "rv_data rv ! j = ColInt8 xs" "i < length xs"
    and "j < length (rv_missing rv)" "i < length (rv_missing rv ! j)"
    and "binary_Read (ByteOrder rdr) (0 :: 8 word) (reader rdr) = (x, s)"
  shows "read_cell i j rdr rv =
           Inr (rdr\<lparr>reader := s\<rparr>,
                rv\<lparr>rv_data := (rv_data rv)[j := ColInt8 (xs[i := x])],
                   rv_missing := (rv_missing rv)
                     [j := (rv_missing rv ! j)[i := (rv_missing rv ! j ! i \<or> int8_missing x)]]\<rparr>)"
  using assms by (simp add: read_cell_def set_int8_def flag_missing_ok)

lemma category_label_ok:
  "j < length (ValueLabelNames rdr) \<Longrightarrow>
   category_label rdr j x =
     Inr (case ValueLabels rdr (ValueLabelNames rdr ! j) of
            None \<Rightarrow> Sprintf_v (sint x)
          | Some mp \<Rightarrow> (case mp (scast x) of None \<Rightarrow> Sprintf_v (sint x) | Some v \<Rightarrow> v))"
  by (simp add: category_label_def split: option.splits)

lemma read_cell_int8_label:
  assumes "j < length (VarTypes rdr)" "VarTypes rdr ! j = 65530" "InsertCategoryLabels rdr"
    and "j < length (ValueLabelNames rdr)"
    and "j < length (rv_data rv)" "rv_data rv ! j = ColString xs" "i < length xs"
    and "j < length (rv_missing rv)" "i < length (rv_missing rv ! j)"
    and "binary_Read (ByteOrder rdr) (0 :: 8 word) (reader rdr) = (x, s)"
  shows "read_cell i j rdr rv =
           Inr (rdr\<lparr>reader := s\<rparr>,
                rv\<lparr>rv_data := (rv_data rv)
                     [j := ColString (xs[i :=
                        (case ValueLabels rdr (ValueLabelNames rdr ! j) of
                           None \<Rightarrow> Sprintf_v (sint x)
                         | Some mp \<Rightarrow>
                             (case mp (scast x) of None \<Rightarrow> Sprintf_v (sint x) | Some v \<Rightarrow> v))])],
                   rv_missing := (rv_missing rv)
                     [j := (rv_missing rv ! j)[i := (rv_missing rv ! j ! i \<or> int8_missing x)]]\<rparr>)"
  using assms by (simp add: read_cell_def set_string_def flag_missing_ok category_label_ok)

lemma read_cell_unknown:
  assumes "j < length (VarTypes rdr)" "\<not> known_tag (VarTypes rdr ! j)"
  shows "read_cell i j rdr rv = Inr (rdr, rv)"
  using assms by (simp add: read_cell_def known_tag_def)

lemma bindE_eq_Inr: "bindE m f = Inr y \<longleftrightarrow> (\<exists>x. m = Inr x \<and> f x = Inr y)"
  by (cases m) simp_all

lemma same_shape_refl [simp]: "same_shape d d"
  by (simp add: same_shape_def)

lemma same_shape_trans: "same_shape d'' d' \<Longrightarrow> same_shape d' d \<Longrightarrow> same_shape d'' d"
  by (simp add: same_shape_def)

lemma same_shape_update:
  "j < length d \<Longrightarrow> col_kind c = col_kind (d ! j) \<Longrightarrow> col_len c = col_len (d ! j) \<Longrightarrow>
   same_shape (d[j := c]) d"
  by (simp add: same_shape_def map_update list_update_same_conv)

lemma set_string_shape: "set_string i j v d = Inr d' \<Longrightarrow> same_shape d' d"
  by (auto simp: set_string_def split: if_splits column.splits intro!: same_shape_update)

lemma set_uint64_shape: "set_uint64 i j v d = Inr d' \<Longrightarrow> same_shape d' d"
  by (auto simp: set_uint64_def split: if_splits column.splits intro!: same_shape_update)

lemma set_float64_shape: "set_float64 i j v d = Inr d' \<Longrightarrow> same_shape d' d"
  by (auto simp: set_float64_def split: if_splits column.splits intro!: same_shape_update)

lemma set_float32_shape: "set_float32 i j v d = Inr d' \<Longrightarrow> same_shape d' d"
  by (auto simp: set_float32_def split: if_splits column.splits intro!: same_shape_update)

lemma set_int32_shape: "set_int32 i j v d = Inr d' \<Longrightarrow> same_shape d' d"
  by (auto simp: set_int32_def split: if_splits column.splits intro!: same_shape_update)

lemma set_int16_shape: "set_int16 i j v d = Inr d' \<Longrightarrow> same_shape d' d"
  by (auto simp: set_int16_def split: if_splits column.splits intro!: same_shape_update)

lemma set_int8_shape: "set_int8 i j v d = Inr d' \<Longrightarrow> same_shape d' d"
  by (auto simp: set_int8_def split: if_splits column.splits intro!: same_shape_update)

lemma flag_missing_lengths: "flag_missing c i j m = Inr m' \<Longrightarrow> map length m' = map length m"
  by (auto simp: flag_missing_def map_update list_update_same_conv split: if_splits)

lemma reader_update_self [simp]: "\<exists>s. (r :: StataReader) = r\<lparr>reader := s\<rparr>"
  by (rule exI [of _ "reader r"]) simp

lemma cell_step_refl [simp]: "cell_step rdr rv rdr rv"
  by (simp add: cell_step_def)

lemma cell_step_trans:
  assumes "cell_step rdr rv rdr' rv'" "cell_step rdr' rv' rdr'' rv''"
  shows "cell_step rdr rv rdr'' rv''"
proof -
  from assms obtain s s' where "rdr' = rdr\<lparr>reader := s\<rparr>" "rdr'' = rdr'\<lparr>reader := s'\<rparr>"
    unfolding cell_step_def by blast
  then have "rdr'' = rdr\<lparr>reader := s'\<rparr>" by simp
  with assms show ?thesis
    unfolding cell_step_def using same_shape_trans by auto
qed

lemma read_cell_step:
  assumes "read_cell i j rdr rv = Inr (rdr', rv')"
  shows "cell_step rdr rv rdr' rv'"
  using assms
  unfolding read_cell_def Let_def
  by (auto simp: bindE_eq_Inr cell_step_def case_prod_beta
      dest!: set_string_shape set_uint64_shape set_float64_shape set_float32_shape
             set_int32_shape set_int16_shape set_int8_shape flag_missing_lengths
      split: if_splits)

lemma read_row_step:
  "read_row n i j rdr rv = Inr (rdr', rv') \<Longrightarrow> cell_step rdr rv rdr' rv'"
proof (induction n arbitrary: j rdr rv)
  case 0
  then show ?case by simp
next
  case (Suc n)
  then obtain rdr1 rv1 where c: "read_cell i j rdr rv = Inr (rdr1, rv1)"
    and r: "read_row n i (Suc j) rdr1 rv1 = Inr (rdr', rv')"
    by (auto simp: bindE_eq_Inr)
  from read_cell_step [OF c] Suc.IH [OF r] show ?case
    by (rule cell_step_trans)
qed

lemma alloc_column_reader [simp]: "alloc_column (rdr\<lparr>reader := s\<rparr>) = alloc_column rdr"
  by (rule ext)+ (simp add: alloc_column_def)

lemma alloc_column_rows_read [simp]: "alloc_column (rdr\<lparr>rows_read := r\<rparr>) = alloc_column rdr"
  by (rule ext)+ (simp add: alloc_column_def)

lemma cells_ready_step:
  "cells_ready rdr n rv \<Longrightarrow> cell_step rdr rv rdr' rv' \<Longrightarrow> cells_ready rdr' n rv'"
  unfolding cells_ready_def cell_step_def
  by (auto intro: same_shape_trans)

lemma cells_ready_nth:
  assumes "cells_ready rdr n rv" "j < length (VarTypes rdr)"
  shows "j < length (rv_data rv)" "j < length (rv_missing rv)" "length (rv_missing rv ! j) = n"
    "col_kind (rv_data rv ! j) = col_kind (alloc_column rdr n (VarTypes rdr ! j))"
    "col_len (rv_data rv ! j) = col_len (alloc_column rdr n (VarTypes rdr ! j))"
    "j < length (ValueLabelNames rdr)"
proof -
  from assms have k: "map col_kind (rv_data rv) = map (\<lambda>t. col_kind (alloc_column rdr n t)) (VarTypes rdr)"
    and l: "map col_len (rv_data rv) = map (\<lambda>t. col_len (alloc_column rdr n t)) (VarTypes rdr)"
    and m: "map length (rv_missing rv) = replicate (length (VarTypes rdr)) n"
    and v: "length (VarTypes rdr) \<le> length (ValueLabelNames rdr)"
    by (simp_all add: cells_ready_def same_shape_def comp_def)
  from k have ld: "length (rv_data rv) = length (VarTypes rdr)"
    by (metis length_map)
  from m have lm: "length (rv_missing rv) = length (VarTypes rdr)"
    by (metis length_map length_replicate)
  show "j < length (rv_data rv)" using ld assms(2) by simp
  show "j < length (rv_missing rv)" using lm assms(2) by simp
  show "length (rv_missing rv ! j) = n"
    using m lm assms(2) by (metis nth_map nth_replicate)
  show "col_kind (rv_data rv ! j) = col_kind (alloc_column rdr n (VarTypes rdr ! j))"
    using k ld assms(2) by (metis nth_map)
  show "col_len (rv_data rv ! j) = col_len (alloc_column rdr n (VarTypes rdr ! j))"
    using l ld assms(2) by (metis nth_map)
  show "j < length (ValueLabelNames rdr)" using v assms(2) by simp
qed

lemma read_cell_succeeds:
  assumes ready: "cells_ready rdr n rv" and i: "i < n" and j: "j < length (VarTypes rdr)"
  shows "\<exists>rdr' rv'. read_cell i j rdr rv = Inr (rdr', rv')"
proof -
  note r = cells_ready_nth [OF ready j]
  let ?t = "VarTypes rdr ! j"
  consider (strf) "?t \<le> 2045"
    | (strl) "\<not> ?t \<le> 2045" "?t = 32768"
    | (f64) "?t = 65526" | (f32) "?t = 65527" | (i32) "?t = 65528" | (i16) "?t = 65529"
    | (i8) "?t = 65530"
    | (other) "\<not> known_tag ?t"
    unfolding known_tag_def by blast
  then show ?thesis
  proof cases
    case strf
    with r(4,5) i obtain xs where "rv_data rv ! j = ColString xs" "i < length xs"
      by (cases "rv_data rv ! j") (auto simp: alloc_column_def)
    then show ?thesis
      using j r(1) strf by (simp add: Let_def read_cell_def set_string_def case_prod_beta)
  next
    case strl
    show ?thesis
    proof (cases "InsertStrls rdr")
      case True
      with strl r(4,5) i obtain xs where "rv_data rv ! j = ColString xs" "i < length xs"
        by (cases "rv_data rv ! j") (auto simp: alloc_column_def)
      then show ?thesis
        using j r(1) strl True by (simp add: Let_def read_cell_def set_string_def case_prod_beta)
    next
      case False
      with strl r(4,5) i obtain xs where "rv_data rv ! j = ColUint64 xs" "i < length xs"
        by (cases "rv_data rv ! j") (auto simp: alloc_column_def)
      then show ?thesis
        using j r(1) strl False
        by (simp add: Let_def read_cell_def set_uint64_def get_uint64_def case_prod_beta)
    qed
  next
    case f64
    with r(4,5) i obtain xs where "rv_data rv ! j = ColFloat64 xs" "i < length xs"
      by (cases "rv_data rv ! j") (auto simp: alloc_column_def)
    then show ?thesis
      using j r(1,2,3) i f64
      by (simp add: Let_def read_cell_def set_float64_def flag_missing_def case_prod_beta)
  next
    case f32
    with r(4,5) i obtain xs where "rv_data rv ! j = ColFloat32 xs" "i < length xs"
      by (cases "rv_data rv ! j") (auto simp: alloc_column_def)
    then show ?thesis
      using j r(1,2,3) i f32
      by (simp add: Let_def read_cell_def set_float32_def flag_missing_def case_prod_beta)
  next
    case i32
    with r(4,5) i obtain xs where "rv_data rv ! j = ColInt32 xs" "i < length xs"
      by (cases "rv_data rv ! j") (auto simp: alloc_column_def)
    then show ?thesis
      using j r(1,2,3) i i32
      by (simp add: Let_def read_cell_def set_int32_def flag_missing_def case_prod_beta)
  next
    case i16
    with r(4,5) i obtain xs where "rv_data rv ! j = ColInt16 xs" "i < length xs"
      by (cases "rv_data rv ! j") (auto simp: alloc_column_def)
    then show ?thesis
      using j r(1,2,3) i i16
      by (simp add: Let_def read_cell_def set_int16_def flag_missing_def case_prod_beta)
  next
    case i8
    show ?thesis
    proof (cases "InsertCategoryLabels rdr")
      case True
      with i8 r(4,5) i obtain xs where "rv_data rv ! j = ColString xs" "i < length xs"
        by (cases "rv_data rv ! j") (auto simp: alloc_column_def)
      then show ?thesis
        using j r(1,2,3,6) i i8 True
        by (simp add: Let_def read_cell_def set_string_def flag_missing_def category_label_def
            case_prod_beta split: option.splits)
    next
      case False
      with i8 r(4,5) i obtain xs where "rv_data rv ! j = ColInt8 xs" "i < length xs"
        by (cases "rv_data rv ! j") (auto simp: alloc_column_def)
      then show ?thesis
        using j r(1,2,3) i i8 False
        by (simp add: Let_def read_cell_def set_int8_def flag_missing_def case_prod_beta)
    qed
  next
    case other
    then show ?thesis using j by (simp add: Let_def read_cell_def known_tag_def)
  qed
qed

lemma read_row_succeeds:
  "cells_ready rdr n rv \<Longrightarrow> i < n \<Longrightarrow> j + k = length (VarTypes rdr) \<Longrightarrow>
   \<exists>rdr' rv'. read_row k i j rdr rv = Inr (rdr', rv')"
proof (induction k arbitrary: j rdr rv)
  case 0
  then show ?case by simp
next
  case (Suc k)
  then have j: "j < length (VarTypes rdr)" by simp
  from read_cell_succeeds [OF Suc.prems(1,2) j]
  obtain rdr1 rv1 where c: "read_cell i j rdr rv = Inr (rdr1, rv1)" by blast
  note st = read_cell_step [OF c]
  then have v: "VarTypes rdr1 = VarTypes rdr" by (auto simp: cell_step_def)
  have "\<exists>rdr' rv'. read_row k i (Suc j) rdr1 rv1 = Inr (rdr', rv')"
    using Suc.IH [OF cells_ready_step [OF Suc.prems(1) st] Suc.prems(2)] Suc.prems(3) v
    by simp
  with c show ?case by simp
qed

lemma read_rows_step:
  "read_rows k i rdr rv = Inr (rdr', rv') \<Longrightarrow> rows_step rdr rv rdr' rv'"
proof (induction k arbitrary: i rdr rv)
  case 0
  have "rdr = rdr\<lparr>reader := reader rdr, rows_read := rows_read rdr\<rparr>" by simp
  with 0 show ?case unfolding rows_step_def by (metis read_rows.simps(1) Inr_inject prod.inject same_shape_refl)
next
  case (Suc k)
  let ?rdr1 = "rdr\<lparr>rows_read := rows_read rdr + 1\<rparr>"
  show ?case
  proof (cases "rows_read ?rdr1 > RowCount ?rdr1")
    case True
    with Suc.prems have "rdr' = ?rdr1" "rv' = rv" by (simp_all add: Let_def)
    moreover have "?rdr1 = rdr\<lparr>reader := reader rdr, rows_read := rows_read rdr + 1\<rparr>" by simp
    ultimately show ?thesis unfolding rows_step_def by (metis same_shape_refl)
  next
    case False
    with Suc.prems obtain rdr2 rv2 where
      row: "read_row (nat (Nvar ?rdr1)) i 0 ?rdr1 rv = Inr (rdr2, rv2)"
      and rest: "read_rows k (Suc i) rdr2 rv2 = Inr (rdr', rv')"
      by (auto simp: Let_def bindE_eq_Inr)
    from read_row_step [OF row] obtain s where
      r2: "rdr2 = ?rdr1\<lparr>reader := s\<rparr>" and sh2: "same_shape (rv_data rv2) (rv_data rv)"
      and m2: "map length (rv_missing rv2) = map length (rv_missing rv)"
      unfolding cell_step_def by blast
    from Suc.IH [OF rest] obtain s' r' where
      r3: "rdr' = rdr2\<lparr>reader := s', rows_read := r'\<rparr>"
      and sh3: "same_shape (rv_data rv') (rv_data rv2)"
      and m3: "map length (rv_missing rv') = map length (rv_missing rv2)"
      unfolding rows_step_def by blast
    from r2 r3 have "rdr' = rdr\<lparr>reader := s', rows_read := r'\<rparr>" by simp
    with sh2 sh3 m2 m3 show ?thesis
      unfolding rows_step_def using same_shape_trans by auto
  qed
qed

lemma cells_ready_rows_read:
  "cells_ready rdr n rv \<Longrightarrow> cells_ready (rdr\<lparr>rows_read := r\<rparr>) n rv"
  by (simp add: cells_ready_def)

lemma read_rows_succeeds:
  "cells_ready rdr n rv \<Longrightarrow> i + k \<le> n \<Longrightarrow> length (VarTypes rdr) = nat (Nvar rdr) \<Longrightarrow>
   rows_read rdr + int k \<le> RowCount rdr \<Longrightarrow>
   \<exists>rdr' rv'. read_rows k i rdr rv = Inr (rdr', rv') \<and> rows_read rdr' = rows_read rdr + int k"
proof (induction k arbitrary: i rdr rv)
  case 0
  then show ?case by simp
next
  case (Suc k)
  let ?rdr1 = "rdr\<lparr>rows_read := rows_read rdr + 1\<rparr>"
  have ready1: "cells_ready ?rdr1 n rv" using Suc.prems(1) by (rule cells_ready_rows_read)
  have i: "i < n" using Suc.prems(2) by simp
  have "0 + nat (Nvar ?rdr1) = length (VarTypes ?rdr1)" using Suc.prems(3) by simp
  from read_row_succeeds [OF ready1 i this]
  obtain rdr2 rv2 where row: "read_row (nat (Nvar ?rdr1)) i 0 ?rdr1 rv = Inr (rdr2, rv2)"
    by blast
  note st = read_row_step [OF row]
  then obtain s where r2: "rdr2 = ?rdr1\<lparr>reader := s\<rparr>" unfolding cell_step_def by blast
  have ready2: "cells_ready rdr2 n rv2" using cells_ready_step [OF ready1 st] .
  have "\<exists>rdr' rv'. read_rows k (Suc i) rdr2 rv2 = Inr (rdr', rv')
          \<and> rows_read rdr' = rows_read rdr2 + int k"
    using Suc.IH [OF ready2] Suc.prems(2,3,4) r2 by simp
  then obtain rdr' rv' where rest: "read_rows k (Suc i) rdr2 rv2 = Inr (rdr', rv')"
    and rr: "rows_read rdr' = rows_read rdr2 + int k" by blast
  have nb: "\<not> rows_read ?rdr1 > RowCount ?rdr1" using Suc.prems(4) by simp
  have "read_rows (Suc k) i rdr rv = Inr (rdr', rv')"
    using nb row rest by (simp add: Let_def)
  moreover have "rows_read rdr' = rows_read rdr + int (Suc k)" using rr r2 by simp
  ultimately show ?case by blast
qed

lemma do_convert_dates_panics: "do_convert_dates v f = Inl e \<Longrightarrow> \<exists>m. e = Panic m"
  by (auto simp: do_convert_dates_def split: column.splits if_splits)

lemma do_convert_dates_not_int32:
  "col_kind v \<noteq> 5 \<Longrightarrow> \<exists>m. do_convert_dates v f = Inl (Panic m)"
  by (cases v) (simp_all add: do_convert_dates_def)

lemma convert_dates_fails:
  "j0 \<le> j \<Longrightarrow> j < j0 + n \<Longrightarrow> j < length d \<Longrightarrow>
   length (is_date rdr) \<le> j \<or> is_date rdr ! j \<Longrightarrow> col_kind (d ! j) \<noteq> 5 \<Longrightarrow>
   \<exists>m. convert_dates n j0 rdr d = Inl (Panic m)"
proof (induction n arbitrary: j0 d)
  case 0
  then show ?case by simp
next
  case (Suc n)
  show ?case
  proof (cases "j0 = j")
    case True
    with Suc.prems do_convert_dates_not_int32 [of "d ! j" "Formats rdr ! j"] show ?thesis
      by auto
  next
    case False
    with Suc.prems have lt: "Suc j0 \<le> j" "j < Suc j0 + n" by simp_all
    have step: "\<exists>m. convert_dates n (Suc j0) rdr d' = Inl (Panic m)"
      if "length d' = length d" "d' ! j = d ! j" for d'
      using Suc.IH [OF lt, of d'] Suc.prems(3,4,5) that by simp
    show ?thesis
    proof (cases "length (is_date rdr) \<le> j0")
      case True
      then show ?thesis by simp
    next
      case nd: False
      show ?thesis
      proof (cases "is_date rdr ! j0")
        case False
        with nd step [of d] show ?thesis by simp
      next
        case True
        show ?thesis
        proof (cases "length (Formats rdr) \<le> j0")
          case True
          with nd \<open>is_date rdr ! j0\<close> show ?thesis by simp
        next
          case fm: False
          show ?thesis
          proof (cases "do_convert_dates (d ! j0) (Formats rdr ! j0)")
            case (Inl e)
            with do_convert_dates_panics [OF Inl] nd True fm show ?thesis by auto
          next
            case (Inr c)
            have "\<exists>m. convert_dates n (Suc j0) rdr (d[j0 := c]) = Inl (Panic m)"
              using step [of "d[j0 := c]"] False by simp
            with nd True fm Inr show ?thesis by simp
          qed
        qed
      qed
    qed
  qed
qed

lemma do_convert_dates_int32:
  "col_kind v = 5 \<Longrightarrow> is_date_format f \<Longrightarrow>
   \<exists>c. do_convert_dates v f = Inr c \<and> col_len c = col_len v \<and> typed c"
  by (cases v) (auto simp: do_convert_dates_def is_date_format_def typed_def split: if_splits)

lemma convert_dates_ok:
  "j0 + n \<le> length d \<Longrightarrow> j0 + n \<le> length (is_date rdr) \<Longrightarrow> j0 + n \<le> length (Formats rdr) \<Longrightarrow>
   (\<forall>j. j0 \<le> j \<and> j < j0 + n \<and> is_date rdr ! j \<longrightarrow>
        col_kind (d ! j) = 5 \<and> is_date_format (Formats rdr ! j)) \<Longrightarrow>
   \<exists>d'. convert_dates n j0 rdr d = Inr d' \<and> map col_len d' = map col_len d
        \<and> (\<forall>j < length d. typed (d ! j) \<longrightarrow> typed (d' ! j))"
proof (induction n arbitrary: j0 d)
  case 0
  then show ?case by simp
next
  case (Suc n)
  have j0: "j0 < length d" "j0 < length (is_date rdr)" "j0 < length (Formats rdr)"
    using Suc.prems by simp_all
  show ?case
  proof (cases "is_date rdr ! j0")
    case False
    have "\<exists>d'. convert_dates n (Suc j0) rdr d = Inr d' \<and> map col_len d' = map col_len d
        \<and> (\<forall>j < length d. typed (d ! j) \<longrightarrow> typed (d' ! j))"
      using Suc.prems by (intro Suc.IH) auto
    with False j0 show ?thesis by simp
  next
    case True
    with Suc.prems(4) have k: "col_kind (d ! j0) = 5" "is_date_format (Formats rdr ! j0)"
      by auto
    from do_convert_dates_int32 [OF k] obtain c where
      c: "do_convert_dates (d ! j0) (Formats rdr ! j0) = Inr c" "col_len c = col_len (d ! j0)" "typed c"
      by blast
    let ?d = "d[j0 := c]"
    have "\<exists>d'. convert_dates n (Suc j0) rdr ?d = Inr d' \<and> map col_len d' = map col_len ?d
        \<and> (\<forall>j < length ?d. typed (?d ! j) \<longrightarrow> typed (d' ! j))"
      using Suc.prems by (intro Suc.IH) auto
    then obtain d' where d': "convert_dates n (Suc j0) rdr ?d = Inr d'"
      "map col_len d' = map col_len ?d" "\<forall>j < length ?d. typed (?d ! j) \<longrightarrow> typed (d' ! j)"
      by blast
    have "map col_len ?d = map col_len d"
      using c(2) j0(1) by (simp add: map_update list_update_same_conv)
    moreover have "\<forall>j < length d. typed (d ! j) \<longrightarrow> typed (d' ! j)"
    proof (intro allI impI)
      fix j assume j: "j < length d" "typed (d ! j)"
      then have "typed (?d ! j)" using c(3) by (cases "j = j0") simp_all
      with d'(3) j(1) show "typed (d' ! j)" by simp
    qed
    ultimately show ?thesis using True j0 c(1) d'(1,2) by simp
  qed
qed

lemma make_series_ok:
  "j0 + n = length d \<Longrightarrow> length m = length d \<Longrightarrow> length d \<le> length (column_names rdr) \<Longrightarrow>
   (\<forall>j < length d. typed (d ! j) \<and> col_len (d ! j) = length (m ! j)) \<Longrightarrow>
   make_series n j0 rdr d m =
     Inr (map (\<lambda>j. \<lparr>Name = column_names rdr ! j, Data = d ! j, Missing = m ! j\<rparr>) [j0..<j0 + n])"
proof (induction n arbitrary: j0)
  case 0
  then show ?case by simp
next
  case (Suc n)
  have j0: "j0 < length d" using Suc.prems by simp
  with Suc.prems(4) have t: "typed (d ! j0)" "col_len (d ! j0) = length (m ! j0)" by auto
  then have ns: "NewSeries (column_names rdr ! j0) (d ! j0) (m ! j0)
                   = Inr \<lparr>Name = column_names rdr ! j0, Data = d ! j0, Missing = m ! j0\<rparr>"
    by (cases "d ! j0") (simp_all add: NewSeries_def typed_def)
  have "make_series n (Suc j0) rdr d m =
     Inr (map (\<lambda>j. \<lparr>Name = column_names rdr ! j, Data = d ! j, Missing = m ! j\<rparr>)
            [Suc j0..<Suc j0 + n])"
    using Suc.prems by (intro Suc.IH) auto
  moreover have "[j0..<j0 + Suc n] = j0 # [Suc j0..<Suc j0 + n]"
    by (simp add: upt_conv_Cons)
  ultimately show ?case
    using ns j0 Suc.prems(3) by (simp del: upt_Suc)
qed

lemma setter_panics:
  "set_string i j v d = Inl e \<Longrightarrow> \<exists>m. e = Panic m"
  "set_uint64 i j v1 d = Inl e \<Longrightarrow> \<exists>m. e = Panic m"
  "set_float64 i j v1 d = Inl e \<Longrightarrow> \<exists>m. e = Panic m"
  "set_float32 i j v2 d = Inl e \<Longrightarrow> \<exists>m. e = Panic m"
  "set_int32 i j v2 d = Inl e \<Longrightarrow> \<exists>m. e = Panic m"
  "set_int16 i j v3 d = Inl e \<Longrightarrow> \<exists>m. e = Panic m"
  "set_int8 i j v4 d = Inl e \<Longrightarrow> \<exists>m. e = Panic m"
  "get_uint64 i j d = Inl e \<Longrightarrow> \<exists>m. e = Panic m"
  "flag_missing c i j ms = Inl e \<Longrightarrow> \<exists>m. e = Panic m"
  "category_label rdr j x = Inl e \<Longrightarrow> \<exists>m. e = Panic m"
  by (auto simp: set_string_def set_uint64_def set_float64_def set_float32_def set_int32_def
      set_int16_def set_int8_def get_uint64_def flag_missing_def category_label_def Let_def
      split: if_splits column.splits option.splits)

lemma bindE_eq_Inl: "bindE m f = Inl e \<longleftrightarrow> m = Inl e \<or> (\<exists>x. m = Inr x \<and> f x = Inl e)"
  by (cases m) simp_all

lemma read_cell_panics: "read_cell i j rdr rv = Inl e \<Longrightarrow> \<exists>m. e = Panic m"
  unfolding read_cell_def Let_def
  by (auto simp: bindE_eq_Inl case_prod_beta dest: setter_panics split: if_splits)

lemma read_row_panics: "read_row n i j rdr rv = Inl e \<Longrightarrow> \<exists>m. e = Panic m"
  by (induction n arbitrary: j rdr rv) (auto simp: bindE_eq_Inl dest: read_cell_panics)

lemma read_rows_panics: "read_rows n i rdr rv = Inl e \<Longrightarrow> \<exists>m. e = Panic m"
  by (induction n arbitrary: i rdr rv)
     (auto simp: bindE_eq_Inl Let_def dest: read_row_panics split: if_splits)

lemma alloc_kind_int32: "col_kind (alloc_column rdr n t) = 5 \<longleftrightarrow> t = 65528"
  by (simp add: alloc_column_def)

lemma same_shape_nth:
  "same_shape d' d \<Longrightarrow> length d' = length d"
  "same_shape d' d \<Longrightarrow> j < length d \<Longrightarrow> col_kind (d' ! j) = col_kind (d ! j)"
  "same_shape d' d \<Longrightarrow> j < length d \<Longrightarrow> col_len (d' ! j) = col_len (d ! j)"
  unfolding same_shape_def
  by (metis length_map, metis length_map nth_map, metis length_map nth_map)

lemma map_nth_upt: "map (\<lambda>j. if j < length xs then f (xs ! j) else c) [0..<length xs] = map f xs"
  by (rule nth_equalityI) simp_all

lemma alloc_known:
  "known_tag t \<Longrightarrow> typed (alloc_column rdr n t) \<and> col_len (alloc_column rdr n t) = n"
  by (auto simp: known_tag_def alloc_column_def typed_def)

lemma typed_kind: "typed c \<longleftrightarrow> col_kind c \<noteq> 0"
  by (cases c) (simp_all add: typed_def)

lemma read_gso_keeps_zero:
  "Strls rdr 0 \<noteq> None \<Longrightarrow> Strls (snd (read_gso g rdr)) 0 \<noteq> None"
  by (simp add: read_gso_def Let_def case_prod_beta)

lemma read_strls_loop_keeps_zero:
  assumes run: "read_strls_loop g0 rdr0 = Some rdr1"
  shows "Strls rdr0 0 \<noteq> None \<longrightarrow> Strls rdr1 0 \<noteq> None"
proof (rule read_strls_loop.raw_induct
    [where P = "\<lambda>g rdr y. Strls rdr 0 \<noteq> None \<longrightarrow> Strls y 0 \<noteq> None", OF _ run])
  fix loop g rdr rdr'
  assume IH: "\<And>g rdr y. loop g rdr = Some y \<Longrightarrow> Strls rdr 0 \<noteq> None \<longrightarrow> Strls y 0 \<noteq> None"
    and body: "(case Read_into 3 (gso_buf3 g) (reader rdr) of
                 (b, s) \<Rightarrow>
                   if b \<noteq> ''GSO'' then Some (rdr\<lparr>reader := s\<rparr>)
                   else case read_gso (g\<lparr>gso_buf3 := b\<rparr>) (rdr\<lparr>reader := s\<rparr>) of
                          (g', rdr') \<Rightarrow> loop g' rdr') = Some rdr'"
  obtain b s where rd: "Read_into 3 (gso_buf3 g) (reader rdr) = (b, s)"
    by (cases "Read_into 3 (gso_buf3 g) (reader rdr)")
  show "Strls rdr 0 \<noteq> None \<longrightarrow> Strls rdr' 0 \<noteq> None"
  proof (cases "b = ''GSO''")
    case False
    with body rd show ?thesis by auto
  next
    case True
    obtain g' r' where gs: "read_gso (g\<lparr>gso_buf3 := ''GSO''\<rparr>) (rdr\<lparr>reader := s\<rparr>) = (g', r')"
      by (cases "read_gso (g\<lparr>gso_buf3 := ''GSO''\<rparr>) (rdr\<lparr>reader := s\<rparr>)")
    have l: "loop g' r' = Some rdr'"
      using body by (simp add: rd True gs)
    have st: "Strls rdr 0 \<noteq> None \<longrightarrow> Strls r' 0 \<noteq> None"
      using read_gso_keeps_zero [of "rdr\<lparr>reader := s\<rparr>" "g\<lparr>gso_buf3 := ''GSO''\<rparr>"] gs by simp
    from IH [OF l] st show ?thesis by simp
  qed
qed

lemma read_strls_keeps_zero:
  "read_strls rdr = Some rdr' \<Longrightarrow> Strls rdr' 0 \<noteq> None"
  unfolding read_strls_def Let_def
  by (drule read_strls_loop_keeps_zero) simp

lemma bindE_weak_cong: "m = m' \<Longrightarrow> bindE m f = bindE m' f"
  by simp

lemma Read_into_alt:
  "Read_into n buf s =
     (take n (drop (pos s) (content s)) @ drop (min (length (content s) - pos s) n) buf,
      s\<lparr>pos := pos s + min (length (content s) - pos s) n\<rparr>)"
  by (simp add: Read_into_def avail_def Let_def)

lemma ReadFull_alt:
  "ReadFull n s =
     (if n \<le> length (content s) - pos s then Some (take n (drop (pos s) (content s))) else None,
      s\<lparr>pos := pos s + min (length (content s) - pos s) n\<rparr>)"
  by (auto simp: ReadFull_def avail_def Let_def)

lemma partition_bytes_nul [simp]:
  "partition_bytes (replicate (numeral k) (CHR 0x00)) = []"
  "partition_bytes (replicate (numeral k) (CHR 0x00) @ ys) = []"
  by (simp_all add: numeral_eq_Suc)

lemma read_rows_numeral:
  "read_rows (numeral k) i rdr rv =
     (let rdr = rdr\<lparr>rows_read := rows_read rdr + 1\<rparr>
      in if rows_read rdr > RowCount rdr then Inr (rdr, rv)
         else bindE (read_row (nat (Nvar rdr)) i 0 rdr rv) (\<lambda>(rdr', rv').
              read_rows (pred_numeral k) (Suc i) rdr' rv'))"
  by (simp add: numeral_eq_Suc)

lemma replicate_small:
  "replicate 2 x = [x, x]"
  "replicate 3 x = [x, x, x]"
  "replicate 4 x = [x, x, x, x]"
  "replicate 5 x = [x, x, x, x, x]"
  "replicate 7 x = [x, x, x, x, x, x, x]"
  by (simp_all add: numeral_eq_Suc)

lemmas init_defs =
  NewStataReader_def init_def new_StataReader_def binary_Read_def Seek_set_def Seek_cur_def
  be_nat_def uint_of_def read_old_header_def read_new_header_def ParseUint3_def digit_val_def
  supported_version_def supported_dta_versions_def read_int_def read_uint_def nvar_width_def
  row_count_width_def dataset_label_width_def lookup0_def read_vartypes_def
  read_vartypes_16_def read_vartypes_8_def translate_vartypes_def translate_vartype_def
  read_varnames_def do_read_varnames_def read_formats_def do_read_formats_def
  is_date_format_def has_prefix_def read_value_label_names_def do_read_value_label_names_def
  read_variable_labels_def do_read_variable_labels_def read_expansion_fields_def
  read_expansion_fields_loop.simps read_strls_def read_strls_loop.simps read_gso_def
  read_value_labels_def read_value_labels_loop.simps read_lbl_def Let_def

lemmas Read_defs =
  Read_def new_StataReader_def binary_Read_def Seek_set_def Seek_cur_def be_nat_def
  uint_of_def read_rows_numeral read_cell_def alloc_column_def known_tag_def set_string_def
  set_uint64_def set_float64_def set_float32_def set_int32_def set_int16_def set_int8_def
  get_uint64_def flag_missing_def int32_missing_def int16_missing_def int8_missing_def
  NewSeries_def replicate_small Let_def

lemma length_file114: "length file114 = 317"
  by (simp add: file114_def)

lemma length_file118: "length file118 = 1198"
  by (simp add: file118_def)

lemma file114_reads:
  "Read_into (Suc 0) buf \<lparr>content = file114, pos = 0\<rparr> =
     (''r'' @ drop (Suc 0) buf,
      \<lparr>content = file114, pos = Suc 0\<rparr>)"
  "ReadFull (Suc 0) \<lparr>content = file114, pos = 0\<rparr> =
     (Some ''r'',
      \<lparr>content = file114, pos = Suc 0\<rparr>)"
  "ReadFull (Suc 0) \<lparr>content = file114, pos = Suc 0\<rparr> =
     (Some [CHR 0x02],
      \<lparr>content = file114, pos = 2\<rparr>)"
  "ReadFull 2 \<lparr>content = file114, pos = 4\<rparr> =
     (Some [CHR 0x01, CHR 0x00],
      \<lparr>content = file114, pos = 6\<rparr>)"
  "ReadFull 4 \<lparr>content = file114, pos = 6\<rparr> =
     (Some [CHR 0x02, CHR 0x00, CHR 0x00, CHR 0x00],
      \<lparr>content = file114, pos = 10\<rparr>)"
  "Read_into 81 buf \<lparr>content = file114, pos = 10\<rparr> =
     (replicate 81 (CHR 0x00) @ drop 81 buf,
      \<lparr>content = file114, pos = 91\<rparr>)"
  "Read_into 18 buf \<lparr>content = file114, pos = 91\<rparr> =
     (replicate 18 (CHR 0x00) @ drop 18 buf,
      \<lparr>content = file114, pos = 109\<rparr>)"
  "ReadFull (Suc 0) \<lparr>content = file114, pos = 109\<rparr> =
     (Some [CHR 0xFB],
      \<lparr>content = file114, pos = 110\<rparr>)"
  "Read_into 33 buf \<lparr>content = file114, pos = 110\<rparr> =
     (''x'' @
        replicate 32 (CHR 0x00) @ drop 33 buf,
      \<lparr>content = file114, pos = 143\<rparr>)"
  "Read_into 49 buf \<lparr>content = file114, pos = 147\<rparr> =
     (''%8.0g'' @
        replicate 44 (CHR 0x00) @ drop 49 buf,
      \<lparr>content = file114, pos = 196\<rparr>)"
  by (simp_all add: Read_into_alt ReadFull_alt length_file114)
     (simp_all add: file114_def replicate_small)

lemma file118_reads:
  "Read_into (Suc 0) buf \<lparr>content = file118, pos = 0\<rparr> =
     (''<'' @ drop (Suc 0) buf,
      \<lparr>content = file118, pos = Suc 0\<rparr>)"
  "Read_into 28 buf \<lparr>content = file118, pos = 0\<rparr> =
     (''<stata_dta><header><release>'' @ drop 28 buf,
      \<lparr>content = file118, pos = 28\<rparr>)"
  "Read_into 3 buf \<lparr>content = file118, pos = 28\<rparr> =
     (''118'' @ drop 3 buf,
      \<lparr>content = file118, pos = 31\<rparr>)"
  "Read_into 3 buf \<lparr>content = file118, pos = 52\<rparr> =
     (''LSF'' @ drop 3 buf,
      \<lparr>content = file118, pos = 55\<rparr>)"
  "ReadFull 2 \<lparr>content = file118, pos = 70\<rparr> =
     (Some [CHR 0x01, CHR 0x00],
      \<lparr>content = file118, pos = 72\<rparr>)"
  "ReadFull 8 \<lparr>content = file118, pos = 79\<rparr> =
     (Some [CHR 0x0A, CHR 0x00, CHR 0x00, CHR 0x00, CHR 0x00, CHR 0x00, CHR 0x00, CHR 0x00],
      \<lparr>content = file118, pos = 87\<rparr>)"
  "ReadFull 2 \<lparr>content = file118, pos = 98\<rparr> =
     (Some [CHR 0x00, CHR 0x00],
      \<lparr>content = file118, pos = 100\<rparr>)"
  "Read_into 0 buf \<lparr>content = file118, pos = 100\<rparr> =
     (buf, \<lparr>content = file118, pos = 100\<rparr>)"
  "ReadFull (Suc 0) \<lparr>content = file118, pos = 119\<rparr> =
     (Some [CHR 0x00],
      \<lparr>content = file118, pos = 120\<rparr>)"
  "Read_into 0 buf \<lparr>content = file118, pos = 120\<rparr> =
     (buf, \<lparr>content = file118, pos = 120\<rparr>)"
  "ReadFull 8 \<lparr>content = file118, pos = 162\<rparr> =
     (Some [CHR 0x08, CHR 0x01, CHR 0x00, CHR 0x00, CHR 0x00, CHR 0x00, CHR 0x00, CHR 0x00],
      \<lparr>content = file118, pos = 170\<rparr>)"
  "ReadFull 8 \<lparr>content = file118, pos = 170\<rparr> =
     (Some [CHR 0x2B, CHR 0x01, CHR 0x00, CHR 0x00, CHR 0x00, CHR 0x00, CHR 0x00, CHR 0x00],
      \<lparr>content = file118, pos = 178\<rparr>)"
  "ReadFull 8 \<lparr>content = file118, pos = 178\<rparr> =
     (Some [CHR 0xC1, CHR 0x01, CHR 0x00, CHR 0x00, CHR 0x00, CHR 0x00, CHR 0x00, CHR 0x00],
      \<lparr>content = file118, pos = 186\<rparr>)"
  "ReadFull 8 \<lparr>content = file118, pos = 186\<rparr> =
     (Some [CHR 0xDA, CHR 0x01, CHR 0x00, CHR 0x00, CHR 0x00, CHR 0x00, CHR 0x00, CHR 0x00],
      \<lparr>content = file118, pos = 194\<rparr>)"
  "ReadFull 8 \<lparr>content = file118, pos = 194\<rparr> =
     (Some [CHR 0x26, CHR 0x02, CHR 0x00, CHR 0x00, CHR 0x00, CHR 0x00, CHR 0x00, CHR 0x00],
      \<lparr>content = file118, pos = 202\<rparr>)"
  "ReadFull 8 \<lparr>content = file118, pos = 202\<rparr> =
     (Some [CHR 0xCE, CHR 0x02, CHR 0x00, CHR 0x00, CHR 0x00, CHR 0x00, CHR 0x00, CHR 0x00],
      \<lparr>content = file118, pos = 210\<rparr>)"
  "ReadFull 8 \<lparr>content = file118, pos = 210\<rparr> =
     (Some [CHR 0x32, CHR 0x04, CHR 0x00, CHR 0x00, CHR 0x00, CHR 0x00, CHR 0x00, CHR 0x00],
      \<lparr>content = file118, pos = 218\<rparr>)"
  "ReadFull 8 \<lparr>content = file118, pos = 218\<rparr> =
     (Some [CHR 0x55, CHR 0x04, CHR 0x00, CHR 0x00, CHR 0x00, CHR 0x00, CHR 0x00, CHR 0x00],
      \<lparr>content = file118, pos = 226\<rparr>)"
  "ReadFull 8 \<lparr>content = file118, pos = 226\<rparr> =
     (Some [CHR 0x76, CHR 0x04, CHR 0x00, CHR 0x00, CHR 0x00, CHR 0x00, CHR 0x00, CHR 0x00],
      \<lparr>content = file118, pos = 234\<rparr>)"
  "ReadFull 8 \<lparr>content = file118, pos = 234\<rparr> =
     (Some [CHR 0x85, CHR 0x04, CHR 0x00, CHR 0x00, CHR 0x00, CHR 0x00, CHR 0x00, CHR 0x00],
      \<lparr>content = file118, pos = 242\<rparr>)"
  "ReadFull 2 \<lparr>content = file118, pos = 280\<rparr> =
     (Some [CHR 0xF9, CHR 0xFF],
      \<lparr>content = file118, pos = 282\<rparr>)"
  "Read_into 129 buf \<lparr>content = file118, pos = 309\<rparr> =
     (''x'' @
        replicate 128 (CHR 0x00) @ drop 129 buf,
      \<lparr>content = file118, pos = 438\<rparr>)"
  "Read_into 57 buf \<lparr>content = file118, pos = 483\<rparr> =
     (''%8.0g'' @
        replicate 52 (CHR 0x00) @ drop 57 buf,
      \<lparr>content = file118, pos = 540\<rparr>)"
  "Read_into 129 buf \<lparr>content = file118, pos = 569\<rparr> =
     (replicate 129 (CHR 0x00) @ drop 129 buf,
      \<lparr>content = file118, pos = 698\<rparr>)"
  "Read_into 321 buf \<lparr>content = file118, pos = 735\<rparr> =
     (replicate 321 (CHR 0x00) @ drop 321 buf,
      \<lparr>content = file118, pos = 1056\<rparr>)"
  "Read_into 3 buf \<lparr>content = file118, pos = 1149\<rparr> =
     (''</s'' @ drop 3 buf,
      \<lparr>content = file118, pos = 1152\<rparr>)"
  "Read_into 5 buf \<lparr>content = file118, pos = 1171\<rparr> =
     (''</val'' @ drop 5 buf,
      \<lparr>content = file118, pos = 1176\<rparr>)"
  "ReadFull 2 \<lparr>content = file118, pos = 1115\<rparr> =
     (Some [CHR 0x00, CHR 0x00],
      \<lparr>content = file118, pos = 1117\<rparr>)"
  "ReadFull 2 \<lparr>content = file118, pos = 1117\<rparr> =
     (Some [CHR 0x01, CHR 0x00],
      \<lparr>content = file118, pos = 1119\<rparr>)"
  "ReadFull 2 \<lparr>content = file118, pos = 1119\<rparr> =
     (Some [CHR 0x02, CHR 0x00],
      \<lparr>content = file118, pos = 1121\<rparr>)"
  "ReadFull 2 \<lparr>content = file118, pos = 1121\<rparr> =
     (Some [CHR 0x03, CHR 0x00],
      \<lparr>content = file118, pos = 1123\<rparr>)"
  "ReadFull 2 \<lparr>content = file118, pos = 1123\<rparr> =
     (Some [CHR 0x04, CHR 0x00],
      \<lparr>content = file118, pos = 1125\<rparr>)"
  "ReadFull 2 \<lparr>content = file118, pos = 1125\<rparr> =
     (Some [CHR 0x05, CHR 0x00],
      \<lparr>content = file118, pos = 1127\<rparr>)"
  "ReadFull 2 \<lparr>content = file118, pos = 1127\<rparr> =
     (Some [CHR 0x06, CHR 0x00],
      \<lparr>content = file118, pos = 1129\<rparr>)"
  by (simp_all add: Read_into_alt ReadFull_alt length_file118) (simp_all add: file118_def)

lemma file118_opens:
  "NewStataReader \<lparr>content = file118, pos = 0\<rparr> = Some (Inr rdr118)"
  by (simp add: init_defs file118_reads rdr118_def cong: let_weak_cong bindE_weak_cong)

lemma length_file115: "length file115 = 335"
  by (simp add: file115_def)

lemma length_file115m: "length file115m = 325"
  by (simp add: file115m_def)

lemma file115_reads:
  "Read_into (Suc 0) buf \<lparr>content = file115, pos = 0\<rparr> =
     (''s'' @ drop (Suc 0) buf,
      \<lparr>content = file115, pos = Suc 0\<rparr>)"
  "ReadFull (Suc 0) \<lparr>content = file115, pos = 0\<rparr> =
     (Some ''s'',
      \<lparr>content = file115, pos = Suc 0\<rparr>)"
  "ReadFull (Suc 0) \<lparr>content = file115, pos = Suc 0\<rparr> =
     (Some [CHR 0x02],
      \<lparr>content = file115, pos = 2\<rparr>)"
  "ReadFull 2 \<lparr>content = file115, pos = 4\<rparr> =
     (Some [CHR 0x01, CHR 0x00],
      \<lparr>content = file115, pos = 6\<rparr>)"
  "ReadFull 4 \<lparr>content = file115, pos = 6\<rparr> =
     (Some [CHR 0x0A, CHR 0x00, CHR 0x00, CHR 0x00],
      \<lparr>content = file115, pos = 10\<rparr>)"
  "Read_into 81 buf \<lparr>content = file115, pos = 10\<rparr> =
     (replicate 81 (CHR 0x00) @ drop 81 buf,
      \<lparr>content = file115, pos = 91\<rparr>)"
  "Read_into 18 buf \<lparr>content = file115, pos = 91\<rparr> =
     (replicate 18 (CHR 0x00) @ drop 18 buf,
      \<lparr>content = file115, pos = 109\<rparr>)"
  "ReadFull (Suc 0) \<lparr>content = file115, pos = 109\<rparr> =
     (Some [CHR 0xFC],
      \<lparr>content = file115, pos = 110\<rparr>)"
  "Read_into 33 buf \<lparr>content = file115, pos = 110\<rparr> =
     (''x'' @
        replicate 32 (CHR 0x00) @ drop 33 buf,
      \<lparr>content = file115, pos = 143\<rparr>)"
  "Read_into 49 buf \<lparr>content = file115, pos = 147\<rparr> =
     (''%8.0g'' @
        replicate 44 (CHR 0x00) @ drop 49 buf,
      \<lparr>content = file115, pos = 196\<rparr>)"
  "Read_into 33 buf \<lparr>content = file115, pos = 196\<rparr> =
     (replicate 33 (CHR 0x00) @ drop 33 buf,
      \<lparr>content = file115, pos = 229\<rparr>)"
  "Read_into 81 buf \<lparr>content = file115, pos = 229\<rparr> =
     (replicate 81 (CHR 0x00) @ drop 81 buf,
      \<lparr>content = file115, pos = 310\<rparr>)"
  "ReadFull (Suc 0) \<lparr>content = file115, pos = 310\<rparr> =
     (Some [CHR 0x00],
      \<lparr>content = file115, pos = 311\<rparr>)"
  "ReadFull 4 \<lparr>content = file115, pos = 311\<rparr> =
     (Some [CHR 0x00, CHR 0x00, CHR 0x00, CHR 0x00],
      \<lparr>content = file115, pos = 315\<rparr>)"
  "ReadFull 2 \<lparr>content = file115, pos = 315\<rparr> =
     (Some [CHR 0x00, CHR 0x00],
      \<lparr>content = file115, pos = 317\<rparr>)"
  "ReadFull 2 \<lparr>content = file115, pos = 317\<rparr> =
     (Some [CHR 0x01, CHR 0x00],
      \<lparr>content = file115, pos = 319\<rparr>)"
  "ReadFull 2 \<lparr>content = file115, pos = 319\<rparr> =
     (Some [CHR 0x02, CHR 0x00],
      \<lparr>content = file115, pos = 321\<rparr>)"
  "ReadFull 2 \<lparr>content = file115, pos = 321\<rparr> =
     (Some [CHR 0x03, CHR 0x00],
      \<lparr>content = file115, pos = 323\<rparr>)"
  "ReadFull 2 \<lparr>content = file115, pos = 323\<rparr> =
     (Some [CHR 0x04, CHR 0x00],
      \<lparr>content = file115, pos = 325\<rparr>)"
  "ReadFull 2 \<lparr>content = file115, pos = 325\<rparr> =
     (Some [CHR 0x05, CHR 0x00],
      \<lparr>content = file115, pos = 327\<rparr>)"
  "ReadFull 2 \<lparr>content = file115, pos = 327\<rparr> =
     (Some [CHR 0x06, CHR 0x00],
      \<lparr>content = file115, pos = 329\<rparr>)"
  "ReadFull 2 \<lparr>content = file115, pos = 329\<rparr> =
     (Some [CHR 0x07, CHR 0x00],
      \<lparr>content = file115, pos = 331\<rparr>)"
  "ReadFull 2 \<lparr>content = file115, pos = 331\<rparr> =
     (Some [CHR 0x08, CHR 0x00],
      \<lparr>content = file115, pos = 333\<rparr>)"
  "ReadFull 2 \<lparr>content = file115, pos = 333\<rparr> =
     (Some [CHR 0x09, CHR 0x00],
      \<lparr>content = file115, pos = 335\<rparr>)"
  by (simp_all add: Read_into_alt ReadFull_alt length_file115)
     (simp_all add: file115_def replicate_small)

lemma file115m_reads:
  "Read_into (Suc 0) buf \<lparr>content = file115m, pos = 0\<rparr> =
     (''s'' @ drop (Suc 0) buf,
      \<lparr>content = file115m, pos = Suc 0\<rparr>)"
  "ReadFull (Suc 0) \<lparr>content = file115m, pos = 0\<rparr> =
     (Some ''s'',
      \<lparr>content = file115m, pos = Suc 0\<rparr>)"
  "ReadFull (Suc 0) \<lparr>content = file115m, pos = Suc 0\<rparr> =
     (Some [CHR 0x02],
      \<lparr>content = file115m, pos = 2\<rparr>)"
  "ReadFull 2 \<lparr>content = file115m, pos = 4\<rparr> =
     (Some [CHR 0x01, CHR 0x00],
      \<lparr>content = file115m, pos = 6\<rparr>)"
  "ReadFull 4 \<lparr>content = file115m, pos = 6\<rparr> =
     (Some [CHR 0x05, CHR 0x00, CHR 0x00, CHR 0x00],
      \<lparr>content = file115m, pos = 10\<rparr>)"
  "Read_into 81 buf \<lparr>content = file115m, pos = 10\<rparr> =
     (replicate 81 (CHR 0x00) @ drop 81 buf,
      \<lparr>content = file115m, pos = 91\<rparr>)"
  "Read_into 18 buf \<lparr>content = file115m, pos = 91\<rparr> =
     (replicate 18 (CHR 0x00) @ drop 18 buf,
      \<lparr>content = file115m, pos = 109\<rparr>)"
  "ReadFull (Suc 0) \<lparr>content = file115m, pos = 109\<rparr> =
     (Some [CHR 0xFC],
      \<lparr>content = file115m, pos = 110\<rparr>)"
  "Read_into 33 buf \<lparr>content = file115m, pos = 110\<rparr> =
     (''x'' @
        replicate 32 (CHR 0x00) @ drop 33 buf,
      \<lparr>content = file115m, pos = 143\<rparr>)"
  "Read_into 49 buf \<lparr>content = file115m, pos = 147\<rparr> =
     (''%8.0g'' @
        replicate 44 (CHR 0x00) @ drop 49 buf,
      \<lparr>content = file115m, pos = 196\<rparr>)"
  "Read_into 33 buf \<lparr>content = file115m, pos = 196\<rparr> =
     (replicate 33 (CHR 0x00) @ drop 33 buf,
      \<lparr>content = file115m, pos = 229\<rparr>)"
  "Read_into 81 buf \<lparr>content = file115m, pos = 229\<rparr> =
     (replicate 81 (CHR 0x00) @ drop 81 buf,
      \<lparr>content = file115m, pos = 310\<rparr>)"
  "ReadFull (Suc 0) \<lparr>content = file115m, pos = 310\<rparr> =
     (Some [CHR 0x00],
      \<lparr>content = file115m, pos = 311\<rparr>)"
  "ReadFull 4 \<lparr>content = file115m, pos = 311\<rparr> =
     (Some [CHR 0x00, CHR 0x00, CHR 0x00, CHR 0x00],
      \<lparr>content = file115m, pos = 315\<rparr>)"
  "ReadFull 2 \<lparr>content = file115m, pos = 315\<rparr> =
     (Some [CHR 0xE3, CHR 0x7F],
      \<lparr>content = file115m, pos = 317\<rparr>)"
  "ReadFull 2 \<lparr>content = file115m, pos = 317\<rparr> =
     (Some [CHR 0xE4, CHR 0x7F],
      \<lparr>content = file115m, pos = 319\<rparr>)"
  "ReadFull 2 \<lparr>content = file115m, pos = 319\<rparr> =
     (Some [CHR 0xE5, CHR 0x7F],
      \<lparr>content = file115m, pos = 321\<rparr>)"
  "ReadFull 2 \<lparr>content = file115m, pos = 321\<rparr> =
     (Some [CHR 0x01, CHR 0x80],
      \<lparr>content = file115m, pos = 323\<rparr>)"
  "ReadFull 2 \<lparr>content = file115m, pos = 323\<rparr> =
     (Some [CHR 0x00, CHR 0x80],
      \<lparr>content = file115m, pos = 325\<rparr>)"
  by (simp_all add: Read_into_alt ReadFull_alt length_file115m)
     (simp_all add: file115m_def replicate_small)

lemma file115_opens:
  "NewStataReader \<lparr>content = file115, pos = 0\<rparr> = Some (Inr rdr115)"
  by (simp add: init_defs file115_reads rdr115_def cong: let_weak_cong bindE_weak_cong)

lemma file115m_opens:
  "NewStataReader \<lparr>content = file115m, pos = 0\<rparr> = Some (Inr rdr115m)"
  by (simp add: init_defs file115m_reads rdr115m_def cong: let_weak_cong bindE_weak_cong)

lemma Read_115_continues:
  "Read 3 rdr115 =
       Inr ([\<lparr>Name = ''x'', Data = ColInt16 [0, 1, 2], Missing = [False, False, False]\<rparr>],
            rdr115\<lparr>rows_read := 3, reader := \<lparr>content = file115, pos = 321\<rparr>\<rparr>)"
  "Read (- 1) (rdr115\<lparr>rows_read := 3, reader := \<lparr>content = file115, pos = 321\<rparr>\<rparr>) =
       Inr ([\<lparr>Name = ''x'', Data = ColInt16 [3, 4, 5, 6, 7, 8, 9],
              Missing = [False, False, False, False, False, False, False]\<rparr>],
            rdr115\<lparr>rows_read := 10, reader := \<lparr>content = file115, pos = 335\<rparr>\<rparr>)"
  "Read (- 1) (rdr115\<lparr>rows_read := 10, reader := \<lparr>content = file115, pos = 335\<rparr>\<rparr>) =
       Inr ([\<lparr>Name = ''x'', Data = ColInt16 [], Missing = []\<rparr>],
            rdr115\<lparr>rows_read := 10, reader := \<lparr>content = file115, pos = 335\<rparr>\<rparr>)"
  by (simp_all add: Read_defs file115_reads rdr115_def cong: let_weak_cong bindE_weak_cong)

lemma Read_115m:
  "Read (- 1) rdr115m =
     Inr ([\<lparr>Name = ''x'', Data = ColInt16 [32739, 32740, 32741, - 32767, - 32768],
            Missing = [False, False, True, False, True]\<rparr>],
          rdr115m\<lparr>rows_read := 5, reader := \<lparr>content = file115m, pos = 325\<rparr>\<rparr>)"
  by (simp add: Read_defs file115m_reads rdr115m_def cong: let_weak_cong bindE_weak_cong)

section \<open>Reading in chunks\<close>

text \<open>
  Claim C1. \<open>file118\<close> and \<open>file115\<close> hold the same table of ten observations, 0 to 9, in
  the formats 118 and 115. The reader opens both. On the version 118 file, \<open>Read 3\<close> returns
  the observations 0, 1, 2; the following \<open>Read (- 1)\<close> starts again at the first observation
  and returns the seven observations 0 to 6, not 3 to 9, because \<open>Read\<close> seeks to the start of
  the data on every call for the versions from 117 on; a third call returns no rows. On the
  version 115 file, where \<open>Read\<close> does not seek, the same calls return 0, 1, 2, then 3 to 9,
  then no rows.
\<close>

theorem Read_twice_rereads:
  "NewStataReader \<lparr>content = file118, pos = 0\<rparr> = Some (Inr rdr118)
   \<and> Read 3 rdr118 =
       Inr ([\<lparr>Name = ''x'', Data = ColInt16 [0, 1, 2], Missing = [False, False, False]\<rparr>],
            rdr118\<lparr>rows_read := 3, reader := \<lparr>content = file118, pos = 1121\<rparr>\<rparr>)
   \<and> Read (- 1) (rdr118\<lparr>rows_read := 3, reader := \<lparr>content = file118, pos = 1121\<rparr>\<rparr>) =
       Inr ([\<lparr>Name = ''x'', Data = ColInt16 [0, 1, 2, 3, 4, 5, 6],
              Missing = [False, False, False, False, False, False, False]\<rparr>],
            rdr118\<lparr>rows_read := 10, reader := \<lparr>content = file118, pos = 1129\<rparr>\<rparr>)
   \<and> Read (- 1) (rdr118\<lparr>rows_read := 10, reader := \<lparr>content = file118, pos = 1129\<rparr>\<rparr>) =
       Inr ([\<lparr>Name = ''x'', Data = ColInt16 [], Missing = []\<rparr>],
            rdr118\<lparr>rows_read := 10, reader := \<lparr>content = file118, pos = 1115\<rparr>\<rparr>)
   \<and> NewStataReader \<lparr>content = file115, pos = 0\<rparr> = Some (Inr rdr115)
   \<and> Read 3 rdr115 =
       Inr ([\<lparr>Name = ''x'', Data = ColInt16 [0, 1, 2], Missing = [False, False, False]\<rparr>],
            rdr115\<lparr>rows_read := 3, reader := \<lparr>content = file115, pos = 321\<rparr>\<rparr>)
   \<and> Read (- 1) (rdr115\<lparr>rows_read := 3, reader := \<lparr>content = file115, pos = 321\<rparr>\<rparr>) =
       Inr ([\<lparr>Name = ''x'', Data = ColInt16 [3, 4, 5, 6, 7, 8, 9],
              Missing = [False, False, False, False, False, False, False]\<rparr>],
            rdr115\<lparr>rows_read := 10, reader := \<lparr>content = file115, pos = 335\<rparr>\<rparr>)
   \<and> Read (- 1) (rdr115\<lparr>rows_read := 10, reader := \<lparr>content = file115, pos = 335\<rparr>\<rparr>) =
       Inr ([\<lparr>Name = ''x'', Data = ColInt16 [], Missing = []\<rparr>],
            rdr115\<lparr>rows_read := 10, reader := \<lparr>content = file115, pos = 335\<rparr>\<rparr>)"
  apply (intro conjI)
         apply (rule file118_opens)
        apply (simp add: Read_defs file118_reads rdr118_def cong: let_weak_cong bindE_weak_cong)
       apply (simp add: Read_defs file118_reads rdr118_def cong: let_weak_cong bindE_weak_cong)
      apply (simp add: Read_defs file118_reads rdr118_def cong: let_weak_cong bindE_weak_cong)
     apply (rule file115_opens)
    apply (rule Read_115_continues(1))
   apply (rule Read_115_continues(2))
  apply (rule Read_115_continues(3))
  done

section \<open>Opening a version 114 file\<close>

lemma init_114_panics:
  "\<exists>m. NewStataReader \<lparr>content = CHR 0x72 # bs, pos = 0\<rparr> = Some (Inl (Panic m))"
proof -
  define s0 where "s0 = \<lparr>content = CHR 0x72 # bs, pos = 0\<rparr>"
  define rdr0 where "rdr0 = (new_StataReader s0)\<lparr>reader := s0\<rparr>"
  have sniff: "Read_into 1 (replicate 1 (CHR 0x00)) (reader (new_StataReader s0))
                 = ([CHR 0x72], s0\<lparr>pos := 1\<rparr>)"
    by (simp add: Read_into_def avail_def new_StataReader_def s0_def)
  have rewind: "\<And>p. Seek_set 0 (s0\<lparr>pos := p\<rparr>) = s0"
    by (simp add: Seek_set_def s0_def)
  have av: "avail 1 (reader rdr0) = [CHR 0x72]"
    by (simp add: rdr0_def s0_def avail_def)
  have "panics
          (bindE (read_old_header rdr0) (\<lambda>rdr.
           bindE (read_vartypes rdr) (\<lambda>rdr.
           bindE (if FormatVersion rdr < 117 then translate_vartypes rdr else Inr rdr) (\<lambda>rdr.
           bindE (read_varnames rdr) (\<lambda>rdr.
           bindE (read_formats
                    (if FormatVersion rdr < 117
                     then rdr\<lparr>reader := Seek_cur (2 * (Nvar rdr + 1)) (reader rdr)\<rparr>
                     else rdr)) (\<lambda>rdr.
           bindE (read_value_label_names rdr) (\<lambda>rdr.
           read_variable_labels rdr)))))))"
    apply (rule panics_bindE [OF read_old_header_114 [OF av]])
    apply (rule panics_bindE [OF read_vartypes_114], assumption)
    apply (rule panics_bindE [where v = 114])
     apply (simp add: translate_vartypes_114)
    apply (rule panics_bindE [OF read_varnames_114], assumption)
    apply (rule panics_bindE [where v = 114])
     apply (simp add: read_formats_114)
    apply (simp add: read_value_label_names_def panics_def)
    done
  then have "\<exists>m. NewStataReader s0 = Some (Inl (Panic m))"
    unfolding NewStataReader_def init_def sniff
    by (auto simp: rewind rdr0_def panics_def)
  then show ?thesis by (simp add: s0_def)
qed

lemma Sprintf_v_114: "Sprintf_v 114 = ''114''"
  by code_simp

lemma file114_init:
  "NewStataReader \<lparr>content = file114, pos = 0\<rparr> =
     Some (Inl (Panic ''unknown format version 114 in read_value_label_names''))"
  by (simp add: init_defs file114_reads Sprintf_v_114 cong: let_weak_cong bindE_weak_cong)

text \<open>
  Claim C2. \<open>NewStataReader\<close> on a file whose first byte is 114 always ends in a panic,
  whatever follows the first byte: the header, the types, the names and the formats are read
  as for version 115, and \<open>read_value_label_names\<close> has no case for 114. On \<open>file114\<close>, a
  complete version 114 file, the panic is the one of \<open>read_value_label_names\<close>.
\<close>

theorem init_format_114_fatal:
  "(\<exists>m. NewStataReader \<lparr>content = CHR 0x72 # bs, pos = 0\<rparr> = Some (Inl (Panic m)))
   \<and> NewStataReader \<lparr>content = file114, pos = 0\<rparr> =
       Some (Inl (Panic ''unknown format version 114 in read_value_label_names''))"
  using init_114_panics [of bs] file114_init by simp

section \<open>Missing values\<close>

lemma small_reads:
  "ReadFull n \<lparr>content = bs, pos = p\<rparr> =
     (if n \<le> length bs - p then Some (take n (drop p bs)) else None,
      \<lparr>content = bs, pos = p + min (length bs - p) n\<rparr>)"
  "Read_into n buf \<lparr>content = bs, pos = p\<rparr> =
     (take n (drop p bs) @ drop (min (length bs - p) n) buf,
      \<lparr>content = bs, pos = p + min (length bs - p) n\<rparr>)"
  by (simp_all add: ReadFull_alt Read_into_alt)

lemma cell_numeric_ready:
  assumes ready: "cells_ready rdr n rv" and i: "i < n" and j: "j < length (VarTypes rdr)"
  shows "j < length (rv_data rv)" "j < length (rv_missing rv)" "i < length (rv_missing rv ! j)"
    "VarTypes rdr ! j = 65526 \<Longrightarrow> \<exists>xs. rv_data rv ! j = ColFloat64 xs \<and> i < length xs"
    "VarTypes rdr ! j = 65527 \<Longrightarrow> \<exists>xs. rv_data rv ! j = ColFloat32 xs \<and> i < length xs"
    "VarTypes rdr ! j = 65528 \<Longrightarrow> \<exists>xs. rv_data rv ! j = ColInt32 xs \<and> i < length xs"
    "VarTypes rdr ! j = 65529 \<Longrightarrow> \<exists>xs. rv_data rv ! j = ColInt16 xs \<and> i < length xs"
    "VarTypes rdr ! j = 65530 \<Longrightarrow> \<not> InsertCategoryLabels rdr \<Longrightarrow>
       \<exists>xs. rv_data rv ! j = ColInt8 xs \<and> i < length xs"
    "VarTypes rdr ! j = 65530 \<Longrightarrow> InsertCategoryLabels rdr \<Longrightarrow>
       \<exists>xs. rv_data rv ! j = ColString xs \<and> i < length xs"
proof -
  note r = cells_ready_nth [OF ready j]
  show "j < length (rv_data rv)" "j < length (rv_missing rv)" "i < length (rv_missing rv ! j)"
    using r i by simp_all
  show "VarTypes rdr ! j = 65526 \<Longrightarrow> \<exists>xs. rv_data rv ! j = ColFloat64 xs \<and> i < length xs"
    using r(4,5) i by (cases "rv_data rv ! j") (auto simp: alloc_column_def)
  show "VarTypes rdr ! j = 65527 \<Longrightarrow> \<exists>xs. rv_data rv ! j = ColFloat32 xs \<and> i < length xs"
    using r(4,5) i by (cases "rv_data rv ! j") (auto simp: alloc_column_def)
  show "VarTypes rdr ! j = 65528 \<Longrightarrow> \<exists>xs. rv_data rv ! j = ColInt32 xs \<and> i < length xs"
    using r(4,5) i by (cases "rv_data rv ! j") (auto simp: alloc_column_def)
  show "VarTypes rdr ! j = 65529 \<Longrightarrow> \<exists>xs. rv_data rv ! j = ColInt16 xs \<and> i < length xs"
    using r(4,5) i by (cases "rv_data rv ! j") (auto simp: alloc_column_def)
  show "VarTypes rdr ! j = 65530 \<Longrightarrow> \<not> InsertCategoryLabels rdr \<Longrightarrow>
       \<exists>xs. rv_data rv ! j = ColInt8 xs \<and> i < length xs"
    using r(4,5) i by (cases "rv_data rv ! j") (auto simp: alloc_column_def)
  show "VarTypes rdr ! j = 65530 \<Longrightarrow> InsertCategoryLabels rdr \<Longrightarrow>
       \<exists>xs. rv_data rv ! j = ColString xs \<and> i < length xs"
    using r(4,5) i by (cases "rv_data rv ! j") (auto simp: alloc_column_def)
qed

lemma read_cell_flag:
  assumes c: "read_cell i j rdr rv = Inr (rdr', rv')"
    and j: "j < length (VarTypes rdr)" "j < length (rv_missing rv)" "i < length (rv_missing rv ! j)"
  shows
    "VarTypes rdr ! j = 65526 \<Longrightarrow> rv_missing rv' ! j ! i =
       (rv_missing rv ! j ! i
        \<or> float64_missing (fst (binary_Read (ByteOrder rdr) (0 :: 64 word) (reader rdr))))"
    "VarTypes rdr ! j = 65527 \<Longrightarrow> rv_missing rv' ! j ! i =
       (rv_missing rv ! j ! i
        \<or> float32_missing (fst (binary_Read (ByteOrder rdr) (0 :: 32 word) (reader rdr))))"
    "VarTypes rdr ! j = 65528 \<Longrightarrow> rv_missing rv' ! j ! i =
       (rv_missing rv ! j ! i
        \<or> int32_missing (fst (binary_Read (ByteOrder rdr) (0 :: 32 word) (reader rdr))))"
    "VarTypes rdr ! j = 65529 \<Longrightarrow> rv_missing rv' ! j ! i =
       (rv_missing rv ! j ! i
        \<or> int16_missing (fst (binary_Read (ByteOrder rdr) (0 :: 16 word) (reader rdr))))"
    "VarTypes rdr ! j = 65530 \<Longrightarrow> rv_missing rv' ! j ! i =
       (rv_missing rv ! j ! i
        \<or> int8_missing (fst (binary_Read (ByteOrder rdr) (0 :: 8 word) (reader rdr))))"
  using c j
  by (auto simp: read_cell_def bindE_eq_Inr flag_missing_def case_prod_beta
      split: if_splits)

lemma missing_bounds:
  "\<not> int16_missing 32739" "\<not> int16_missing 32740" "int16_missing 32741"
  "\<not> int16_missing (- 32767)" "int16_missing (- 32768)"
  "\<not> int32_missing 2147483620" "int32_missing 2147483621"
  "\<not> int32_missing (- 2147483647)" "int32_missing (- 2147483648)"
  "\<not> int8_missing 100" "int8_missing 101"
  "\<not> int8_missing (- 127)" "int8_missing (- 128)"
  "\<not> float64_missing 0x7FDFFF9359CC8104" "float64_missing 0x7FDFFF9359CC8105"
  "\<not> float32_missing 0x7EFFF023" "float32_missing 0x7EFFF024"
  by (simp_all add: int16_missing_def int32_missing_def int8_missing_def
      float64_missing_def float32_missing_def float64_gt_def float64_lt_neg_def
      float32_gt_def float32_lt_neg_def)

text \<open>
  Claim C3, as stated, on \<open>file115m\<close>: the reader opens the file, and \<open>Read (- 1)\<close> returns
  its five 16-bit observations 32739, 32740, 32741, -32767 and -32768 with the flags of
  32741 and -32768 set and the flag of 32740 clear.
\<close>

theorem int16_boundary_not_flagged:
  "NewStataReader \<lparr>content = file115m, pos = 0\<rparr> = Some (Inr rdr115m)
   \<and> Read (- 1) rdr115m =
       Inr ([\<lparr>Name = ''x'', Data = ColInt16 [32739, 32740, 32741, - 32767, - 32768],
              Missing = [False, False, True, False, True]\<rparr>],
            rdr115m\<lparr>rows_read := 5, reader := \<lparr>content = file115m, pos = 325\<rparr>\<rparr>)"
  using file115m_opens Read_115m by simp

text \<open>
  Claim C3, amended. In a row of a table allocated by \<open>Read\<close>, decoding the cell of a numeric
  column stores the value \<open>x\<close> read from the file and sets the flag of the cell exactly when
  \<open>x\<close> lies strictly beyond the bound of its type: \<open>x > 32740\<close> or \<open>x < -32767\<close> for 16-bit
  integers, \<open>x > 2147483620\<close> or \<open>x < -2147483647\<close> for 32-bit integers, \<open>x < -127\<close> or
  \<open>x > 100\<close> for bytes, and a magnitude above \<open>8.988e307\<close> or \<open>1.701e38\<close> for the floats.
  So the bounds themselves (32740, 2147483620, 100, and the floats equal to the constants)
  are not flagged, and the next values (32741, 2147483621, 101, the next floats) are.
\<close>

theorem missing_flag_rule:
  assumes ready: "cells_ready rdr n rv" and i: "i < n" and j: "j < length (VarTypes rdr)"
  shows "\<exists>rdr' rv'. read_cell i j rdr rv = Inr (rdr', rv')
     \<and> (VarTypes rdr ! j = 65529 \<longrightarrow>
          (let x = fst (binary_Read (ByteOrder rdr) (0 :: 16 word) (reader rdr))
           in (\<exists>xs. rv_data rv' ! j = ColInt16 xs \<and> i < length xs \<and> xs ! i = x)
              \<and> rv_missing rv' ! j ! i =
                  (rv_missing rv ! j ! i \<or> 32740 < sint x \<or> sint x < - 32767)))
     \<and> (VarTypes rdr ! j = 65528 \<longrightarrow>
          (let x = fst (binary_Read (ByteOrder rdr) (0 :: 32 word) (reader rdr))
           in (\<exists>xs. rv_data rv' ! j = ColInt32 xs \<and> i < length xs \<and> xs ! i = x)
              \<and> rv_missing rv' ! j ! i =
                  (rv_missing rv ! j ! i \<or> 2147483620 < sint x \<or> sint x < - 2147483647)))
     \<and> (VarTypes rdr ! j = 65530 \<longrightarrow>
          (let x = fst (binary_Read (ByteOrder rdr) (0 :: 8 word) (reader rdr))
           in (\<not> InsertCategoryLabels rdr \<longrightarrow>
                 (\<exists>xs. rv_data rv' ! j = ColInt8 xs \<and> i < length xs \<and> xs ! i = x))
              \<and> rv_missing rv' ! j ! i =
                  (rv_missing rv ! j ! i \<or> sint x < - 127 \<or> 100 < sint x)))
     \<and> (VarTypes rdr ! j = 65526 \<longrightarrow>
          (let x = fst (binary_Read (ByteOrder rdr) (0 :: 64 word) (reader rdr))
           in (\<exists>xs. rv_data rv' ! j = ColFloat64 xs \<and> i < length xs \<and> xs ! i = x)
              \<and> rv_missing rv' ! j ! i = (rv_missing rv ! j ! i \<or> float64_missing x)))
     \<and> (VarTypes rdr ! j = 65527 \<longrightarrow>
          (let x = fst (binary_Read (ByteOrder rdr) (0 :: 32 word) (reader rdr))
           in (\<exists>xs. rv_data rv' ! j = ColFloat32 xs \<and> i < length xs \<and> xs ! i = x)
              \<and> rv_missing rv' ! j ! i = (rv_missing rv ! j ! i \<or> float32_missing x)))
     \<and> \<not> int16_missing 32740 \<and> int16_missing 32741
     \<and> \<not> int16_missing (- 32767) \<and> int16_missing (- 32768)
     \<and> \<not> int32_missing 2147483620 \<and> int32_missing 2147483621
     \<and> \<not> int32_missing (- 2147483647) \<and> int32_missing (- 2147483648)
     \<and> \<not> int8_missing 100 \<and> int8_missing 101
     \<and> \<not> int8_missing (- 127) \<and> int8_missing (- 128)
     \<and> \<not> float64_missing 0x7FDFFF9359CC8104 \<and> float64_missing 0x7FDFFF9359CC8105
     \<and> \<not> float32_missing 0x7EFFF023 \<and> float32_missing 0x7EFFF024"
proof -
  from read_cell_succeeds [OF ready i j]
  obtain rdr' rv' where c: "read_cell i j rdr rv = Inr (rdr', rv')" by blast
  note r = cell_numeric_ready [OF ready i j]
  note fl = read_cell_flag [OF c j r(2,3)]
  have d16: "VarTypes rdr ! j = 65529 \<Longrightarrow>
      \<exists>xs. rv_data rv' ! j = ColInt16 xs \<and> i < length xs
          \<and> xs ! i = fst (binary_Read (ByteOrder rdr) (0 :: 16 word) (reader rdr))"
  proof -
    assume t: "VarTypes rdr ! j = 65529"
    from r(7) [OF t] obtain ys where ys: "rv_data rv ! j = ColInt16 ys" "i < length ys" by blast
    from read_cell_int16 [OF j t r(1) ys r(2,3) surjective_pairing] c r(1) ys(2)
    show ?thesis by auto
  qed
  have d32: "VarTypes rdr ! j = 65528 \<Longrightarrow>
      \<exists>xs. rv_data rv' ! j = ColInt32 xs \<and> i < length xs
          \<and> xs ! i = fst (binary_Read (ByteOrder rdr) (0 :: 32 word) (reader rdr))"
  proof -
    assume t: "VarTypes rdr ! j = 65528"
    from r(6) [OF t] obtain ys where ys: "rv_data rv ! j = ColInt32 ys" "i < length ys" by blast
    from read_cell_int32 [OF j t r(1) ys r(2,3) surjective_pairing] c r(1) ys(2)
    show ?thesis by auto
  qed
  have d8: "VarTypes rdr ! j = 65530 \<Longrightarrow> \<not> InsertCategoryLabels rdr \<Longrightarrow>
      \<exists>xs. rv_data rv' ! j = ColInt8 xs \<and> i < length xs
          \<and> xs ! i = fst (binary_Read (ByteOrder rdr) (0 :: 8 word) (reader rdr))"
  proof -
    assume t: "VarTypes rdr ! j = 65530" and l: "\<not> InsertCategoryLabels rdr"
    from r(8) [OF t l] obtain ys where ys: "rv_data rv ! j = ColInt8 ys" "i < length ys" by blast
    from read_cell_int8_raw [OF j t l r(1) ys r(2,3) surjective_pairing] c r(1) ys(2)
    show ?thesis by auto
  qed
  have d64: "VarTypes rdr ! j = 65526 \<Longrightarrow>
      \<exists>xs. rv_data rv' ! j = ColFloat64 xs \<and> i < length xs
          \<and> xs ! i = fst (binary_Read (ByteOrder rdr) (0 :: 64 word) (reader rdr))"
  proof -
    assume t: "VarTypes rdr ! j = 65526"
    from r(4) [OF t] obtain ys where ys: "rv_data rv ! j = ColFloat64 ys" "i < length ys" by blast
    from read_cell_float64 [OF j t r(1) ys r(2,3) surjective_pairing] c r(1) ys(2)
    show ?thesis by auto
  qed
  have df32: "VarTypes rdr ! j = 65527 \<Longrightarrow>
      \<exists>xs. rv_data rv' ! j = ColFloat32 xs \<and> i < length xs
          \<and> xs ! i = fst (binary_Read (ByteOrder rdr) (0 :: 32 word) (reader rdr))"
  proof -
    assume t: "VarTypes rdr ! j = 65527"
    from r(5) [OF t] obtain ys where ys: "rv_data rv ! j = ColFloat32 ys" "i < length ys" by blast
    from read_cell_float32 [OF j t r(1) ys r(2,3) surjective_pairing] c r(1) ys(2)
    show ?thesis by auto
  qed
  show ?thesis
    apply (rule exI [of _ rdr'], rule exI [of _ rv'])
    apply (intro conjI impI)
    using c d16 d32 d8 d64 df32 fl missing_bounds
    apply (simp_all add: Let_def)
    apply (simp_all add: int16_missing_def int32_missing_def int8_missing_def)
    done
qed

theorem missing_flag_rule_witness:
  "cells_ready (rdr_one 65529 [CHR 0xE4, CHR 0x7F]) 1 (rv_one (ColInt16 [0]))
   \<and> (0 :: nat) < 1 \<and> 0 < length (VarTypes (rdr_one 65529 [CHR 0xE4, CHR 0x7F]))
   \<and> (\<exists>rdr' rv'.
         read_cell 0 0 (rdr_one 65529 [CHR 0xE4, CHR 0x7F]) (rv_one (ColInt16 [0])) = Inr (rdr', rv')
         \<and> (\<exists>xs. rv_data rv' ! 0 = ColInt16 xs \<and> xs ! 0 = 32740)
         \<and> \<not> rv_missing rv' ! 0 ! 0)"
proof -
  let ?R = "rdr_one 65529 [CHR 0xE4, CHR 0x7F]"
  let ?V = "rv_one (ColInt16 [0])"
  have pre: "cells_ready ?R 1 ?V"
    by (simp add: cells_ready_def same_shape_def alloc_column_def rdr_one_def rv_one_def
        new_StataReader_def)
  have t: "VarTypes ?R ! 0 = 65529" "length (VarTypes ?R) = 1"
    by (simp_all add: rdr_one_def)
  have x: "fst (binary_Read (ByteOrder ?R) (0 :: 16 word) (reader ?R)) = 32740"
    by (simp add: rdr_one_def new_StataReader_def binary_Read_def small_reads uint_of_def
        be_nat_def)
  have m: "\<not> rv_missing ?V ! 0 ! 0"
    by (simp add: rv_one_def)
  from missing_flag_rule [OF pre, of 0 0] t x m pre show ?thesis
    by (auto simp: Let_def)
qed

section \<open>The number of rows of a call\<close>

text \<open>
  Claim C4. On a reader as the initialisation leaves it, with a table it can decode, \<open>Read r\<close>
  succeeds and returns one series per variable; every column and every mask has
  \<open>spec_row_count r rdr\<close> entries, that is \<open>min r (RowCount - rows_read)\<close> for \<open>r \<ge> 0\<close> and
  \<open>RowCount - rows_read\<close> for a negative \<open>r\<close>; \<open>rows_read\<close> grows by that number and stays at
  most \<open>RowCount\<close>; and the reader is again one that \<open>Read\<close> can be called on.
\<close>

theorem Read_row_count:
  assumes wf: "wf_reader rdr" and dec: "decodable rdr"
  shows "\<exists>ss rdr'. Read r rdr = Inr (ss, rdr')
           \<and> length ss = nat (Nvar rdr)
           \<and> (\<forall>sr \<in> set ss. col_len (Data sr) = nat (spec_row_count r rdr)
                              \<and> length (Missing sr) = nat (spec_row_count r rdr))
           \<and> 0 \<le> spec_row_count r rdr
           \<and> rows_read rdr' = rows_read rdr + spec_row_count r rdr
           \<and> rows_read rdr' \<le> RowCount rdr
           \<and> wf_reader rdr' \<and> decodable rdr'"
proof -
  define nval0 where "nval0 = RowCount rdr - rows_read rdr"
  define nval where "nval = (if r \<ge> 0 \<and> nval0 > r then r else nval0)"
  define d0 where "d0 = map (\<lambda>j. if j < length (VarTypes rdr)
                                then alloc_column rdr (nat nval) (VarTypes rdr ! j)
                                else ColNil) [0..<nat (Nvar rdr)]"
  define m0 where "m0 = replicate (nat (Nvar rdr)) (replicate (nat nval) False)"
  define rdr1 where "rdr1 = (if FormatVersion rdr \<ge> 117
                        then rdr\<lparr>reader := Seek_set (sint (seek_data rdr + 6)) (reader rdr)\<rparr>
                        else rdr)"
  define rv0 where "rv0 = \<lparr>rv_data = d0, rv_missing = m0, rv_buf = replicate 2045 (CHR 0x00)\<rparr>"
  define K where "K = nat (Nvar rdr)"
  from wf have nv: "0 \<le> Nvar rdr" and lv: "length (VarTypes rdr) = K"
    and lc: "length (column_names rdr) = K" and lf: "length (Formats rdr) = K"
    and isd: "is_date rdr = map is_date_format (Formats rdr)"
    and ll: "length (ValueLabelNames rdr) = K"
    and rr: "0 \<le> rows_read rdr" "rows_read rdr \<le> RowCount rdr"
    by (simp_all add: wf_reader_def K_def)
  from dec have known: "\<forall>t \<in> set (VarTypes rdr). known_tag t"
    and dates: "ConvertDates rdr \<Longrightarrow> \<forall>j < K. is_date rdr ! j \<longrightarrow> VarTypes rdr ! j = 65528"
    by (simp_all add: decodable_def lv)
  have nval: "nval = spec_row_count r rdr"
    by (auto simp: nval_def nval0_def spec_row_count_def)
  have nn: "0 \<le> nval" using rr by (auto simp: nval_def nval0_def)
  have le: "rows_read rdr + nval \<le> RowCount rdr" by (auto simp: nval_def nval0_def)
  have d0: "d0 = map (alloc_column rdr (nat nval)) (VarTypes rdr)"
    unfolding d0_def K_def [symmetric] lv [symmetric] by (rule map_nth_upt)
  obtain s1 where r1: "rdr1 = rdr\<lparr>reader := s1\<rparr>"
    unfolding rdr1_def by (cases "FormatVersion rdr \<ge> 117") (simp_all, metis reader_update_self)
  have ready: "cells_ready rdr1 (nat nval) rv0"
    by (simp add: cells_ready_def rv0_def d0 m0_def r1 lv K_def ll)
  have "\<exists>rdr' rv'. read_rows (nat nval) 0 rdr1 rv0 = Inr (rdr', rv')
          \<and> rows_read rdr' = rows_read rdr1 + int (nat nval)"
    using read_rows_succeeds [OF ready, of 0 "nat nval"] lv le nn by (simp add: r1 K_def)
  then obtain rdr2 rv2 where rows: "read_rows (nat nval) 0 rdr1 rv0 = Inr (rdr2, rv2)"
    and rr2: "rows_read rdr2 = rows_read rdr + nval"
    using nn by (auto simp: r1)
  from read_rows_step [OF rows] obtain s2 where
    r2: "rdr2 = rdr\<lparr>reader := s2, rows_read := rows_read rdr + nval\<rparr>"
    and sh: "same_shape (rv_data rv2) d0"
    and ml: "map length (rv_missing rv2) = map length m0"
    using rr2 unfolding rows_step_def rv0_def r1 by auto
  have l2: "length (rv_data rv2) = K" using same_shape_nth(1) [OF sh] by (simp add: d0 lv)
  have lm2: "length (rv_missing rv2) = K" using ml by (metis K_def length_map length_replicate m0_def)
  have col2: "typed (rv_data rv2 ! j) \<and> col_len (rv_data rv2 ! j) = nat nval
              \<and> length (rv_missing rv2 ! j) = nat nval
              \<and> col_kind (rv_data rv2 ! j) = col_kind (alloc_column rdr (nat nval) (VarTypes rdr ! j))"
    if "j < K" for j
  proof -
    have kt: "known_tag (VarTypes rdr ! j)" using known that lv by simp
    have "length (rv_missing rv2 ! j) = length (m0 ! j)"
      using ml that lm2 by (metis length_map nth_map)
    then show ?thesis
      using same_shape_nth(2,3) [OF sh, of j] alloc_known [OF kt, of rdr "nat nval"] that lv
      by (simp add: d0 typed_kind m0_def K_def)
  qed
  have "\<exists>d'. (if ConvertDates rdr2
               then convert_dates (length (rv_data rv2)) 0 rdr2 (rv_data rv2)
               else Inr (rv_data rv2)) = Inr d'
            \<and> map col_len d' = map col_len (rv_data rv2)
            \<and> (\<forall>j < length (rv_data rv2). typed (rv_data rv2 ! j) \<longrightarrow> typed (d' ! j))"
  proof (cases "ConvertDates rdr2")
    case False
    then show ?thesis by simp
  next
    case True
    then have c: "ConvertDates rdr" by (simp add: r2)
    have "\<exists>d'. convert_dates (length (rv_data rv2)) 0 rdr2 (rv_data rv2) = Inr d'
            \<and> map col_len d' = map col_len (rv_data rv2)
            \<and> (\<forall>j < length (rv_data rv2). typed (rv_data rv2 ! j) \<longrightarrow> typed (d' ! j))"
    proof (intro convert_dates_ok)
      show "\<forall>j. 0 \<le> j \<and> j < 0 + length (rv_data rv2) \<and> is_date rdr2 ! j \<longrightarrow>
             col_kind (rv_data rv2 ! j) = 5 \<and> is_date_format (Formats rdr2 ! j)"
      proof (intro allI impI)
        fix j assume a: "0 \<le> j \<and> j < 0 + length (rv_data rv2) \<and> is_date rdr2 ! j"
        then have j: "j < K" and dj: "is_date rdr ! j" by (simp_all add: l2 r2)
        from dates [OF c] j dj have "VarTypes rdr ! j = 65528" by simp
        with col2 [OF j] have "col_kind (rv_data rv2 ! j) = 5" by (simp add: alloc_kind_int32)
        moreover have "is_date_format (Formats rdr2 ! j)" using dj isd j lf by (simp add: r2)
        ultimately show "col_kind (rv_data rv2 ! j) = 5 \<and> is_date_format (Formats rdr2 ! j)"
          by simp
      qed
    qed (simp_all add: l2 r2 isd lf)
    with True show ?thesis by simp
  qed
  then obtain d' where conv: "(if ConvertDates rdr2
               then convert_dates (length (rv_data rv2)) 0 rdr2 (rv_data rv2)
               else Inr (rv_data rv2)) = Inr d'"
    and cl: "map col_len d' = map col_len (rv_data rv2)"
    and ct: "\<forall>j < length (rv_data rv2). typed (rv_data rv2 ! j) \<longrightarrow> typed (d' ! j)"
    by blast
  have ld': "length d' = K" using cl l2 by (metis length_map)
  have cold: "typed (d' ! j) \<and> col_len (d' ! j) = nat nval" if "j < K" for j
    using col2 [OF that] ct cl that l2 ld' by (metis nth_map)
  define ss where "ss = map (\<lambda>j. \<lparr>Name = column_names rdr2 ! j, Data = d' ! j,
                                    Missing = rv_missing rv2 ! j\<rparr>) [0..<0 + length d']"
  have ser: "make_series (length d') 0 rdr2 d' (rv_missing rv2) = Inr ss"
    unfolding ss_def
    using cold col2 by (intro make_series_ok) (simp_all add: ld' lm2 r2 lc)
  have res: "Read r rdr = Inr (ss, rdr2)"
    unfolding Read_def Let_def
    unfolding nval0_def [symmetric]
    unfolding nval_def [symmetric]
    unfolding d0_def [symmetric] m0_def [symmetric] rdr1_def [symmetric]
    unfolding rv0_def [symmetric]
    using nv nn known lv rows conv ser
    by (simp add: list_ex_iff K_def)
  have "length ss = K" by (simp add: ss_def ld')
  moreover have "\<forall>sr \<in> set ss. col_len (Data sr) = nat nval \<and> length (Missing sr) = nat nval"
    using cold col2 by (auto simp: ss_def ld')
  moreover have "wf_reader rdr2"
    using wf nn le rr by (simp add: wf_reader_def r2)
  moreover have "decodable rdr2"
    using dec by (simp add: decodable_def r2)
  ultimately show ?thesis
    using res nn le rr2 by (auto simp: nval [symmetric] K_def r2)
qed

theorem Read_row_count_witness:
  "wf_reader rdr118 \<and> decodable rdr118 \<and> spec_row_count 3 rdr118 = 3
   \<and> (\<exists>ss rdr'. Read 3 rdr118 = Inr (ss, rdr') \<and> length ss = 1
         \<and> (\<forall>sr \<in> set ss. col_len (Data sr) = 3 \<and> length (Missing sr) = 3)
         \<and> rows_read rdr' = 3)"
proof -
  have wf: "wf_reader rdr118"
    by (simp add: wf_reader_def rdr118_def new_StataReader_def is_date_format_def has_prefix_def)
  have dec: "decodable rdr118"
    by (simp add: decodable_def rdr118_def new_StataReader_def known_tag_def)
  have n: "spec_row_count 3 rdr118 = 3" "Nvar rdr118 = 1" "rows_read rdr118 = 0"
    by (simp_all add: spec_row_count_def rdr118_def new_StataReader_def)
  from Read_row_count [OF wf dec, of 3] wf dec n show ?thesis
    by auto
qed

section \<open>The type translator\<close>

text \<open>
  Claim C5. For an old-format reader with one type code per variable, \<open>translate_vartypes\<close>
  agrees with the table of the specification: when every code has a translation (251 to 255
  go to 65530 down to 65526, a code up to 244 stays), the codes are replaced one by one and
  nothing else of the reader changes; when some code has none (245 to 250, or anything above
  255), the call ends in a panic.
\<close>

theorem translate_vartypes_table:
  assumes "length (VarTypes rdr) = nat (Nvar rdr)"
  shows "translate_vartypes rdr =
     (if \<forall>c \<in> set (VarTypes rdr). spec_type_translation c \<noteq> None
      then Inr (rdr\<lparr>VarTypes := map (the \<circ> spec_type_translation) (VarTypes rdr)\<rparr>)
      else Inl (Panic ''unknown variable type %v in translate_vartypes''))"
  using translate_loop_spec [of 0 "nat (Nvar rdr)" "VarTypes rdr"] assms
  by (simp add: translate_vartypes_def)

theorem translate_vartypes_table_witness:
  "length (VarTypes rdr_types) = nat (Nvar rdr_types)
   \<and> translate_vartypes rdr_types =
       Inr (rdr_types\<lparr>VarTypes := [65530, 65529, 65528, 65527, 65526, 244, 7]\<rparr>)
   \<and> length (VarTypes (rdr_types\<lparr>VarTypes := [251, 245, 7], Nvar := 3\<rparr>)) = nat 3
   \<and> translate_vartypes (rdr_types\<lparr>VarTypes := [251, 245, 7], Nvar := 3\<rparr>) =
       Inl (Panic ''unknown variable type %v in translate_vartypes'')"
  using translate_vartypes_table [of rdr_types]
    translate_vartypes_table [of "rdr_types\<lparr>VarTypes := [251, 245, 7], Nvar := 3\<rparr>"]
  by (simp add: rdr_types_def rdr_one_def new_StataReader_def spec_type_translation_def)

section \<open>Long strings\<close>

text \<open>
  Claim C6. A GSO record with the fields \<open>v\<close> (32 bits), \<open>o\<close> (64 bits), a type, a length and
  a payload is stored by \<open>read_gso\<close> under the key \<open>v | (o << 16)\<close>: for type 130 in the
  dictionary of strings, with the payload cut at its first null byte, for type 129 in the
  dictionary of byte sequences, and not at all for another type. A long-string cell whose
  eight bytes are that key is decoded, with substitution on, to the string the dictionary
  holds under the key. For \<open>v = 7\<close> and \<open>o = 3\<close> the key is 196615.
\<close>

theorem strl_key_packing:
  assumes v: "binary_Read (ByteOrder rdr) (gso_v g) (reader rdr) = (v, s1)"
    and off: "binary_Read (ByteOrder rdr) (gso_o g) s1 = (off, s2)"
    and ty: "binary_Read (ByteOrder rdr) (gso_t g) s2 = (ty, s3)"
    and len: "binary_Read (ByteOrder rdr) (gso_length g) s3 = (len, s4)"
    and payload: "Read_into (unat len) (replicate (unat len) (CHR 0x00)) s4 = (buf, s5)"
    and cell: "j < length (VarTypes rdr2)" "VarTypes rdr2 ! j = 32768" "InsertStrls rdr2"
      "j < length (rv_data rv)" "rv_data rv ! j = ColString xs" "i < length xs"
      "binary_Read (ByteOrder rdr2) (0 :: 64 word) (reader rdr2) = (ucast v OR push_bit 16 off, s)"
    and stored: "Strls rdr2 (ucast v OR push_bit 16 off) = Some str"
  shows "snd (read_gso g rdr) =
           (if ty = 130 then
              rdr\<lparr>Strls := (Strls rdr)(ucast v OR push_bit 16 off \<mapsto> partition_bytes buf),
                  reader := s5\<rparr>
            else if ty = 129 then
              rdr\<lparr>StrlsBytes := (StrlsBytes rdr)(ucast v OR push_bit 16 off \<mapsto> buf),
                  reader := s5\<rparr>
            else rdr\<lparr>reader := s5\<rparr>)
       \<and> read_cell i j rdr2 rv =
           Inr (rdr2\<lparr>reader := s\<rparr>,
                rv\<lparr>rv_data := (rv_data rv)[j := ColString (xs[i := str])]\<rparr>)
       \<and> strl_key 7 3 = 196615"
proof -
  have a: "snd (read_gso g rdr) =
           (if ty = 130 then
              rdr\<lparr>Strls := (Strls rdr)(ucast v OR push_bit 16 off \<mapsto> partition_bytes buf),
                  reader := s5\<rparr>
            else if ty = 129 then
              rdr\<lparr>StrlsBytes := (StrlsBytes rdr)(ucast v OR push_bit 16 off \<mapsto> buf),
                  reader := s5\<rparr>
            else rdr\<lparr>reader := s5\<rparr>)"
    by (simp add: read_gso_def v off ty len payload strl_key_def)
  have b: "read_cell i j rdr2 rv =
           Inr (rdr2\<lparr>reader := s\<rparr>,
                rv\<lparr>rv_data := (rv_data rv)[j := ColString (xs[i := str])]\<rparr>)"
    using read_cell_strl [OF cell] stored by (simp add: Strls_at_def)
  have c: "strl_key 7 3 = 196615"
    by (simp add: strl_key_def)
  from a b c show ?thesis by simp
qed

lemma gso_reads:
  "binary_Read LittleEndian (0 :: 32 word) \<lparr>content = gso_bytes, pos = 0\<rparr> =
     (7, \<lparr>content = gso_bytes, pos = 4\<rparr>)"
  "binary_Read LittleEndian (0 :: 64 word) \<lparr>content = gso_bytes, pos = 4\<rparr> =
     (3, \<lparr>content = gso_bytes, pos = 12\<rparr>)"
  "binary_Read LittleEndian (0 :: 8 word) \<lparr>content = gso_bytes, pos = 12\<rparr> =
     (130, \<lparr>content = gso_bytes, pos = 13\<rparr>)"
  "binary_Read LittleEndian (0 :: 32 word) \<lparr>content = gso_bytes, pos = 13\<rparr> =
     (6, \<lparr>content = gso_bytes, pos = 17\<rparr>)"
  "Read_into 6 (replicate 6 (CHR 0x00)) \<lparr>content = gso_bytes, pos = 17\<rparr> =
     (''hello'' @ [CHR 0x00], \<lparr>content = gso_bytes, pos = 23\<rparr>)"
  "binary_Read LittleEndian (0 :: 64 word) \<lparr>content = gso_bytes, pos = 23\<rparr> =
     (196615, \<lparr>content = gso_bytes, pos = 31\<rparr>)"
  by (simp_all add: binary_Read_def small_reads uint_of_def be_nat_def gso_bytes_def)

theorem strl_key_packing_witness:
  "snd (read_gso gso0 rdr_gso) =
     rdr_gso\<lparr>Strls := [0 \<mapsto> [], 196615 \<mapsto> ''hello''],
             reader := \<lparr>content = gso_bytes, pos = 23\<rparr>\<rparr>
   \<and> read_cell 0 0 (snd (read_gso gso0 rdr_gso)) (rv_one (ColString [[]])) =
       Inr (rdr_gso\<lparr>Strls := [0 \<mapsto> [], 196615 \<mapsto> ''hello''],
                   reader := \<lparr>content = gso_bytes, pos = 31\<rparr>\<rparr>,
            rv_one (ColString [''hello'']))"
proof -
  let ?R2 = "rdr_gso\<lparr>Strls := [0 \<mapsto> [], 196615 \<mapsto> ''hello''],
                     reader := \<lparr>content = gso_bytes, pos = 23\<rparr>\<rparr>"
  have k: "(ucast (7 :: 32 word) OR push_bit 16 (3 :: 64 word)) = (196615 :: 64 word)"
    by simp
  have f: "ByteOrder rdr_gso = LittleEndian" "reader rdr_gso = \<lparr>content = gso_bytes, pos = 0\<rparr>"
    "Strls rdr_gso = [0 \<mapsto> []]" "InsertStrls rdr_gso" "VarTypes rdr_gso = [32768]"
    by (simp_all add: rdr_gso_def rdr_one_def new_StataReader_def)
  have g: "gso_v gso0 = 0" "gso_o gso0 = 0" "gso_t gso0 = 0" "gso_length gso0 = 0"
    by (simp_all add: gso0_def)
  from strl_key_packing [of rdr_gso gso0 7 "\<lparr>content = gso_bytes, pos = 4\<rparr>"
      3 "\<lparr>content = gso_bytes, pos = 12\<rparr>" 130 "\<lparr>content = gso_bytes, pos = 13\<rparr>"
      6 "\<lparr>content = gso_bytes, pos = 17\<rparr>" "''hello'' @ [CHR 0x00]"
      "\<lparr>content = gso_bytes, pos = 23\<rparr>" 0 ?R2 "rv_one (ColString [[]])" "[[]]" 0
      "\<lparr>content = gso_bytes, pos = 31\<rparr>" "''hello''"]
  show ?thesis
    by (simp add: f g k gso_reads rv_one_def)
qed

lemma cell_strl_ready:
  assumes ready: "cells_ready rdr n rv" and i: "i < n" and j: "j < length (VarTypes rdr)"
    and t: "VarTypes rdr ! j = 32768" and ins: "InsertStrls rdr"
  shows "\<exists>xs. rv_data rv ! j = ColString xs \<and> i < length xs"
  using cells_ready_nth(4,5) [OF ready j] i t ins
  by (cases "rv_data rv ! j") (auto simp: alloc_column_def)

text \<open>
  Claim C7. In a row of a table allocated by \<open>Read\<close>, with substitution on, a long-string
  cell whose key has no entry in the dictionary is decoded to the empty string, and \<open>Read\<close>
  goes on behind the eight bytes of the key. \<open>read_strls\<close> puts the empty string under the
  key 0 before its loop reads the first marker, and the key 0 has an entry in every
  dictionary it returns.
\<close>

theorem strl_unresolved_key_empty:
  assumes ready: "cells_ready rdr n rv" and i: "i < n" and j: "j < length (VarTypes rdr)"
    and t: "VarTypes rdr ! j = 32768" and ins: "InsertStrls rdr"
    and key: "binary_Read (ByteOrder rdr) (0 :: 64 word) (reader rdr) = (ptr, s)"
    and absent: "Strls rdr ptr = None"
  shows "(\<exists>xs. rv_data rv ! j = ColString xs
            \<and> read_cell i j rdr rv =
                Inr (rdr\<lparr>reader := s\<rparr>,
                     rv\<lparr>rv_data := (rv_data rv)[j := ColString (xs[i := []])]\<rparr>))
       \<and> read_strls rdr0 =
           read_strls_loop
             \<lparr>gso_buf3 = replicate 3 (CHR 0x00), gso_v = 0, gso_o = 0, gso_t = 0,
              gso_length = 0\<rparr>
             (rdr0\<lparr>StrlsBytes := Map.empty,
                   reader := Seek_set (sint (seek_strls rdr0 + 7)) (reader rdr0),
                   Strls := [0 \<mapsto> []]\<rparr>)
       \<and> (read_strls rdr0 = Some rdr1 \<longrightarrow> Strls rdr1 0 \<noteq> None)"
proof -
  from cell_strl_ready [OF ready i j t ins]
  obtain xs where xs: "rv_data rv ! j = ColString xs" "i < length xs" by blast
  have jd: "j < length (rv_data rv)"
    using cells_ready_nth(1) [OF ready j] .
  have a: "read_cell i j rdr rv =
             Inr (rdr\<lparr>reader := s\<rparr>,
                  rv\<lparr>rv_data := (rv_data rv)[j := ColString (xs[i := []])]\<rparr>)"
    using read_cell_strl [OF j t ins jd xs key] absent by (simp add: Strls_at_def)
  have b: "read_strls rdr0 =
           read_strls_loop
             \<lparr>gso_buf3 = replicate 3 (CHR 0x00), gso_v = 0, gso_o = 0, gso_t = 0,
              gso_length = 0\<rparr>
             (rdr0\<lparr>StrlsBytes := Map.empty,
                   reader := Seek_set (sint (seek_strls rdr0 + 7)) (reader rdr0),
                   Strls := [0 \<mapsto> []]\<rparr>)"
    by (simp add: read_strls_def Let_def)
  have c: "read_strls rdr0 = Some rdr1 \<longrightarrow> Strls rdr1 0 \<noteq> None"
    using read_strls_keeps_zero [of rdr0 rdr1] by blast
  from xs(1) a b c show ?thesis by blast
qed

lemma nostrl_reads:
  "read_strls rdr_nostrl =
     Some (rdr_nostrl\<lparr>Strls := [0 \<mapsto> []],
             reader := \<lparr>content = content (reader rdr_nostrl), pos = 10\<rparr>\<rparr>)"
  "binary_Read LittleEndian (0 :: 64 word)
     \<lparr>content = content (reader rdr_nostrl), pos = 15\<rparr> =
     (65537, \<lparr>content = content (reader rdr_nostrl), pos = 23\<rparr>)"
  by (simp_all add: read_strls_def read_strls_loop.simps Seek_set_def binary_Read_def
      small_reads uint_of_def be_nat_def rdr_nostrl_def rdr_one_def new_StataReader_def)

theorem strl_unresolved_key_empty_witness:
  "read_strls rdr_nostrl =
     Some (rdr_nostrl\<lparr>Strls := [0 \<mapsto> []],
             reader := \<lparr>content = content (reader rdr_nostrl), pos = 10\<rparr>\<rparr>)
   \<and> Strls (rdr_nostrl\<lparr>Strls := [0 \<mapsto> []],
              reader := \<lparr>content = content (reader rdr_nostrl), pos = 10\<rparr>\<rparr>) 0 \<noteq> None
   \<and> cells_ready
        (rdr_nostrl\<lparr>Strls := [0 \<mapsto> []],
            reader := \<lparr>content = content (reader rdr_nostrl), pos = 15\<rparr>\<rparr>)
        1 (rv_one (ColString [''stale'']))
   \<and> read_cell 0 0
        (rdr_nostrl\<lparr>Strls := [0 \<mapsto> []],
            reader := \<lparr>content = content (reader rdr_nostrl), pos = 15\<rparr>\<rparr>)
        (rv_one (ColString [''stale''])) =
       Inr (rdr_nostrl\<lparr>Strls := [0 \<mapsto> []],
               reader := \<lparr>content = content (reader rdr_nostrl), pos = 23\<rparr>\<rparr>,
            rv_one (ColString [[]]))"
proof -
  let ?R = "rdr_nostrl\<lparr>Strls := [0 \<mapsto> []],
              reader := \<lparr>content = content (reader rdr_nostrl), pos = 15\<rparr>\<rparr>"
  let ?V = "rv_one (ColString [''stale''])"
  have f: "ByteOrder rdr_nostrl = LittleEndian" "InsertStrls rdr_nostrl"
    "VarTypes rdr_nostrl = [32768]" "ValueLabelNames rdr_nostrl = [''lbl'']"
    by (simp_all add: rdr_nostrl_def rdr_one_def new_StataReader_def)
  have pre: "cells_ready ?R 1 ?V"
    by (simp add: cells_ready_def same_shape_def alloc_column_def rv_one_def f)
  have key: "binary_Read (ByteOrder ?R) (0 :: 64 word) (reader ?R) =
      (65537, \<lparr>content = content (reader rdr_nostrl), pos = 23\<rparr>)"
    by (simp add: f nostrl_reads)
  from strl_unresolved_key_empty [OF pre _ _ _ _ key, of 0 0 rdr_nostrl
      "rdr_nostrl\<lparr>Strls := [0 \<mapsto> []],
         reader := \<lparr>content = content (reader rdr_nostrl), pos = 10\<rparr>\<rparr>"]
    pre
  show ?thesis
    by (simp add: f nostrl_reads(1) rv_one_def)
qed

section \<open>Category labels\<close>

lemma Sprintf_v_examples:
  "Sprintf_v 5 = ''5''" "Sprintf_v (- 3) = ''-3''" "Sprintf_v 100 = ''100''"
  by code_simp+

text \<open>
  Claim C8. In a row of a table allocated by \<open>Read\<close>, with label substitution on, decoding
  the cell of a byte column succeeds and stores a string: the decimal numeral of the byte
  when the column's label set does not exist or has no entry for the byte, and the entry
  otherwise. The numeral of 5 is \<open>5\<close>.
\<close>

theorem category_label_fallback:
  assumes ready: "cells_ready rdr n rv" and i: "i < n" and j: "j < length (VarTypes rdr)"
    and t: "VarTypes rdr ! j = 65530" and ins: "InsertCategoryLabels rdr"
    and byte: "binary_Read (ByteOrder rdr) (0 :: 8 word) (reader rdr) = (x, s)"
  shows "\<exists>rv' xs v. read_cell i j rdr rv = Inr (rdr\<lparr>reader := s\<rparr>, rv')
       \<and> rv_data rv ! j = ColString xs
       \<and> rv_data rv' = (rv_data rv)[j := ColString (xs[i := v])]
       \<and> (ValueLabels rdr (ValueLabelNames rdr ! j) = None \<longrightarrow> v = Sprintf_v (sint x))
       \<and> (\<forall>mp. ValueLabels rdr (ValueLabelNames rdr ! j) = Some mp \<and> mp (scast x) = None
              \<longrightarrow> v = Sprintf_v (sint x))
       \<and> (\<forall>mp l. ValueLabels rdr (ValueLabelNames rdr ! j) = Some mp \<and> mp (scast x) = Some l
              \<longrightarrow> v = l)
       \<and> Sprintf_v 5 = ''5'' \<and> Sprintf_v (- 3) = ''-3'' \<and> Sprintf_v 100 = ''100''"
proof -
  note r = cell_numeric_ready [OF ready i j]
  from r(9) [OF t ins] obtain xs where xs: "rv_data rv ! j = ColString xs" "i < length xs"
    by blast
  have jl: "j < length (ValueLabelNames rdr)"
    using cells_ready_nth(6) [OF ready j] .
  define v where "v = (case ValueLabels rdr (ValueLabelNames rdr ! j) of
                         None \<Rightarrow> Sprintf_v (sint x)
                       | Some mp \<Rightarrow>
                           (case mp (scast x) of None \<Rightarrow> Sprintf_v (sint x) | Some l \<Rightarrow> l))"
  define rv' where "rv' = rv\<lparr>rv_data := (rv_data rv)[j := ColString (xs[i := v])],
                   rv_missing := (rv_missing rv)
                     [j := (rv_missing rv ! j)[i := (rv_missing rv ! j ! i \<or> int8_missing x)]]\<rparr>"
  have c: "read_cell i j rdr rv = Inr (rdr\<lparr>reader := s\<rparr>, rv')"
    unfolding rv'_def v_def by (rule read_cell_int8_label [OF j t ins jl r(1) xs r(2,3) byte])
  have d: "rv_data rv' = (rv_data rv)[j := ColString (xs[i := v])]"
    by (simp add: rv'_def)
  have v1: "ValueLabels rdr (ValueLabelNames rdr ! j) = None \<longrightarrow> v = Sprintf_v (sint x)"
    by (simp add: v_def)
  have v2: "\<forall>mp. ValueLabels rdr (ValueLabelNames rdr ! j) = Some mp \<and> mp (scast x) = None
              \<longrightarrow> v = Sprintf_v (sint x)"
    by (simp add: v_def)
  have v3: "\<forall>mp l. ValueLabels rdr (ValueLabelNames rdr ! j) = Some mp \<and> mp (scast x) = Some l
              \<longrightarrow> v = l"
    by (simp add: v_def)
  from c xs(1) d v1 v2 v3 Sprintf_v_examples show ?thesis
    by (intro exI [of _ rv'] exI [of _ xs] exI [of _ v]) simp
qed

lemma label_reads:
  "binary_Read LittleEndian (0 :: 8 word) \<lparr>content = [CHR 0x05], pos = 0\<rparr> =
     (5, \<lparr>content = [CHR 0x05], pos = 1\<rparr>)"
  "binary_Read LittleEndian (0 :: 8 word) \<lparr>content = [CHR 0x01], pos = 0\<rparr> =
     (1, \<lparr>content = [CHR 0x01], pos = 1\<rparr>)"
  by (simp_all add: binary_Read_def small_reads uint_of_def be_nat_def)

lemma rdr_one_fields:
  "ByteOrder (rdr_one t bs) = LittleEndian" "reader (rdr_one t bs) = \<lparr>content = bs, pos = 0\<rparr>"
  "VarTypes (rdr_one t bs) = [t]" "ValueLabelNames (rdr_one t bs) = [''lbl'']"
  "ValueLabels (rdr_one t bs) = [''lbl'' \<mapsto> [1 \<mapsto> ''one'']]"
  "InsertCategoryLabels (rdr_one t bs)" "InsertStrls (rdr_one t bs)"
  by (simp_all add: rdr_one_def new_StataReader_def)

lemma label_ready:
  "cells_ready (rdr_one 65530 bs) 1 (rv_one (ColString [[]]))"
  "cells_ready ((rdr_one 65530 bs)\<lparr>ValueLabelNames := [''none'']\<rparr>) 1 (rv_one (ColString [[]]))"
  by (simp_all add: cells_ready_def same_shape_def alloc_column_def rv_one_def rdr_one_fields)

theorem category_label_fallback_witness:
  "cells_ready (rdr_one 65530 [CHR 0x05]) 1 (rv_one (ColString [[]]))
   \<and> (\<exists>rv'. read_cell 0 0 (rdr_one 65530 [CHR 0x05]) (rv_one (ColString [[]])) =
              Inr ((rdr_one 65530 [CHR 0x05])\<lparr>reader := \<lparr>content = [CHR 0x05], pos = 1\<rparr>\<rparr>, rv')
            \<and> rv_data rv' = [ColString [''5'']])
   \<and> (\<exists>rv'. read_cell 0 0 (rdr_one 65530 [CHR 0x01]) (rv_one (ColString [[]])) =
              Inr ((rdr_one 65530 [CHR 0x01])\<lparr>reader := \<lparr>content = [CHR 0x01], pos = 1\<rparr>\<rparr>, rv')
            \<and> rv_data rv' = [ColString [''one'']])
   \<and> (\<exists>rv'. read_cell 0 0 ((rdr_one 65530 [CHR 0x05])\<lparr>ValueLabelNames := [''none'']\<rparr>)
                (rv_one (ColString [[]])) =
              Inr ((rdr_one 65530 [CHR 0x05])
                     \<lparr>ValueLabelNames := [''none''],
                      reader := \<lparr>content = [CHR 0x05], pos = 1\<rparr>\<rparr>, rv')
            \<and> rv_data rv' = [ColString [''5'']])"
proof -
  have sc: "scast (5 :: 8 word) = (5 :: 32 word)" "scast (1 :: 8 word) = (1 :: 32 word)"
    "sint (5 :: 8 word) = 5"
    by simp_all
  have a: "\<exists>rv'. read_cell 0 0 (rdr_one 65530 [CHR 0x05]) (rv_one (ColString [[]])) =
              Inr ((rdr_one 65530 [CHR 0x05])\<lparr>reader := \<lparr>content = [CHR 0x05], pos = 1\<rparr>\<rparr>, rv')
            \<and> rv_data rv' = [ColString [''5'']]"
    using category_label_fallback [OF label_ready(1), of 0 0 "[CHR 0x05]" 5
        "\<lparr>content = [CHR 0x05], pos = 1\<rparr>"]
    by (auto simp: rdr_one_fields label_reads rv_one_def sc)
  have b: "\<exists>rv'. read_cell 0 0 (rdr_one 65530 [CHR 0x01]) (rv_one (ColString [[]])) =
              Inr ((rdr_one 65530 [CHR 0x01])\<lparr>reader := \<lparr>content = [CHR 0x01], pos = 1\<rparr>\<rparr>, rv')
            \<and> rv_data rv' = [ColString [''one'']]"
    using category_label_fallback [OF label_ready(1), of 0 0 "[CHR 0x01]" 1
        "\<lparr>content = [CHR 0x01], pos = 1\<rparr>"]
    by (auto simp: rdr_one_fields label_reads rv_one_def sc)
  have c: "\<exists>rv'. read_cell 0 0 ((rdr_one 65530 [CHR 0x05])\<lparr>ValueLabelNames := [''none'']\<rparr>)
                (rv_one (ColString [[]])) =
              Inr ((rdr_one 65530 [CHR 0x05])
                     \<lparr>ValueLabelNames := [''none''],
                      reader := \<lparr>content = [CHR 0x05], pos = 1\<rparr>\<rparr>, rv')
            \<and> rv_data rv' = [ColString [''5'']]"
    using category_label_fallback [OF label_ready(2), of 0 0 "[CHR 0x05]" 5
        "\<lparr>content = [CHR 0x05], pos = 1\<rparr>"]
    by (auto simp: rdr_one_fields label_reads rv_one_def sc)
  from label_ready(1) a b c show ?thesis by blast
qed

section \<open>Date conversion\<close>

text \<open>
  Claim C9. \<open>do_convert_dates\<close> on the day counts 0, 1, 106751 and 106752 and on the
  millisecond count 1000, in nanoseconds since 1960-01-01T00:00:00 UTC: day 0 is the epoch,
  day 1 is 86400 seconds later, 1000 milliseconds are one second later, day 106751 is
  106751 days later; for day 106752 the product of the day count and the 24 hours does not
  fit the 64 bits of \<^verbatim>\<open>time.Duration\<close>, and the result lies 9223371273709551616
  nanoseconds before the epoch instead of 9223372800000000000 nanoseconds after it.
\<close>

theorem do_convert_dates_day_overflow:
  "do_convert_dates (ColInt32 [0, 1, 106751, 106752]) ''%tdNN/DD/CCYY'' =
     Inr (ColTime [0, 86400000000000, 9223286400000000000, - 9223371273709551616])
   \<and> do_convert_dates (ColInt32 [1000]) ''%tc'' = Inr (ColTime [1000000000])
   \<and> 106752 * 86400000000000 = (9223372800000000000 :: int)"
  by (simp add: do_convert_dates_def has_prefix_def Time_Add_def bt_def Hour_def
      Millisecond_def)

section \<open>Date columns that are not 32-bit integers\<close>

text \<open>
  Claim C10. With date conversion on, a column \<open>j\<close> whose format starts with \<open>%td\<close> or \<open>%tc\<close>
  and whose type tag is not 65528 makes \<open>Read\<close> end in a panic, for every requested row
  count: either a cell cannot be decoded before the date pass, or the date pass reaches
  column \<open>j\<close>, finds something other than 32-bit integers there, and panics.
\<close>

theorem Read_date_column_not_int32:
  assumes conv: "ConvertDates rdr"
    and j: "j < nat (Nvar rdr)"
    and fm: "is_date rdr = map is_date_format (Formats rdr)" "j < length (Formats rdr)"
      "has_prefix ''%td'' (Formats rdr ! j) \<or> has_prefix ''%tc'' (Formats rdr ! j)"
    and ty: "j < length (VarTypes rdr) \<longrightarrow> VarTypes rdr ! j \<noteq> 65528"
  shows "\<exists>m. Read rows rdr = Inl (Panic m)"
proof -
  define nval0 where "nval0 = RowCount rdr - rows_read rdr"
  define nval where "nval = (if rows \<ge> 0 \<and> nval0 > rows then rows else nval0)"
  define d0 where "d0 = map (\<lambda>j. if j < length (VarTypes rdr)
                                then alloc_column rdr (nat nval) (VarTypes rdr ! j)
                                else ColNil) [0..<nat (Nvar rdr)]"
  define m0 where "m0 = replicate (nat (Nvar rdr)) (replicate (nat nval) False)"
  define rdr1 where "rdr1 = (if FormatVersion rdr \<ge> 117
                        then rdr\<lparr>reader := Seek_set (sint (seek_data rdr + 6)) (reader rdr)\<rparr>
                        else rdr)"
  define rv0 where "rv0 = \<lparr>rv_data = d0, rv_missing = m0, rv_buf = replicate 2045 (CHR 0x00)\<rparr>"
  have isd: "is_date rdr ! j" using fm by (auto simp: is_date_format_def)
  have k0: "col_kind (d0 ! j) \<noteq> 5"
    using j ty by (simp add: d0_def alloc_kind_int32)
  have l0: "length d0 = nat (Nvar rdr)" by (simp add: d0_def)
  have r1: "\<exists>s. rdr1 = rdr\<lparr>reader := s\<rparr>" unfolding rdr1_def by (cases "FormatVersion rdr \<ge> 117") (simp_all, blast)
  have rest: "\<exists>m. bindE (read_rows (nat nval) 0 rdr1 rv0) (\<lambda>(rdr, rv).
                bindE (if ConvertDates rdr
                       then convert_dates (length (rv_data rv)) 0 rdr (rv_data rv)
                       else Inr (rv_data rv)) (\<lambda>d.
                bindE (make_series (length d) 0 rdr d (rv_missing rv)) (\<lambda>rdata.
                Inr (rdata, rdr)))) = Inl (Panic m)"
  proof (cases "read_rows (nat nval) 0 rdr1 rv0")
    case (Inl e)
    with read_rows_panics [OF Inl] show ?thesis by auto
  next
    case (Inr p)
    obtain rdr2 rv2 where p: "p = (rdr2, rv2)" by (cases p)
    from read_rows_step [OF Inr [unfolded p]] r1 obtain s r where
      r2: "rdr2 = rdr\<lparr>reader := s, rows_read := r\<rparr>"
      and sh: "same_shape (rv_data rv2) d0"
      unfolding rows_step_def rv0_def by auto
    have len: "length (rv_data rv2) = nat (Nvar rdr)" using same_shape_nth(1) [OF sh] l0 by simp
    have kind: "col_kind (rv_data rv2 ! j) \<noteq> 5"
      using same_shape_nth(2) [OF sh, of j] k0 l0 j by simp
    have "\<exists>m. convert_dates (length (rv_data rv2)) 0 rdr2 (rv_data rv2) = Inl (Panic m)"
      using j len isd kind r2 by (intro convert_dates_fails) simp_all
    then show ?thesis using Inr p r2 conv by auto
  qed
  show ?thesis
    unfolding Read_def Let_def
    unfolding nval0_def [symmetric]
    unfolding nval_def [symmetric]
    unfolding d0_def [symmetric] m0_def [symmetric] rdr1_def [symmetric]
    unfolding rv0_def [symmetric]
    using rest by auto
qed

theorem Read_date_column_not_int32_witness:
  "ConvertDates rdr_date \<and> (0 :: nat) < nat (Nvar rdr_date)
   \<and> is_date rdr_date = map is_date_format (Formats rdr_date)
   \<and> has_prefix ''%td'' (Formats rdr_date ! 0)
   \<and> VarTypes rdr_date ! 0 = 3
   \<and> (\<exists>m. Read (- 1) rdr_date = Inl (Panic m))"
  using Read_date_column_not_int32 [of rdr_date 0 "- 1"]
  by (simp add: rdr_date_def rdr_one_def new_StataReader_def is_date_format_def has_prefix_def)
end
